theory Spec2Isabelle
  imports Main "HOL-Library.Word"
begin

unbundle bit_operations_syntax

chapter \<open>The UVM tracking allocator and the CPU mapping and fault entry points\<close>

text \<open>
  A shallow embedding of \<^verbatim>\<open>kernel-open/nvidia-uvm/uvm_kvmalloc.c\<close> and of the
  mapping, fault and release callbacks of \<^verbatim>\<open>kernel-open/nvidia-uvm/uvm.c\<close>.
  Globals of the C files are fields of a state record that every function takes and
  returns. Pointers, \<^verbatim>\<open>size_t\<close>, \<^verbatim>\<open>NvU64\<close> and \<^verbatim>\<open>atomic_long_t\<close> are 64-bit
  words. The \<^verbatim>\<open>printk\<close> calls and the \<^verbatim>\<open>count_*\<close> call counters that the file adds
  around each function only log and are left out.
\<close>

section \<open>uvm_kvmalloc.c: data\<close>

type_synonym addr = "64 word"
type_synonym size_t = "64 word"
type_synonym byte = "8 word"

text \<open>\<^verbatim>\<open>uvm_kvmalloc_info_t\<close>; the tree node's key is the key of the table below.\<close>

record uvm_kvmalloc_info_t =
  info_file :: string
  info_function :: string
  info_line :: int

text \<open>
  Values of the module parameter \<^verbatim>\<open>uvm_leak_checker\<close> (\<^verbatim>\<open>uvm_kvmalloc_leak_check_t\<close>).
\<close>

definition UVM_KVMALLOC_LEAK_CHECK_NONE :: int where
  "UVM_KVMALLOC_LEAK_CHECK_NONE = 0"

definition UVM_KVMALLOC_LEAK_CHECK_BYTES :: int where
  "UVM_KVMALLOC_LEAK_CHECK_BYTES = 1"

definition UVM_KVMALLOC_LEAK_CHECK_ORIGIN :: int where
  "UVM_KVMALLOC_LEAK_CHECK_ORIGIN = 2"

text \<open>
  What the file takes from headers that are not part of the sources: the threshold
  macro \<^verbatim>\<open>UVM_KMALLOC_THRESHOLD\<close> and the bounds of the kernel's vmalloc address
  range. The module parameter is read-only after load and is kept here too.
\<close>

record config =
  uvm_leak_checker :: int
  UVM_KMALLOC_THRESHOLD :: size_t
  VMALLOC_START :: addr
  VMALLOC_END :: addr

text \<open>
  The kernel's allocators are outside the repository. A slab object has a usable size
  (\<^verbatim>\<open>ksize\<close>) and its bytes; a vmalloc area, keyed by its base address, has its length,
  the header field \<^verbatim>\<open>alloc_size\<close> of \<^verbatim>\<open>uvm_vmalloc_hdr_t\<close> that sits in its first
  eight bytes, and the payload bytes after the header.
\<close>

record kobject =
  kusable :: size_t
  kdata :: "byte list"

record varea =
  vlen :: size_t
  alloc_size :: size_t
  vdata :: "byte list"

text \<open>
  Whether an allocator call succeeds, where it places the object, how large the slab
  bucket is and what the fresh memory holds is the kernel's choice: each call consumes
  one entry of a list of outcomes.
\<close>

datatype alloc_outcome = AllocFail | AllocAt addr size_t "byte list"

record uvm_state =
  kslab :: "addr \<rightharpoonup> kobject"
  vareas :: "addr \<rightharpoonup> varea"
  outcomes :: "alloc_outcome list"
  g_malloc_initialized :: bool
  bytes_allocated :: "64 word"
  untracked_allocations :: "64 word"
  allocation_info :: "addr \<rightharpoonup> uvm_kvmalloc_info_t"
  assert_failed :: bool

definition NULL :: addr where
  "NULL = 0"

text \<open>\<^verbatim>\<open>ZERO_SIZE_PTR\<close> and \<^verbatim>\<open>ZERO_OR_NULL_PTR\<close> of \<^verbatim>\<open>linux/slab.h\<close>.\<close>

definition ZERO_SIZE_PTR :: addr where
  "ZERO_SIZE_PTR = 16"

definition ZERO_OR_NULL_PTR :: "addr \<Rightarrow> bool" where
  "ZERO_OR_NULL_PTR p = (p \<le> ZERO_SIZE_PTR)"

text \<open>\<^verbatim>\<open>sizeof(uvm_vmalloc_hdr_t)\<close>, fixed by the two \<^verbatim>\<open>BUILD_BUG_ON\<close> of \<^verbatim>\<open>alloc_internal\<close>.\<close>

definition sizeof_hdr :: size_t where
  "sizeof_hdr = 8"

text \<open>
  \<^verbatim>\<open>UVM_ASSERT\<close> logs a violated condition and goes on; the state remembers that one
  was violated.
\<close>

definition UVM_ASSERT :: "bool \<Rightarrow> uvm_state \<Rightarrow> uvm_state" where
  "UVM_ASSERT b s = s\<lparr>assert_failed := assert_failed s \<or> \<not> b\<rparr>"

section \<open>The kernel allocators\<close>

definition is_vmalloc_addr :: "config \<Rightarrow> addr \<Rightarrow> bool" where
  "is_vmalloc_addr c p = (VMALLOC_START c \<le> p \<and> p < VMALLOC_END c)"

text \<open>Fresh memory of \<open>n\<close> bytes holding what the kernel left there.\<close>

definition fresh_bytes :: "nat \<Rightarrow> byte list \<Rightarrow> byte list" where
  "fresh_bytes n g = take n (g @ replicate n 0)"

text \<open>
  A slab address is above \<^verbatim>\<open>ZERO_SIZE_PTR\<close>, outside the vmalloc range and not in
  use, and the bucket holds the request. A vmalloc area is made of whole pages of the
  vmalloc range, so the address right after the header lies in the range too (and
  the sum does not wrap). An
  outcome that breaks this is not one the kernel produces and counts as a failed call.
\<close>

definition valid_kaddr :: "config \<Rightarrow> uvm_state \<Rightarrow> addr \<Rightarrow> size_t \<Rightarrow> size_t \<Rightarrow> bool" where
  "valid_kaddr c s a usable sz =
     (\<not> ZERO_OR_NULL_PTR a \<and> \<not> is_vmalloc_addr c a \<and> kslab s a = None \<and> sz \<le> usable)"

definition valid_vaddr :: "config \<Rightarrow> uvm_state \<Rightarrow> addr \<Rightarrow> bool" where
  "valid_vaddr c s a =
     (a \<noteq> NULL \<and> a \<le> a + sizeof_hdr \<and> is_vmalloc_addr c a \<and>
      is_vmalloc_addr c (a + sizeof_hdr) \<and> vareas s a = None)"

definition kmalloc_common :: "config \<Rightarrow> size_t \<Rightarrow> bool \<Rightarrow> uvm_state \<Rightarrow> addr \<times> uvm_state" where
  "kmalloc_common c sz zero s =
     (if sz = 0 then (ZERO_SIZE_PTR, s)
      else case outcomes s of
        [] \<Rightarrow> (NULL, s)
      | AllocFail # os \<Rightarrow> (NULL, s\<lparr>outcomes := os\<rparr>)
      | AllocAt a usable g # os \<Rightarrow>
          if valid_kaddr c s a usable sz
          then (a, s\<lparr>outcomes := os,
                      kslab := (kslab s)(a \<mapsto>
                        \<lparr>kusable = usable,
                         kdata = (if zero then replicate (unat usable) 0
                                  else fresh_bytes (unat usable) g)\<rparr>)\<rparr>)
          else (NULL, s\<lparr>outcomes := os\<rparr>))"

definition kmalloc :: "config \<Rightarrow> size_t \<Rightarrow> uvm_state \<Rightarrow> addr \<times> uvm_state" where
  "kmalloc c sz s = kmalloc_common c sz False s"

definition kzalloc :: "config \<Rightarrow> size_t \<Rightarrow> uvm_state \<Rightarrow> addr \<times> uvm_state" where
  "kzalloc c sz s = kmalloc_common c sz True s"

definition ksize :: "addr \<Rightarrow> uvm_state \<Rightarrow> size_t" where
  "ksize p s =
     (if ZERO_OR_NULL_PTR p then 0
      else case kslab s p of None \<Rightarrow> 0 | Some ob \<Rightarrow> kusable ob)"

definition kfree :: "addr \<Rightarrow> uvm_state \<Rightarrow> uvm_state" where
  "kfree p s = (if ZERO_OR_NULL_PTR p then s else s\<lparr>kslab := (kslab s)(p := None)\<rparr>)"

definition vmalloc_common :: "config \<Rightarrow> size_t \<Rightarrow> bool \<Rightarrow> uvm_state \<Rightarrow> addr \<times> uvm_state" where
  "vmalloc_common c sz zero s =
     (if sz = 0 then (NULL, s)
      else case outcomes s of
        [] \<Rightarrow> (NULL, s)
      | AllocFail # os \<Rightarrow> (NULL, s\<lparr>outcomes := os\<rparr>)
      | AllocAt a hdr0 g # os \<Rightarrow>
          if valid_vaddr c s a
          then (a, s\<lparr>outcomes := os,
                      vareas := (vareas s)(a \<mapsto>
                        \<lparr>vlen = sz,
                         alloc_size = (if zero then 0 else hdr0),
                         vdata = (if zero then replicate (unat sz - unat sizeof_hdr) 0
                                  else fresh_bytes (unat sz - unat sizeof_hdr) g)\<rparr>)\<rparr>)
          else (NULL, s\<lparr>outcomes := os\<rparr>))"

definition vmalloc :: "config \<Rightarrow> size_t \<Rightarrow> uvm_state \<Rightarrow> addr \<times> uvm_state" where
  "vmalloc c sz s = vmalloc_common c sz False s"

definition vzalloc :: "config \<Rightarrow> size_t \<Rightarrow> uvm_state \<Rightarrow> addr \<times> uvm_state" where
  "vzalloc c sz s = vmalloc_common c sz True s"

definition vfree :: "addr \<Rightarrow> uvm_state \<Rightarrow> uvm_state" where
  "vfree a s = (if a = NULL then s else s\<lparr>vareas := (vareas s)(a := None)\<rparr>)"

text \<open>
  \<^verbatim>\<open>memcpy\<close> between allocations of this layer: the bytes of an allocation are those
  of the slab object at the pointer, or the payload of the vmalloc area whose header
  ends at the pointer.
\<close>

definition read_bytes :: "addr \<Rightarrow> nat \<Rightarrow> uvm_state \<Rightarrow> byte list" where
  "read_bytes p n s =
     (case kslab s p of
        Some ob \<Rightarrow> take n (kdata ob)
      | None \<Rightarrow> (case vareas s (p - sizeof_hdr) of
                   Some ar \<Rightarrow> take n (vdata ar)
                 | None \<Rightarrow> []))"

definition write_bytes :: "addr \<Rightarrow> byte list \<Rightarrow> uvm_state \<Rightarrow> uvm_state" where
  "write_bytes p bs s =
     (case kslab s p of
        Some ob \<Rightarrow> s\<lparr>kslab := (kslab s)(p \<mapsto> ob\<lparr>kdata := bs @ drop (length bs) (kdata ob)\<rparr>)\<rparr>
      | None \<Rightarrow> (case vareas s (p - sizeof_hdr) of
                   Some ar \<Rightarrow> s\<lparr>vareas := (vareas s)(p - sizeof_hdr \<mapsto>
                                  ar\<lparr>vdata := bs @ drop (length bs) (vdata ar)\<rparr>)\<rparr>
                 | None \<Rightarrow> s))"

definition memcpy :: "addr \<Rightarrow> addr \<Rightarrow> size_t \<Rightarrow> uvm_state \<Rightarrow> uvm_state" where
  "memcpy dst src n s = write_bytes dst (read_bytes src (unat n) s) s"

text \<open>
  \<^verbatim>\<open>krealloc\<close> as the kernel documents it: a new size of zero frees the object and
  returns \<^verbatim>\<open>ZERO_SIZE_PTR\<close>; a request that fits the bucket returns the object; a
  larger one moves the object, and leaves it untouched when the allocation fails.
\<close>

definition krealloc :: "config \<Rightarrow> addr \<Rightarrow> size_t \<Rightarrow> uvm_state \<Rightarrow> addr \<times> uvm_state" where
  "krealloc c p new_size s =
     (if new_size = 0 then (ZERO_SIZE_PTR, kfree p s)
      else if ZERO_OR_NULL_PTR p then kmalloc c new_size s
      else if new_size \<le> ksize p s then (p, s)
      else (let (new_p, s1) = kmalloc c new_size s in
            if new_p = NULL then (NULL, s1)
            else (new_p, kfree p (memcpy new_p p (ksize p s) s1))))"

text \<open>\<^verbatim>\<open>nv_kmem_cache_zalloc\<close> of an info node: only whether it succeeds matters.\<close>

definition nv_kmem_cache_zalloc :: "uvm_state \<Rightarrow> bool \<times> uvm_state" where
  "nv_kmem_cache_zalloc s =
     (case outcomes s of
        [] \<Rightarrow> (False, s)
      | AllocFail # os \<Rightarrow> (False, s\<lparr>outcomes := os\<rparr>)
      | AllocAt a u g # os \<Rightarrow> (True, s\<lparr>outcomes := os\<rparr>))"

section \<open>uvm_kvmalloc.c: the tracking table\<close>

text \<open>
  Modelled from the spec: the ordered index keyed by address that holds the
  per-allocation origin records (\<^verbatim>\<open>uvm_rb_tree_insert\<close>, \<^verbatim>\<open>uvm_rb_tree_find\<close> and
  \<^verbatim>\<open>uvm_rb_tree_remove\<close> of \<^verbatim>\<open>uvm_rb_tree.h\<close>, which is not among the sources). The
  index is a finite map from the key to the record; inserting a key that is present
  fails and changes nothing.
\<close>

definition uvm_rb_tree_insert ::
  "addr \<Rightarrow> uvm_kvmalloc_info_t \<Rightarrow> uvm_state \<Rightarrow> bool \<times> uvm_state" where
  "uvm_rb_tree_insert key info s =
     (case allocation_info s key of
        Some old \<Rightarrow> (False, s)
      | None \<Rightarrow> (True, s\<lparr>allocation_info := (allocation_info s)(key \<mapsto> info)\<rparr>))"

definition uvm_rb_tree_find :: "addr \<Rightarrow> uvm_state \<Rightarrow> uvm_kvmalloc_info_t option" where
  "uvm_rb_tree_find key s = allocation_info s key"

definition uvm_rb_tree_remove :: "addr \<Rightarrow> uvm_state \<Rightarrow> uvm_state" where
  "uvm_rb_tree_remove key s = s\<lparr>allocation_info := (allocation_info s)(key := None)\<rparr>"

definition insert_info :: "addr \<Rightarrow> uvm_kvmalloc_info_t \<Rightarrow> uvm_state \<Rightarrow> uvm_state" where
  "insert_info key info s =
     (let (status_ok, s1) = uvm_rb_tree_insert key info s in
      UVM_ASSERT status_ok s1)"

text \<open>
  \<^verbatim>\<open>remove_info\<close>: the record of \<open>p\<close>, taken out of the table. When there is none the
  allocation was one whose record could not be allocated, and the count of those drops
  by one; the assertion reads the counter as a signed long.
\<close>

definition remove_info :: "addr \<Rightarrow> uvm_state \<Rightarrow> uvm_kvmalloc_info_t option \<times> uvm_state" where
  "remove_info p s =
     (case uvm_rb_tree_find p s of
        None \<Rightarrow>
          (let s1 = UVM_ASSERT (0 < sint (untracked_allocations s)) s in
           (None, s1\<lparr>untracked_allocations := untracked_allocations s1 - 1\<rparr>))
      | Some info \<Rightarrow> (Some info, uvm_rb_tree_remove p s))"

section \<open>uvm_kvmalloc.c: sizes\<close>

definition get_hdr :: "config \<Rightarrow> addr \<Rightarrow> uvm_state \<Rightarrow> addr \<times> uvm_state" where
  "get_hdr c p s =
     (let s1 = UVM_ASSERT (is_vmalloc_addr c p) s;
          hdr = p - sizeof_hdr;
          stored = (case vareas s1 hdr of None \<Rightarrow> 0 | Some ar \<Rightarrow> alloc_size ar)
      in (hdr, UVM_ASSERT (UVM_KMALLOC_THRESHOLD c < stored) s1))"

text \<open>The field \<^verbatim>\<open>alloc_size\<close> read through a header pointer.\<close>

definition hdr_alloc_size :: "addr \<Rightarrow> uvm_state \<Rightarrow> size_t" where
  "hdr_alloc_size hdr s = (case vareas s hdr of None \<Rightarrow> 0 | Some ar \<Rightarrow> alloc_size ar)"

definition uvm_kvsize :: "config \<Rightarrow> addr \<Rightarrow> uvm_state \<Rightarrow> size_t \<times> uvm_state" where
  "uvm_kvsize c p s =
     (let s1 = UVM_ASSERT (g_malloc_initialized s) s;
          s2 = UVM_ASSERT (p \<noteq> NULL) s1
      in if is_vmalloc_addr c p
         then (let (hdr, s3) = get_hdr c p s2 in (hdr_alloc_size hdr s3, s3))
         else (ksize p s2, s2))"

section \<open>uvm_kvmalloc.c: leak tracking\<close>

definition alloc_tracking_add ::
  "config \<Rightarrow> addr \<Rightarrow> string \<Rightarrow> int \<Rightarrow> string \<Rightarrow> uvm_state \<Rightarrow> uvm_state" where
  "alloc_tracking_add c p file line function s =
     (let (sz, s1) = uvm_kvsize c p s;
          s2 = UVM_ASSERT (g_malloc_initialized s1) s1
      in if ZERO_OR_NULL_PTR p then s2
         else
           (let s3 = s2\<lparr>bytes_allocated := bytes_allocated s2 + sz\<rparr>
            in if UVM_KVMALLOC_LEAK_CHECK_ORIGIN \<le> uvm_leak_checker c
               then (let (got, s4) = nv_kmem_cache_zalloc s3
                     in if \<not> got
                        then s4\<lparr>untracked_allocations := untracked_allocations s4 + 1\<rparr>
                        else insert_info p
                               \<lparr>info_file = file, info_function = function, info_line = line\<rparr> s4)
               else s3))"

definition alloc_tracking_remove :: "config \<Rightarrow> addr \<Rightarrow> uvm_state \<Rightarrow> uvm_state" where
  "alloc_tracking_remove c p s =
     (let (sz, s1) = uvm_kvsize c p s;
          s2 = UVM_ASSERT (g_malloc_initialized s1) s1
      in if ZERO_OR_NULL_PTR p then s2
         else
           (let s3 = s2\<lparr>bytes_allocated := bytes_allocated s2 - sz\<rparr>
            in if UVM_KVMALLOC_LEAK_CHECK_ORIGIN \<le> uvm_leak_checker c
               then snd (remove_info p s3)
               else s3))"

section \<open>uvm_kvmalloc.c: allocate, free, reallocate\<close>

definition set_alloc_size :: "addr \<Rightarrow> size_t \<Rightarrow> uvm_state \<Rightarrow> uvm_state" where
  "set_alloc_size hdr sz s =
     (case vareas s hdr of
        None \<Rightarrow> s
      | Some ar \<Rightarrow> s\<lparr>vareas := (vareas s)(hdr \<mapsto> ar\<lparr>alloc_size := sz\<rparr>)\<rparr>)"

definition alloc_internal :: "config \<Rightarrow> size_t \<Rightarrow> bool \<Rightarrow> uvm_state \<Rightarrow> addr \<times> uvm_state" where
  "alloc_internal c sz zero_memory s =
     (if sz \<le> UVM_KMALLOC_THRESHOLD c
      then (if zero_memory then kzalloc c sz s else kmalloc c sz s)
      else
        (let (hdr, s1) = (if zero_memory then vzalloc c (sizeof_hdr + sz) s
                          else vmalloc c (sizeof_hdr + sz) s)
         in if hdr = NULL then (NULL, s1)
            else (hdr + sizeof_hdr, set_alloc_size hdr sz s1)))"

text \<open>
  \<^verbatim>\<open>__uvm_kvmalloc\<close>, \<^verbatim>\<open>__uvm_kvmalloc_zero\<close> and \<^verbatim>\<open>__uvm_kvrealloc\<close> are written
  without the leading underscores, as the macros that pass them the call site are.
\<close>

definition uvm_kvmalloc ::
  "config \<Rightarrow> size_t \<Rightarrow> string \<Rightarrow> int \<Rightarrow> string \<Rightarrow> uvm_state \<Rightarrow> addr \<times> uvm_state" where
  "uvm_kvmalloc c sz file line function s =
     (let (p, s1) = alloc_internal c sz False s
      in if uvm_leak_checker c \<noteq> 0 \<and> p \<noteq> NULL
         then (p, alloc_tracking_add c p file line function s1)
         else (p, s1))"

definition uvm_kvmalloc_zero ::
  "config \<Rightarrow> size_t \<Rightarrow> string \<Rightarrow> int \<Rightarrow> string \<Rightarrow> uvm_state \<Rightarrow> addr \<times> uvm_state" where
  "uvm_kvmalloc_zero c sz file line function s =
     (let (p, s1) = alloc_internal c sz True s
      in if uvm_leak_checker c \<noteq> 0 \<and> p \<noteq> NULL
         then (p, alloc_tracking_add c p file line function s1)
         else (p, s1))"

definition uvm_kvfree :: "config \<Rightarrow> addr \<Rightarrow> uvm_state \<Rightarrow> uvm_state" where
  "uvm_kvfree c p s =
     (if p = NULL then s
      else
        (let s1 = (if uvm_leak_checker c \<noteq> 0 then alloc_tracking_remove c p s else s)
         in if is_vmalloc_addr c p
            then (let (hdr, s2) = get_hdr c p s1 in vfree hdr s2)
            else kfree p s1))"

definition realloc_from_kmalloc :: "config \<Rightarrow> addr \<Rightarrow> size_t \<Rightarrow> uvm_state \<Rightarrow> addr \<times> uvm_state" where
  "realloc_from_kmalloc c p new_size s =
     (if new_size \<le> UVM_KMALLOC_THRESHOLD c then krealloc c p new_size s
      else
        (let (new_p, s1) = alloc_internal c new_size False s
         in if new_p = NULL then (NULL, s1)
            else (new_p, kfree p (memcpy new_p p (min (ksize p s1) new_size) s1))))"

definition realloc_from_vmalloc :: "config \<Rightarrow> addr \<Rightarrow> size_t \<Rightarrow> uvm_state \<Rightarrow> addr \<times> uvm_state" where
  "realloc_from_vmalloc c p new_size s =
     (let (old_hdr, s1) = get_hdr c p s
      in if new_size = 0 then (ZERO_SIZE_PTR, vfree old_hdr s1)
         else if new_size = hdr_alloc_size old_hdr s1 then (p, s1)
         else
           (let (new_p, s2) = alloc_internal c new_size False s1
            in if new_p = NULL then (NULL, s2)
               else (new_p,
                     vfree old_hdr
                       (memcpy new_p p (min new_size (hdr_alloc_size old_hdr s2)) s2))))"

definition uvm_kvrealloc ::
  "config \<Rightarrow> addr \<Rightarrow> size_t \<Rightarrow> string \<Rightarrow> int \<Rightarrow> string \<Rightarrow> uvm_state \<Rightarrow> addr \<times> uvm_state" where
  "uvm_kvrealloc c p new_size file line function s =
     (if ZERO_OR_NULL_PTR p then uvm_kvmalloc c new_size file line function s
      else
        (let (old_size, s1) = uvm_kvsize c p s;
             (info, s2) =
               (if uvm_leak_checker c \<noteq> 0
                then (if new_size = 0 then (None, alloc_tracking_remove c p s1)
                      else
                        (let s1a = s1\<lparr>bytes_allocated := bytes_allocated s1 - old_size\<rparr>
                         in if UVM_KVMALLOC_LEAK_CHECK_ORIGIN \<le> uvm_leak_checker c
                            then remove_info p s1a
                            else (None, s1a)))
                else (None, s1));
             (new_p, s3) = (if is_vmalloc_addr c p then realloc_from_vmalloc c p new_size s2
                            else realloc_from_kmalloc c p new_size s2)
         in if uvm_leak_checker c \<noteq> 0
            then (if new_p = NULL
                  then
                    (let s4 = s3\<lparr>bytes_allocated := bytes_allocated s3 + old_size\<rparr>
                     in (new_p,
                         (case info of
                            Some i \<Rightarrow>
                              (if UVM_KVMALLOC_LEAK_CHECK_ORIGIN \<le> uvm_leak_checker c
                               then insert_info p i s4 else s4)
                          | None \<Rightarrow> s4)))
                  else if new_size \<noteq> 0
                  then (new_p, alloc_tracking_add c new_p file line function s3)
                  else (new_p, s3))
            else (new_p, s3)))"

section \<open>Sample configurations and states\<close>

text \<open>
  A configuration with the threshold at four pages and the vmalloc range of x86-64,
  and the state right after \<^verbatim>\<open>uvm_kvmalloc_init\<close> with a given list of allocator
  outcomes.
\<close>

definition sample_config :: "int \<Rightarrow> config" where
  "sample_config lvl =
     \<lparr>uvm_leak_checker = lvl, UVM_KMALLOC_THRESHOLD = 16384,
      VMALLOC_START = 0xffffc90000000000, VMALLOC_END = 0xffffe8ffffffffff\<rparr>"

definition initial_state :: "alloc_outcome list \<Rightarrow> uvm_state" where
  "initial_state os =
     \<lparr>kslab = Map.empty, vareas = Map.empty, outcomes = os, g_malloc_initialized = True,
      bytes_allocated = 0, untracked_allocations = 0, allocation_info = Map.empty,
      assert_failed = False\<rparr>"

text \<open>
  With origin tracking on: an allocation of 20 bytes lands in a 32-byte bucket at
  \<open>slab_addr\<close> while the allocation of its origin record fails; a reallocation to 64
  bytes then fails too.
\<close>

definition slab_addr :: addr where
  "slab_addr = 0xffff888000001000"

definition untracked_alloc_state :: uvm_state where
  "untracked_alloc_state =
     snd (uvm_kvmalloc (sample_config 2) 20 ''uvm.c'' 74 ''uvm_service_block_context_init''
            (initial_state [AllocAt slab_addr 32 [], AllocFail, AllocFail]))"

definition failed_realloc_state :: uvm_state where
  "failed_realloc_state =
     snd (uvm_kvrealloc (sample_config 2) slab_addr 64 ''uvm.c'' 80 ''caller''
            untracked_alloc_state)"

text \<open>A state with one live slab allocation of 32 bytes and its origin record.\<close>

definition live_slab_state :: uvm_state where
  "live_slab_state =
     snd (uvm_kvmalloc (sample_config 2) 20 ''uvm.c'' 74 ''uvm_service_block_context_init''
            (initial_state [AllocAt slab_addr 32 [], AllocAt 0xffff888000002000 64 []]))"

text \<open>
  A request of 20 bytes served from a 32-byte bucket, a request of exactly the
  threshold, and a zeroed request of 20000 bytes served by an area at \<open>area_addr\<close>.
\<close>

definition area_addr :: addr where
  "area_addr = 0xffffc90000010000"

definition small_alloc :: "addr \<times> uvm_state" where
  "small_alloc =
     alloc_internal (sample_config 1) 20 False (initial_state [AllocAt slab_addr 32 []])"

definition threshold_alloc :: "addr \<times> uvm_state" where
  "threshold_alloc =
     alloc_internal (sample_config 1) 16384 False (initial_state [AllocAt slab_addr 16384 []])"

definition large_alloc :: "addr \<times> uvm_state" where
  "large_alloc =
     alloc_internal (sample_config 1) 20000 True (initial_state [AllocAt area_addr 0 []])"

section \<open>uvm.c: data\<close>

text \<open>
  The status codes the file tests by name; any other code is \<open>NV_ERR_OTHER\<close> with
  its number.
\<close>

datatype NV_STATUS =
    NV_OK
  | NV_ERR_BUSY_RETRY
  | NV_ERR_NO_MEMORY
  | NV_WARN_MORE_PROCESSING_REQUIRED
  | NV_ERR_UVM_ADDRESS_IN_USE
  | NV_ERR_OTHER nat

text \<open>
  A reader-writer semaphore (the power-management lock \<^verbatim>\<open>g_uvm_global.pm.lock\<close> and
  the lock of a VA space). A call that blocks has no result while the lock is held
  against it: \<open>None\<close> is "the thread does not get past this call in this state".
\<close>

record rwsem =
  writer :: bool
  readers :: nat

definition down_read_trylock :: "rwsem \<Rightarrow> bool \<times> rwsem" where
  "down_read_trylock l = (if writer l then (False, l) else (True, l\<lparr>readers := Suc (readers l)\<rparr>))"

definition down_read :: "rwsem \<Rightarrow> rwsem option" where
  "down_read l = (if writer l then None else Some (l\<lparr>readers := Suc (readers l)\<rparr>))"

definition up_read :: "rwsem \<Rightarrow> rwsem" where
  "up_read l = l\<lparr>readers := readers l - 1\<rparr>"

definition down_write :: "rwsem \<Rightarrow> rwsem option" where
  "down_write l = (if writer l \<or> 0 < readers l then None else Some (l\<lparr>writer := True\<rparr>))"

definition up_write :: "rwsem \<Rightarrow> rwsem" where
  "up_write l = l\<lparr>writer := False\<rparr>"

text \<open>The fields of \<^verbatim>\<open>uvm_service_block_context_t\<close> that the file reads or writes.\<close>

record uvm_service_block_context_t =
  ctx_addr :: addr
  wakeup_time_stamp :: "64 word"
  did_migrate :: bool
  gpus_to_check_for_ecc :: "nat set"

datatype vm_operations =
    no_vm_ops
  | uvm_vm_ops_managed
  | uvm_vm_ops_disabled
  | uvm_vm_ops_semaphore_pool

text \<open>
  \<^verbatim>\<open>vm_private_data\<close> of a mapping: null, a \<^verbatim>\<open>uvm_vma_wrapper_t\<close> (managed mappings) or
  the mapping itself (semaphore pool mappings).
\<close>

datatype private_data = PrivNull | PrivWrapper nat | PrivVma nat

record vm_area_struct =
  vm_start :: "64 word"
  vm_end :: "64 word"
  vm_pgoff :: "64 word"
  vm_flags :: "64 word"
  vm_ops :: vm_operations
  vm_private_data :: private_data
  vm_mm :: nat
  vm_file :: nat

datatype uvm_va_range_type_t =
    UVM_VA_RANGE_TYPE_MANAGED
  | UVM_VA_RANGE_TYPE_EXTERNAL
  | UVM_VA_RANGE_TYPE_SEMAPHORE_POOL

text \<open>
  An address-range record: inclusive bounds, its kind, for a managed range the
  wrapper of the mapping it lies under, and whether a semaphore pool's memory is
  mapped for the CPU.
\<close>

record uvm_va_range_t =
  node_start :: "64 word"
  node_end :: "64 word"
  range_type :: uvm_va_range_type_t
  vma_wrapper :: "nat option"
  cpu_user_mapped :: bool

record uvm_va_space_t =
  vs_lock :: rwsem
  vs_initialized :: NV_STATUS
  va_space_mm :: "nat option"
  tools_enabled :: bool
  va_ranges :: "uvm_va_range_t list"

record struct_file =
  f_private_data :: "nat option"
  f_mapping :: "nat option"

text \<open>What the file does to its surroundings and to the telemetry, in order.\<close>

datatype event =
    PmTrylockRead
  | PmDownRead
  | PmUpRead
  | VaSpaceDownRead nat
  | VaSpaceUpRead nat
  | ThrottlingStart nat addr
  | ThrottlingEnd nat addr
  | UsleepRange "64 word" "64 word"
  | BlockFindCreate nat addr NV_STATUS
  | BlockCpuFault nat addr bool NV_STATUS
  | CpuFatalFault nat addr bool NV_STATUS
  | EccCheck "nat set" NV_STATUS
  | FlushEvents
  | VaSpaceDestroy nat
  | AddressSpaceInitOnce nat
  | UnmapMappingRange "nat option" "64 word" "64 word"

text \<open>
  The state of the module: the allocator's state, the global status
  (\<^verbatim>\<open>uvm_global_get_status\<close>), the power-management lock, the list of pooled fault
  service contexts, the queue of deferred releases (the VA space of each queued
  \<^verbatim>\<open>uvm_release_deferred\<close> item), the VA spaces, files, mappings and mapping wrappers
  by identity, the CPU page-table entries as pairs of an \<^verbatim>\<open>address_space\<close> and a byte
  offset, the time in nanoseconds, and the events so far.
\<close>

record uvm_sys =
  heap :: uvm_state
  global_status :: NV_STATUS
  pm_lock :: rwsem
  g_cpu_service_block_context_list :: "uvm_service_block_context_t list"
  deferred_release_q :: "nat list"
  va_spaces :: "nat \<rightharpoonup> uvm_va_space_t"
  files :: "nat \<rightharpoonup> struct_file"
  vmas :: "nat \<rightharpoonup> vm_area_struct"
  wrappers :: "nat \<rightharpoonup> nat"
  ptes :: "(nat \<times> 64 word) set"
  clock :: nat
  trace :: "event list"

text \<open>
  Constants of headers outside the sources: the allocator's, the size of a fault
  service context and the page shift.
\<close>

record uvm_config =
  alloc_config :: config
  sizeof_service_context :: size_t
  PAGE_SHIFT :: nat

definition log_event :: "event \<Rightarrow> uvm_sys \<Rightarrow> uvm_sys" where
  "log_event e s = s\<lparr>trace := trace s @ [e]\<rparr>"

section \<open>uvm.c: locks, contexts and the host's fault codes\<close>

text \<open>\<^verbatim>\<open>uvm_va_space_get\<close>: the VA space a file points to.\<close>

definition uvm_va_space_get :: "nat \<Rightarrow> uvm_sys \<Rightarrow> nat option" where
  "uvm_va_space_get filp s = (case files s filp of None \<Rightarrow> None | Some f \<Rightarrow> f_private_data f)"

definition pm_down_read_trylock :: "uvm_sys \<Rightarrow> bool \<times> uvm_sys" where
  "pm_down_read_trylock s =
     (let (ok, l) = down_read_trylock (pm_lock s)
      in if ok then (True, log_event PmTrylockRead (s\<lparr>pm_lock := l\<rparr>)) else (False, s))"

definition pm_down_read :: "uvm_sys \<Rightarrow> uvm_sys option" where
  "pm_down_read s =
     (case down_read (pm_lock s) of
        None \<Rightarrow> None
      | Some l \<Rightarrow> Some (log_event PmDownRead (s\<lparr>pm_lock := l\<rparr>)))"

definition pm_up_read :: "uvm_sys \<Rightarrow> uvm_sys" where
  "pm_up_read s = log_event PmUpRead (s\<lparr>pm_lock := up_read (pm_lock s)\<rparr>)"

definition uvm_va_space_down_read :: "nat \<Rightarrow> uvm_sys \<Rightarrow> uvm_sys option" where
  "uvm_va_space_down_read vs s =
     (case va_spaces s vs of
        None \<Rightarrow> None
      | Some v \<Rightarrow>
          (case down_read (vs_lock v) of
             None \<Rightarrow> None
           | Some l \<Rightarrow>
               Some (log_event (VaSpaceDownRead vs)
                       (s\<lparr>va_spaces := (va_spaces s)(vs \<mapsto> v\<lparr>vs_lock := l\<rparr>)\<rparr>))))"

definition uvm_va_space_up_read :: "nat \<Rightarrow> uvm_sys \<Rightarrow> uvm_sys" where
  "uvm_va_space_up_read vs s =
     log_event (VaSpaceUpRead vs)
       (case va_spaces s vs of
          None \<Rightarrow> s
        | Some v \<Rightarrow> s\<lparr>va_spaces := (va_spaces s)(vs \<mapsto> v\<lparr>vs_lock := up_read (vs_lock v)\<rparr>)\<rparr>)"

definition uvm_va_space_down_write :: "nat \<Rightarrow> uvm_sys \<Rightarrow> uvm_sys option" where
  "uvm_va_space_down_write vs s =
     (case va_spaces s vs of
        None \<Rightarrow> None
      | Some v \<Rightarrow>
          (case down_write (vs_lock v) of
             None \<Rightarrow> None
           | Some l \<Rightarrow> Some (s\<lparr>va_spaces := (va_spaces s)(vs \<mapsto> v\<lparr>vs_lock := l\<rparr>)\<rparr>)))"

definition uvm_va_space_up_write :: "nat \<Rightarrow> uvm_sys \<Rightarrow> uvm_sys" where
  "uvm_va_space_up_write vs s =
     (case va_spaces s vs of
        None \<Rightarrow> s
      | Some v \<Rightarrow> s\<lparr>va_spaces := (va_spaces s)(vs \<mapsto> v\<lparr>vs_lock := up_write (vs_lock v)\<rparr>)\<rparr>)"

text \<open>
  \<^verbatim>\<open>uvm_service_block_context_cpu_alloc\<close>: the first context of the list, or a new
  one from \<^verbatim>\<open>uvm_kvmalloc\<close> when the list is empty. New memory is not initialised:
  its fields are whatever \<open>fresh\<close> holds.
\<close>

definition uvm_service_block_context_cpu_alloc ::
  "uvm_config \<Rightarrow> uvm_service_block_context_t \<Rightarrow> uvm_sys \<Rightarrow>
     uvm_service_block_context_t option \<times> uvm_sys" where
  "uvm_service_block_context_cpu_alloc uc fresh s =
     (case g_cpu_service_block_context_list s of
        x # rest \<Rightarrow> (Some x, s\<lparr>g_cpu_service_block_context_list := rest\<rparr>)
      | [] \<Rightarrow>
          (let (p, h) = uvm_kvmalloc (alloc_config uc) (sizeof_service_context uc)
                          ''uvm.c'' 113 ''uvm_service_block_context_cpu_alloc'' (heap s)
           in if p = NULL then (None, s\<lparr>heap := h\<rparr>)
              else (Some (fresh\<lparr>ctx_addr := p\<rparr>), s\<lparr>heap := h\<rparr>)))"

definition uvm_service_block_context_cpu_free ::
  "uvm_service_block_context_t \<Rightarrow> uvm_sys \<Rightarrow> uvm_sys" where
  "uvm_service_block_context_cpu_free service_context s =
     s\<lparr>g_cpu_service_block_context_list :=
         service_context # g_cpu_service_block_context_list s\<rparr>"

text \<open>The host's \<^verbatim>\<open>vm_fault_t\<close> bits (\<^verbatim>\<open>linux/mm_types.h\<close>).\<close>

type_synonym vm_fault_t = "32 word"

definition VM_FAULT_OOM :: vm_fault_t where
  "VM_FAULT_OOM = 0x1"

definition VM_FAULT_SIGBUS :: vm_fault_t where
  "VM_FAULT_SIGBUS = 0x2"

definition VM_FAULT_MAJOR :: vm_fault_t where
  "VM_FAULT_MAJOR = 0x4"

definition VM_FAULT_NOPAGE :: vm_fault_t where
  "VM_FAULT_NOPAGE = 0x100"

text \<open>The \<^verbatim>\<open>switch\<close> at the label \<^verbatim>\<open>convert_error\<close> of \<^verbatim>\<open>uvm_vm_fault\<close>.\<close>

definition convert_error :: "NV_STATUS \<Rightarrow> bool \<Rightarrow> vm_fault_t" where
  "convert_error status major_fault =
     (case status of
        NV_OK \<Rightarrow> VM_FAULT_NOPAGE OR (if major_fault then VM_FAULT_MAJOR else 0)
      | NV_ERR_BUSY_RETRY \<Rightarrow> VM_FAULT_NOPAGE OR (if major_fault then VM_FAULT_MAJOR else 0)
      | NV_ERR_NO_MEMORY \<Rightarrow> VM_FAULT_OOM
      | _ \<Rightarrow> VM_FAULT_SIGBUS)"

section \<open>uvm.c: the CPU fault handler\<close>

text \<open>
  Modelled from the spec: the block lookup and the servicing of one attempt
  (\<^verbatim>\<open>uvm_va_block_find_create_managed\<close> and \<^verbatim>\<open>uvm_va_block_cpu_fault\<close> of
  \<^verbatim>\<open>uvm_va_block.h\<close>, not among the sources). An attempt looks the block up, which
  succeeds or fails with a status; servicing then reports a status and may record a
  wake-up timestamp, whether data migrated and the processors to check for ECC errors
  in the context. What one attempt does is the environment's choice; the handler is
  run against a list of attempts, and \<open>attempt_ns\<close> and \<open>oversleep_ns\<close> are the time
  the attempt takes and the time a sleep after it lasts beyond its minimum.
\<close>

record attempt =
  find_create_status :: NV_STATUS
  cpu_fault_status :: NV_STATUS
  new_wakeup_time_stamp :: "64 word option"
  new_did_migrate :: bool
  new_gpus_to_check_for_ecc :: "nat set"
  attempt_ns :: nat
  oversleep_ns :: nat

definition uvm_va_block_find_create_managed ::
  "nat \<Rightarrow> addr \<Rightarrow> attempt \<Rightarrow> uvm_sys \<Rightarrow> NV_STATUS \<times> uvm_sys" where
  "uvm_va_block_find_create_managed vs fault_addr a s =
     (find_create_status a, log_event (BlockFindCreate vs fault_addr (find_create_status a)) s)"

definition uvm_va_block_cpu_fault ::
  "nat \<Rightarrow> addr \<Rightarrow> bool \<Rightarrow> attempt \<Rightarrow> uvm_service_block_context_t \<Rightarrow> uvm_sys \<Rightarrow>
     NV_STATUS \<times> uvm_service_block_context_t \<times> uvm_sys" where
  "uvm_va_block_cpu_fault vs fault_addr is_write a service_context s =
     (cpu_fault_status a,
      service_context
        \<lparr>wakeup_time_stamp :=
           (case new_wakeup_time_stamp a of
              None \<Rightarrow> wakeup_time_stamp service_context
            | Some w \<Rightarrow> w),
         did_migrate := new_did_migrate a,
         gpus_to_check_for_ecc := new_gpus_to_check_for_ecc a\<rparr>,
      log_event (BlockCpuFault vs fault_addr is_write (cpu_fault_status a))
        (s\<lparr>clock := clock s + attempt_ns a\<rparr>))"

text \<open>
  \<^verbatim>\<open>NV_GETTIME\<close> reads the time in nanoseconds as a 64-bit value; \<^verbatim>\<open>usleep_range\<close>
  sleeps at least its minimum, given in microseconds.
\<close>

definition NV_GETTIME :: "uvm_sys \<Rightarrow> 64 word" where
  "NV_GETTIME s = word_of_nat (clock s)"

definition usleep_range :: "64 word \<Rightarrow> 64 word \<Rightarrow> nat \<Rightarrow> uvm_sys \<Rightarrow> uvm_sys" where
  "usleep_range min_us max_us over s =
     log_event (UsleepRange min_us max_us) (s\<lparr>clock := clock s + 1000 * unat min_us + over\<rparr>)"

definition uvm_tools_record_throttling_start :: "nat \<Rightarrow> addr \<Rightarrow> uvm_sys \<Rightarrow> uvm_sys" where
  "uvm_tools_record_throttling_start vs fault_addr s = log_event (ThrottlingStart vs fault_addr) s"

definition uvm_tools_record_throttling_end :: "nat \<Rightarrow> addr \<Rightarrow> uvm_sys \<Rightarrow> uvm_sys" where
  "uvm_tools_record_throttling_end vs fault_addr s = log_event (ThrottlingEnd vs fault_addr) s"

text \<open>
  The body of the \<^verbatim>\<open>do\<close> loop up to the call of \<^verbatim>\<open>uvm_va_space_down_read\<close>: it
  returns \<^verbatim>\<open>do_sleep\<close>.
\<close>

definition throttle_before_retry ::
  "nat \<Rightarrow> addr \<Rightarrow> attempt \<Rightarrow> NV_STATUS \<Rightarrow> uvm_service_block_context_t \<Rightarrow> uvm_sys \<Rightarrow>
     bool \<times> uvm_sys" where
  "throttle_before_retry vs fault_addr a status service_context s =
     (if status = NV_WARN_MORE_PROCESSING_REQUIRED
      then
        (let now = NV_GETTIME s;
             do_sleep = (now < wakeup_time_stamp service_context);
             s1 = (if do_sleep then uvm_tools_record_throttling_start vs fault_addr s else s);
             s2 = uvm_va_space_up_read vs s1;
             s3 = (if do_sleep
                   then (let nap_us = (wakeup_time_stamp service_context - now) div 1000
                         in usleep_range nap_us (nap_us + nap_us div 2) (oversleep_ns a) s2)
                   else s2)
         in (do_sleep, s3))
      else (False, s))"

text \<open>
  The body of the loop from its first line to the conditional call of
  \<^verbatim>\<open>uvm_tools_record_throttling_end\<close>: the throttling, then the address-space lock
  taken in read mode.
\<close>

definition loop_prologue ::
  "nat \<Rightarrow> addr \<Rightarrow> attempt \<Rightarrow> NV_STATUS \<Rightarrow> uvm_service_block_context_t \<Rightarrow> uvm_sys \<Rightarrow>
     uvm_sys option" where
  "loop_prologue vs fault_addr a status service_context s =
     (let (do_sleep, s1) = throttle_before_retry vs fault_addr a status service_context s
      in case uvm_va_space_down_read vs s1 of
           None \<Rightarrow> None
         | Some s2 \<Rightarrow>
             Some (if do_sleep then uvm_tools_record_throttling_end vs fault_addr s2 else s2))"

text \<open>
  The \<^verbatim>\<open>do ... while (status == NV_WARN_MORE_PROCESSING_REQUIRED)\<close> loop, one attempt
  of the list per iteration. The loop has no bound of its own: when the attempts run
  out before one ends it, the result is \<open>None\<close>.
\<close>

fun fault_loop ::
  "nat \<Rightarrow> addr \<Rightarrow> bool \<Rightarrow> attempt list \<Rightarrow> NV_STATUS \<Rightarrow> uvm_service_block_context_t \<Rightarrow>
     uvm_sys \<Rightarrow> (NV_STATUS \<times> uvm_service_block_context_t \<times> uvm_sys) option" where
  "fault_loop vs fault_addr is_write [] status service_context s = None"
| "fault_loop vs fault_addr is_write (a # as) status service_context s =
     (case loop_prologue vs fault_addr a status service_context s of
        None \<Rightarrow> None
      | Some s3 \<Rightarrow>
          (let (status1, s4) = uvm_va_block_find_create_managed vs fault_addr a s3
           in if status1 \<noteq> NV_OK then Some (status1, service_context, s4)
              else
                (let (status2, ctx, s5) =
                       uvm_va_block_cpu_fault vs fault_addr is_write a service_context s4
                 in if status2 = NV_WARN_MORE_PROCESSING_REQUIRED
                    then fault_loop vs fault_addr is_write as status2 ctx s5
                    else Some (status2, ctx, s5))))"

text \<open>What the handler is run against: new memory's contents, the attempts, the ECC check.\<close>

record fault_env =
  fresh_context :: uvm_service_block_context_t
  attempts :: "attempt list"
  ecc_status :: NV_STATUS

definition uvm_tools_record_cpu_fatal_fault ::
  "nat \<Rightarrow> addr \<Rightarrow> bool \<Rightarrow> NV_STATUS \<Rightarrow> uvm_sys \<Rightarrow> uvm_sys" where
  "uvm_tools_record_cpu_fatal_fault vs fault_addr is_write status s =
     log_event (CpuFatalFault vs fault_addr is_write status) s"

text \<open>
  \<^verbatim>\<open>uvm_vm_fault\<close>, from the status check to the conversion of the status. The calls
  that only record lock order (\<^verbatim>\<open>uvm_record_lock_mmap_lock_read\<close> and its unlock) are
  left out.
\<close>

definition uvm_vm_fault ::
  "uvm_config \<Rightarrow> fault_env \<Rightarrow> vm_area_struct \<Rightarrow> addr \<Rightarrow> bool \<Rightarrow> uvm_sys \<Rightarrow>
     (vm_fault_t \<times> uvm_sys) option" where
  "uvm_vm_fault uc env vma fault_addr is_write s =
     (let va_space = uvm_va_space_get (vm_file vma) s;
          status = global_status s
      in if status \<noteq> NV_OK then Some (convert_error status False, s)
         else
           (let (locked, s1) = pm_down_read_trylock s
            in if \<not> locked then Some (convert_error NV_ERR_BUSY_RETRY False, s1)
               else
                 (let (got, s2) = uvm_service_block_context_cpu_alloc uc (fresh_context env) s1
                  in case got of
                       None \<Rightarrow> Some (convert_error NV_ERR_NO_MEMORY False, pm_up_read s2)
                     | Some ctx0 \<Rightarrow>
                         (case va_space of
                            None \<Rightarrow> None
                          | Some vs \<Rightarrow>
                              (case fault_loop vs fault_addr is_write (attempts env) status
                                      (ctx0\<lparr>wakeup_time_stamp := 0\<rparr>) s2 of
                                 None \<Rightarrow> None
                               | Some (status1, service_context, s3) \<Rightarrow>
                                   (let s4 = (if status1 \<noteq> NV_OK
                                              then uvm_tools_record_cpu_fatal_fault vs fault_addr
                                                     is_write status1 s3
                                              else s3);
                                        tools = (case va_spaces s4 vs of
                                                   None \<Rightarrow> False
                                                 | Some v \<Rightarrow> tools_enabled v);
                                        s5 = uvm_va_space_up_read vs s4;
                                        (status2, s6) =
                                          (if status1 = NV_OK
                                           then (ecc_status env,
                                                 log_event
                                                   (EccCheck (gpus_to_check_for_ecc service_context)
                                                      (ecc_status env)) s5)
                                           else (status1, s5));
                                        s7 = (if tools then log_event FlushEvents s6 else s6);
                                        major_fault = did_migrate service_context;
                                        s8 = uvm_service_block_context_cpu_free service_context s7
                                    in Some (convert_error status2 major_fault, pm_up_read s8)))))))"

section \<open>uvm.c: release\<close>

text \<open>
  Modelled from the spec: \<^verbatim>\<open>uvm_va_space_destroy\<close> (\<^verbatim>\<open>destroy_address_space\<close> of the
  session interface; \<^verbatim>\<open>uvm_va_space.h\<close> is not among the sources) takes the VA space
  away.
\<close>

definition uvm_va_space_destroy :: "nat \<Rightarrow> uvm_sys \<Rightarrow> uvm_sys" where
  "uvm_va_space_destroy vs s = log_event (VaSpaceDestroy vs) (s\<lparr>va_spaces := (va_spaces s)(vs := None)\<rparr>)"

text \<open>
  Modelled from the spec: the background task queue (\<^verbatim>\<open>nv-kthread-q.h\<close> is not among
  the sources). With \<^verbatim>\<open>nv_kthread_q_schedule_q_item\<close> an item joins the queue unless
  it is pending already; the result is nonzero when it joined.
\<close>

definition nv_kthread_q_schedule_q_item :: "nat \<Rightarrow> uvm_sys \<Rightarrow> int \<times> uvm_sys" where
  "nv_kthread_q_schedule_q_item vs s =
     (if vs \<in> set (deferred_release_q s) then (0, s)
      else (1, s\<lparr>deferred_release_q := deferred_release_q s @ [vs]\<rparr>))"

definition uvm_release_deferred :: "nat \<Rightarrow> uvm_sys \<Rightarrow> uvm_sys option" where
  "uvm_release_deferred va_space s =
     (case pm_down_read s of
        None \<Rightarrow> None
      | Some s1 \<Rightarrow> Some (pm_up_read (uvm_va_space_destroy va_space s1)))"

text \<open>
  \<^verbatim>\<open>uvm_release\<close>. A file without a VA space has no defined behaviour (the pointer is
  used unchecked) and gives \<open>None\<close>.
\<close>

definition uvm_release :: "nat \<Rightarrow> uvm_sys \<Rightarrow> (int \<times> uvm_sys) option" where
  "uvm_release filp s =
     (case uvm_va_space_get filp s of
        None \<Rightarrow> None
      | Some va_space \<Rightarrow>
          (let s1 = s\<lparr>files := (files s)(filp \<mapsto> \<lparr>f_private_data = None, f_mapping = None\<rparr>)\<rparr>;
               (locked, s2) = pm_down_read_trylock s1
           in if locked
              then Some (0, pm_up_read (uvm_va_space_destroy va_space s2))
              else
                (let s3 = log_event (AddressSpaceInitOnce va_space) s2;
                     (ret, s4) = nv_kthread_q_schedule_q_item va_space s3
                 in Some (0, s4))))"

text \<open>
  Modelled from the spec: the worker of the background task queue runs the item at
  the head of the queue and takes it off once its callback has returned.
\<close>

definition deferred_release_q_run :: "uvm_sys \<Rightarrow> uvm_sys option" where
  "deferred_release_q_run s =
     (case deferred_release_q s of
        [] \<Rightarrow> Some s
      | va_space # rest \<Rightarrow>
          (case uvm_release_deferred va_space s of
             None \<Rightarrow> None
           | Some s1 \<Rightarrow> Some (s1\<lparr>deferred_release_q := rest\<rparr>)))"

section \<open>Reading the event list\<close>

definition is_throttling_start :: "event \<Rightarrow> bool" where
  "is_throttling_start e = (case e of ThrottlingStart vs a \<Rightarrow> True | _ \<Rightarrow> False)"

definition is_throttling_end :: "event \<Rightarrow> bool" where
  "is_throttling_end e = (case e of ThrottlingEnd vs a \<Rightarrow> True | _ \<Rightarrow> False)"

definition is_sleep :: "event \<Rightarrow> bool" where
  "is_sleep e = (case e of UsleepRange lo hi \<Rightarrow> True | _ \<Rightarrow> False)"

text \<open>As many throttle-start events as sleeps, and as many throttle-end events.\<close>

definition throttle_balanced :: "event list \<Rightarrow> bool" where
  "throttle_balanced evs =
     (length (filter is_throttling_start evs) = length (filter is_sleep evs) \<and>
      length (filter is_throttling_end evs) = length (filter is_sleep evs))"

text \<open>The events of one throttled retry, for a sleep of at least \<open>nap_us\<close> microseconds.\<close>

definition throttled_retry_events :: "nat \<Rightarrow> addr \<Rightarrow> 64 word \<Rightarrow> event list" where
  "throttled_retry_events vs fault_addr nap_us =
     [ThrottlingStart vs fault_addr, VaSpaceUpRead vs,
      UsleepRange nap_us (nap_us + nap_us div 2),
      VaSpaceDownRead vs, ThrottlingEnd vs fault_addr]"

section \<open>Sample states of the module\<close>

definition sample_uvm_config :: uvm_config where
  "sample_uvm_config =
     \<lparr>alloc_config = sample_config 1, sizeof_service_context = 4096, PAGE_SHIFT = 12\<rparr>"

definition sample_context :: "addr \<Rightarrow> 64 word \<Rightarrow> uvm_service_block_context_t" where
  "sample_context a t =
     \<lparr>ctx_addr = a, wakeup_time_stamp = t, did_migrate = False, gpus_to_check_for_ecc = {}\<rparr>"

definition sample_va_space :: uvm_va_space_t where
  "sample_va_space =
     \<lparr>vs_lock = \<lparr>writer = False, readers = 0\<rparr>, vs_initialized = NV_OK, va_space_mm = None,
      tools_enabled = False, va_ranges = []\<rparr>"

text \<open>
  One VA space behind one file, one pooled context whose wake-up timestamp is \<open>t\<close>,
  the time at one millisecond; the global status and whether a suspend holds the
  power-management lock are given.
\<close>

definition sample_sys :: "NV_STATUS \<Rightarrow> bool \<Rightarrow> 64 word \<Rightarrow> uvm_sys" where
  "sample_sys status suspended t =
     \<lparr>heap = initial_state [],
      global_status = status,
      pm_lock = \<lparr>writer = suspended, readers = 0\<rparr>,
      g_cpu_service_block_context_list = [sample_context 0xffff888000003000 t],
      deferred_release_q = [],
      va_spaces = [0 \<mapsto> sample_va_space],
      files = [0 \<mapsto> \<lparr>f_private_data = Some 0, f_mapping = Some 0\<rparr>],
      vmas = Map.empty,
      wrappers = Map.empty,
      ptes = {},
      clock = 1000000,
      trace = []\<rparr>"

definition sample_vma :: vm_area_struct where
  "sample_vma =
     \<lparr>vm_start = 0x7f0000000000, vm_end = 0x7f0000200000, vm_pgoff = 0x7f0000000,
      vm_flags = 0xfb, vm_ops = uvm_vm_ops_managed, vm_private_data = PrivWrapper 0,
      vm_mm = 1, vm_file = 0\<rparr>"

definition sample_attempt :: "NV_STATUS \<Rightarrow> 64 word option \<Rightarrow> attempt" where
  "sample_attempt st w =
     \<lparr>find_create_status = NV_OK, cpu_fault_status = st, new_wakeup_time_stamp = w,
      new_did_migrate = False, new_gpus_to_check_for_ecc = {}, attempt_ns = 500,
      oversleep_ns = 0\<rparr>"

definition sample_env :: "attempt list \<Rightarrow> fault_env" where
  "sample_env as =
     \<lparr>fresh_context = sample_context 0 0xdeadbeef, attempts = as, ecc_status = NV_OK\<rparr>"

text \<open>
  A retry loop run against two attempts: the first reports "more processing required"
  and records a wake-up timestamp ten milliseconds after its end, the second succeeds.
\<close>

definition sample_fault_addr :: addr where
  "sample_fault_addr = 0x7f0000001000"

definition sample_throttled_loop ::
  "(NV_STATUS \<times> uvm_service_block_context_t \<times> uvm_sys) option" where
  "sample_throttled_loop =
     fault_loop 0 sample_fault_addr True
       [sample_attempt NV_WARN_MORE_PROCESSING_REQUIRED (Some 11000500),
        sample_attempt NV_OK None]
       NV_OK (sample_context 0xffff888000003000 0) (sample_sys NV_OK False 0)"

text \<open>
  A release while a suspend holds the power-management lock, and the state once the
  resume has dropped the lock.
\<close>

definition sample_released :: "(int \<times> uvm_sys) option" where
  "sample_released = uvm_release 0 (sample_sys NV_OK True 0)"

definition sample_resumed :: uvm_sys where
  "sample_resumed =
     (case sample_released of
        None \<Rightarrow> sample_sys NV_OK False 0
      | Some (ret, s) \<Rightarrow> s\<lparr>pm_lock := \<lparr>writer = False, readers = 0\<rparr>\<rparr>)"

section \<open>uvm.c: the address-range table and the mapping wrappers\<close>

text \<open>
  Modelled from the spec: the Address-Range Table (\<^verbatim>\<open>uvm_va_range.h\<close> is not among the
  sources). A VA space holds its range records; a record is found by an address it
  contains; the records under a mapping are those that overlap the mapping's interval
  (\<^verbatim>\<open>uvm_for_each_va_range_in_vma\<close>); removing a record takes it out of the table;
  zombifying one keeps it and drops its reference to the mapping; a split at an
  inclusive boundary replaces a record by its two halves, both with the record's
  payload, or fails and changes nothing; inserting a managed record for a mapping
  fails with \<^verbatim>\<open>NV_ERR_UVM_ADDRESS_IN_USE\<close> when its interval overlaps a record.
\<close>

definition range_contains :: "uvm_va_range_t \<Rightarrow> 64 word \<Rightarrow> bool" where
  "range_contains r a = (node_start r \<le> a \<and> a \<le> node_end r)"

definition range_overlaps :: "uvm_va_range_t \<Rightarrow> 64 word \<Rightarrow> 64 word \<Rightarrow> bool" where
  "range_overlaps r lo hi = (node_start r \<le> hi \<and> lo \<le> node_end r)"

definition uvm_va_range_find :: "uvm_va_space_t \<Rightarrow> 64 word \<Rightarrow> uvm_va_range_t option" where
  "uvm_va_range_find v a = find (\<lambda>r. range_contains r a) (va_ranges v)"

definition ranges_in_vma :: "uvm_va_space_t \<Rightarrow> vm_area_struct \<Rightarrow> uvm_va_range_t list" where
  "ranges_in_vma v vma =
     filter (\<lambda>r. range_overlaps r (vm_start vma) (vm_end vma - 1)) (va_ranges v)"

definition uvm_va_range_destroy :: "uvm_va_range_t \<Rightarrow> uvm_va_space_t \<Rightarrow> uvm_va_space_t" where
  "uvm_va_range_destroy r v = v\<lparr>va_ranges := filter (\<lambda>x. x \<noteq> r) (va_ranges v)\<rparr>"

definition uvm_va_range_zombify :: "uvm_va_range_t \<Rightarrow> uvm_va_space_t \<Rightarrow> uvm_va_space_t" where
  "uvm_va_range_zombify r v =
     v\<lparr>va_ranges := map (\<lambda>x. if x = r then x\<lparr>vma_wrapper := None\<rparr> else x) (va_ranges v)\<rparr>"

definition uvm_va_range_split ::
  "uvm_va_range_t \<Rightarrow> 64 word \<Rightarrow> NV_STATUS \<Rightarrow> uvm_va_space_t \<Rightarrow> NV_STATUS \<times> uvm_va_space_t" where
  "uvm_va_range_split r new_end outcome v =
     (if outcome \<noteq> NV_OK then (outcome, v)
      else (NV_OK,
            v\<lparr>va_ranges :=
                concat (map (\<lambda>x. if x = r
                                 then [x\<lparr>node_end := new_end\<rparr>, x\<lparr>node_start := new_end + 1\<rparr>]
                                 else [x])
                          (va_ranges v))\<rparr>))"

definition uvm_va_range_create_mmap ::
  "vm_area_struct \<Rightarrow> nat \<Rightarrow> NV_STATUS \<Rightarrow> uvm_va_space_t \<Rightarrow> NV_STATUS \<times> uvm_va_space_t" where
  "uvm_va_range_create_mmap vma wrapper outcome v =
     (if ranges_in_vma v vma \<noteq> [] then (NV_ERR_UVM_ADDRESS_IN_USE, v)
      else if outcome \<noteq> NV_OK then (outcome, v)
      else (NV_OK,
            v\<lparr>va_ranges :=
                \<lparr>node_start = vm_start vma, node_end = vm_end vma - 1,
                 range_type = UVM_VA_RANGE_TYPE_MANAGED, vma_wrapper = Some wrapper,
                 cpu_user_mapped = False\<rparr> # va_ranges v\<rparr>))"

text \<open>
  Modelled from the spec: the mapping wrapper, a record tying a mapping to the range
  records under it (\<^verbatim>\<open>uvm_vma_wrapper_alloc\<close> and \<^verbatim>\<open>uvm_vma_wrapper_destroy\<close>). The
  allocation fails, or gives a wrapper that is not in use; \<open>fresh\<close> is the kernel's
  choice.
\<close>

definition uvm_vma_wrapper_alloc :: "nat \<Rightarrow> nat option \<Rightarrow> uvm_sys \<Rightarrow> nat option \<times> uvm_sys" where
  "uvm_vma_wrapper_alloc vma fresh s =
     (case fresh of
        None \<Rightarrow> (None, s)
      | Some w \<Rightarrow>
          (if wrappers s w = None then (Some w, s\<lparr>wrappers := (wrappers s)(w \<mapsto> vma)\<rparr>)
           else (None, s)))"

definition uvm_vma_wrapper_destroy :: "nat \<Rightarrow> uvm_sys \<Rightarrow> uvm_sys" where
  "uvm_vma_wrapper_destroy w s = s\<lparr>wrappers := (wrappers s)(w := None)\<rparr>"

text \<open>\<^verbatim>\<open>uvm_va_range_vma\<close>: the mapping a managed range record lies under.\<close>

definition uvm_va_range_vma :: "uvm_sys \<Rightarrow> uvm_va_range_t \<Rightarrow> nat option" where
  "uvm_va_range_vma s r = (case vma_wrapper r of None \<Rightarrow> None | Some w \<Rightarrow> wrappers s w)"

section \<open>uvm.c: disabling a mapping\<close>

text \<open>
  The kernel's \<^verbatim>\<open>unmap_mapping_range\<close>: the page-table entries of the
  \<^verbatim>\<open>address_space\<close> whose byte offset lies in the hole go away.
\<close>

definition unmap_mapping_range :: "nat option \<Rightarrow> 64 word \<Rightarrow> 64 word \<Rightarrow> uvm_sys \<Rightarrow> uvm_sys" where
  "unmap_mapping_range mapping holebegin holelen s =
     log_event (UnmapMappingRange mapping holebegin holelen)
       (s\<lparr>ptes := {pte \<in> ptes s.
                     \<not> (Some (fst pte) = mapping \<and> holebegin \<le> snd pte \<and>
                        snd pte - holebegin < holelen)}\<rparr>)"

text \<open>
  The functions below work on a mapping of the state by its identity; a mapping, file
  or VA space that does not exist is a dangling pointer and gives \<open>None\<close>.
\<close>

definition vma_file_mapping :: "vm_area_struct \<Rightarrow> uvm_sys \<Rightarrow> nat option" where
  "vma_file_mapping vma s = (case files s (vm_file vma) of None \<Rightarrow> None | Some f \<Rightarrow> f_mapping f)"

definition uvm_disable_vma :: "uvm_config \<Rightarrow> nat \<Rightarrow> uvm_sys \<Rightarrow> uvm_sys option" where
  "uvm_disable_vma uc vma_id s =
     (case vmas s vma_id of
        None \<Rightarrow> None
      | Some vma \<Rightarrow>
          (let s1 = unmap_mapping_range (vma_file_mapping vma s)
                      (push_bit (PAGE_SHIFT uc) (vm_pgoff vma)) (vm_end vma - vm_start vma) s;
               s2 = s1\<lparr>vmas := (vmas s1)(vma_id \<mapsto> vma\<lparr>vm_ops := uvm_vm_ops_disabled\<rparr>)\<rparr>
           in case vm_private_data vma of
                PrivNull \<Rightarrow> Some s2
              | PrivWrapper w \<Rightarrow>
                  Some ((uvm_vma_wrapper_destroy w s2)
                          \<lparr>vmas := (vmas s2)(vma_id \<mapsto>
                             vma\<lparr>vm_ops := uvm_vm_ops_disabled, vm_private_data := PrivNull\<rparr>)\<rparr>)
              | PrivVma x \<Rightarrow>
                  Some (s2\<lparr>vmas := (vmas s2)(vma_id \<mapsto>
                             vma\<lparr>vm_ops := uvm_vm_ops_disabled, vm_private_data := PrivNull\<rparr>)\<rparr>)))"

section \<open>uvm.c: the open callback of a managed mapping\<close>

definition destroy_or_zombify ::
  "bool \<Rightarrow> uvm_va_range_t list \<Rightarrow> uvm_va_space_t \<Rightarrow> uvm_va_space_t" where
  "destroy_or_zombify make_zombie rs v =
     fold (\<lambda>r. if make_zombie then uvm_va_range_zombify r else uvm_va_range_destroy r) rs v"

definition uvm_destroy_vma_managed :: "nat \<Rightarrow> bool \<Rightarrow> uvm_sys \<Rightarrow> uvm_sys option" where
  "uvm_destroy_vma_managed vma_id make_zombie s =
     (case vmas s vma_id of
        None \<Rightarrow> None
      | Some vma \<Rightarrow>
          (case uvm_va_space_get (vm_file vma) s of
             None \<Rightarrow> None
           | Some vs \<Rightarrow>
               (case va_spaces s vs of
                  None \<Rightarrow> None
                | Some v \<Rightarrow>
                    (let v1 = destroy_or_zombify make_zombie (ranges_in_vma v vma) v;
                         s1 = s\<lparr>va_spaces := (va_spaces s)(vs \<mapsto> v1)\<rparr>
                     in case vm_private_data vma of
                          PrivWrapper w \<Rightarrow>
                            Some ((uvm_vma_wrapper_destroy w s1)
                                    \<lparr>vmas := (vmas s1)(vma_id \<mapsto>
                                               vma\<lparr>vm_private_data := PrivNull\<rparr>)\<rparr>)
                        | PrivVma x \<Rightarrow>
                            Some (s1\<lparr>vmas := (vmas s1)(vma_id \<mapsto>
                                               vma\<lparr>vm_private_data := PrivNull\<rparr>)\<rparr>)
                        | PrivNull \<Rightarrow> Some s1))))"

definition uvm_vm_open_failure :: "uvm_config \<Rightarrow> nat \<Rightarrow> nat \<Rightarrow> uvm_sys \<Rightarrow> uvm_sys option" where
  "uvm_vm_open_failure uc original new s =
     (case uvm_destroy_vma_managed original False s of
        None \<Rightarrow> None
      | Some s1 \<Rightarrow>
          (case uvm_disable_vma uc original s1 of
             None \<Rightarrow> None
           | Some s2 \<Rightarrow> uvm_disable_vma uc new s2))"

text \<open>
  What the open callback is run against: the outcome of the wrapper allocation and
  of the split of the range record.
\<close>

record open_env =
  wrapper_outcome :: "nat option"
  split_outcome :: NV_STATUS

text \<open>The loop "point va_ranges to the new vma" of \<^verbatim>\<open>uvm_vm_open_managed\<close>.\<close>

definition repoint_ranges :: "vm_area_struct \<Rightarrow> nat \<Rightarrow> uvm_va_space_t \<Rightarrow> uvm_va_space_t" where
  "repoint_ranges vma w v =
     v\<lparr>va_ranges :=
         map (\<lambda>r. if range_overlaps r (vm_start vma) (vm_end vma - 1)
                  then r\<lparr>vma_wrapper := Some w\<rparr> else r)
           (va_ranges v)\<rparr>"

text \<open>
  The part of \<^verbatim>\<open>uvm_vm_open_managed\<close> that runs with the VA space lock held in write
  mode, up to the label \<^verbatim>\<open>out\<close>: the wrapper of the new mapping, the split of the
  range record that spans the boundary, and the repointing of the records under the
  new mapping.
\<close>

definition open_managed_locked ::
  "uvm_config \<Rightarrow> open_env \<Rightarrow> nat \<Rightarrow> nat \<Rightarrow> vm_area_struct \<Rightarrow> nat \<Rightarrow> 64 word \<Rightarrow> uvm_sys \<Rightarrow>
     uvm_sys option" where
  "open_managed_locked uc env original vma_id vma vs new_end s1 =
     (let (got, s2) = uvm_vma_wrapper_alloc vma_id (wrapper_outcome env) s1
      in case got of
           None \<Rightarrow> uvm_vm_open_failure uc original vma_id s2
         | Some w \<Rightarrow>
             (let s3 = s2\<lparr>vmas := (vmas s2)(vma_id \<mapsto> vma\<lparr>vm_private_data := PrivWrapper w\<rparr>)\<rparr>
              in case va_spaces s3 vs of
                   None \<Rightarrow> None
                 | Some v \<Rightarrow>
                     (case uvm_va_range_find v new_end of
                        None \<Rightarrow> None
                      | Some va_range \<Rightarrow>
                          (let (status, v1) =
                                 (if node_end va_range \<noteq> new_end
                                  then uvm_va_range_split va_range new_end (split_outcome env) v
                                  else (NV_OK, v))
                           in if status \<noteq> NV_OK
                              then uvm_vm_open_failure uc original vma_id s3
                              else Some (s3\<lparr>va_spaces :=
                                             (va_spaces s3)(vs \<mapsto> repoint_ranges vma w v1)\<rparr>)))))"

text \<open>
  \<^verbatim>\<open>uvm_vm_open_managed\<close>. The new mapping is a copy of the original, so its
  \<^verbatim>\<open>vm_private_data\<close> is the original's wrapper, which names the original. The calls that
  only record lock order are left out.
\<close>

definition uvm_vm_open_managed :: "uvm_config \<Rightarrow> open_env \<Rightarrow> nat \<Rightarrow> uvm_sys \<Rightarrow> uvm_sys option" where
  "uvm_vm_open_managed uc env vma_id s =
     (case vmas s vma_id of
        None \<Rightarrow> None
      | Some vma0 \<Rightarrow>
          (case vm_private_data vma0 of
             PrivNull \<Rightarrow> None
           | PrivVma x \<Rightarrow> None
           | PrivWrapper w0 \<Rightarrow>
               (case wrappers s w0 of
                  None \<Rightarrow> None
                | Some original \<Rightarrow>
                    (case vmas s original of
                       None \<Rightarrow> None
                     | Some orig \<Rightarrow>
                         (let vma = vma0\<lparr>vm_private_data := PrivNull\<rparr>;
                              s0 = s\<lparr>vmas := (vmas s)(vma_id \<mapsto> vma)\<rparr>
                          in if vm_mm vma \<noteq> vm_mm orig \<or>
                                (vm_start vma \<noteq> vm_start orig \<and> vm_end vma \<noteq> vm_end orig)
                             then uvm_disable_vma uc vma_id s0
                             else
                               (let new_end = (if vm_start vma = vm_start orig
                                               then vm_end vma - 1 else vm_start vma - 1)
                                in case uvm_va_space_get (vm_file vma) s0 of
                                     None \<Rightarrow> None
                                   | Some vs \<Rightarrow>
                                       (case uvm_va_space_down_write vs s0 of
                                          None \<Rightarrow> None
                                        | Some s1 \<Rightarrow>
                                            map_option (uvm_va_space_up_write vs)
                                              (open_managed_locked uc env original vma_id vma vs
                                                 new_end s1))))))))"

section \<open>The disabled state of a mapping\<close>

text \<open>
  No page-table entry of the mapping's file lies in the mapping's interval of file
  offsets.
\<close>

definition in_hole :: "uvm_config \<Rightarrow> uvm_sys \<Rightarrow> vm_area_struct \<Rightarrow> nat \<times> 64 word \<Rightarrow> bool" where
  "in_hole uc s vma pte =
     (Some (fst pte) = vma_file_mapping vma s \<and>
      push_bit (PAGE_SHIFT uc) (vm_pgoff vma) \<le> snd pte \<and>
      snd pte - push_bit (PAGE_SHIFT uc) (vm_pgoff vma) < vm_end vma - vm_start vma)"

definition vma_unmapped :: "uvm_config \<Rightarrow> uvm_sys \<Rightarrow> vm_area_struct \<Rightarrow> bool" where
  "vma_unmapped uc s vma = (\<forall>pte \<in> ptes s. \<not> in_hole uc s vma pte)"

text \<open>
  The state \<open>disabled\<close> of the spec: page-table entries unmapped, the vm operations
  that fail every fault installed, the wrapper dropped.
\<close>

definition vma_disabled :: "uvm_config \<Rightarrow> uvm_sys \<Rightarrow> nat \<Rightarrow> bool" where
  "vma_disabled uc s vma_id =
     (case vmas s vma_id of
        None \<Rightarrow> False
      | Some vma \<Rightarrow>
          vm_ops vma = uvm_vm_ops_disabled \<and> vm_private_data vma = PrivNull \<and>
          vma_unmapped uc s vma)"

text \<open>No range record of the VA space refers to the mapping or to the wrapper.\<close>

definition no_range_references :: "uvm_sys \<Rightarrow> nat \<Rightarrow> nat \<Rightarrow> nat \<Rightarrow> bool" where
  "no_range_references s vs vma_id w =
     (case va_spaces s vs of
        None \<Rightarrow> False
      | Some v \<Rightarrow>
          list_all (\<lambda>r. vma_wrapper r \<noteq> Some w \<and> uvm_va_range_vma s r \<noteq> Some vma_id)
            (va_ranges v))"

text \<open>
  A managed mapping of two megabytes with one range record under it, a second record
  under another mapping, and the new mapping that a split at the first megabyte hands
  to the open callback: a copy of the original that covers the left half.
\<close>

definition sample_range :: "64 word \<Rightarrow> 64 word \<Rightarrow> nat \<Rightarrow> uvm_va_range_t" where
  "sample_range lo hi w =
     \<lparr>node_start = lo, node_end = hi, range_type = UVM_VA_RANGE_TYPE_MANAGED,
      vma_wrapper = Some w, cpu_user_mapped = False\<rparr>"

definition split_sys :: uvm_sys where
  "split_sys =
     (sample_sys NV_OK False 0)
       \<lparr>va_spaces :=
          [0 \<mapsto> sample_va_space
                 \<lparr>va_ranges := [sample_range 0x7f0000000000 0x7f00001fffff 0,
                                sample_range 0x7f1000000000 0x7f1000000fff 5]\<rparr>],
        vmas := [1 \<mapsto> sample_vma,
                 2 \<mapsto> sample_vma\<lparr>vm_end := 0x7f0000100000\<rparr>],
        wrappers := [0 \<mapsto> 1, 5 \<mapsto> 9],
        ptes := {(0, 0x7f0000000000), (0, 0x7f0000101000), (0, 0x7f1000000000)}\<rparr>"

definition failing_split_env :: open_env where
  "failing_split_env = \<lparr>wrapper_outcome = Some 3, split_outcome = NV_ERR_NO_MEMORY\<rparr>"

section \<open>uvm.c: establishing a mapping\<close>

text \<open>The host's error numbers and \<^verbatim>\<open>vm_flags\<close> bits that \<^verbatim>\<open>uvm_mmap\<close> names.\<close>

definition ENOMEM :: int where
  "ENOMEM = 12"

definition EINVAL :: int where
  "EINVAL = 22"

definition EBADFD :: int where
  "EBADFD = 77"

definition EOPNOTSUPP :: int where
  "EOPNOTSUPP = 95"

definition VM_READ :: "64 word" where
  "VM_READ = 0x1"

definition VM_WRITE :: "64 word" where
  "VM_WRITE = 0x2"

definition VM_SHARED :: "64 word" where
  "VM_SHARED = 0x8"

definition VM_DONTEXPAND :: "64 word" where
  "VM_DONTEXPAND = 0x40000"

definition VM_MIXEDMAP :: "64 word" where
  "VM_MIXEDMAP = 0x10000000"

text \<open>
  What \<^verbatim>\<open>uvm_mmap\<close> is run against: the conversion of a status to an error number
  (\<^verbatim>\<open>nv_status_to_errno\<close>, declared outside the sources), the calling process's
  \<^verbatim>\<open>mm\<close>, and the outcomes of the wrapper allocation, of the allocation inside
  \<^verbatim>\<open>uvm_va_range_create_mmap\<close> and of \<^verbatim>\<open>uvm_mem_map_cpu_user\<close>.
\<close>

record mmap_env =
  nv_status_to_errno :: "NV_STATUS \<Rightarrow> int"
  current_mm :: nat
  mmap_wrapper_outcome :: "nat option"
  create_outcome :: NV_STATUS
  map_cpu_user_outcome :: NV_STATUS

text \<open>
  Modelled from the spec: \<^verbatim>\<open>uvm_mem_map_cpu_user\<close> (re)establishes the CPU-visible
  mapping of a semaphore pool, or fails and changes nothing.
\<close>

definition uvm_mem_map_cpu_user ::
  "uvm_va_range_t \<Rightarrow> NV_STATUS \<Rightarrow> uvm_va_space_t \<Rightarrow> NV_STATUS \<times> uvm_va_space_t" where
  "uvm_mem_map_cpu_user r outcome v =
     (if outcome \<noteq> NV_OK then (outcome, v)
      else (NV_OK,
            v\<lparr>va_ranges := map (\<lambda>x. if x = r then x\<lparr>cpu_user_mapped := True\<rparr> else x)
                               (va_ranges v)\<rparr>))"

text \<open>
  The part of \<^verbatim>\<open>uvm_mmap\<close> that runs with the power-management lock held, from the
  assignment of \<^verbatim>\<open>vm_flags\<close> to the return. A wrapper that is destroyed at the label
  \<^verbatim>\<open>out\<close> stays in \<^verbatim>\<open>vm_private_data\<close>, as in the source.
\<close>

definition mmap_establish ::
  "uvm_config \<Rightarrow> mmap_env \<Rightarrow> nat \<Rightarrow> nat \<Rightarrow> vm_area_struct \<Rightarrow> uvm_sys \<Rightarrow> (int \<times> uvm_sys) option" where
  "mmap_establish uc env vs vma_id vma0 s1 =
     (let vma = vma0\<lparr>vm_flags := vm_flags vma0 OR (VM_MIXEDMAP OR VM_DONTEXPAND),
                     vm_ops := uvm_vm_ops_managed\<rparr>;
          (got, s2) = uvm_vma_wrapper_alloc vma_id (mmap_wrapper_outcome env) s1
      in case got of
           None \<Rightarrow>
             Some (- ENOMEM,
                   pm_up_read (s2\<lparr>vmas := (vmas s2)(vma_id \<mapsto> vma\<lparr>vm_private_data := PrivNull\<rparr>)\<rparr>))
         | Some w \<Rightarrow>
             (let s3 = s2\<lparr>vmas := (vmas s2)(vma_id \<mapsto> vma\<lparr>vm_private_data := PrivWrapper w\<rparr>)\<rparr>
              in case uvm_va_space_down_write vs s3 of
                   None \<Rightarrow> None
                 | Some s4 \<Rightarrow>
                     (case va_spaces s4 vs of
                        None \<Rightarrow> None
                      | Some v \<Rightarrow>
                          (let (status, v1) = uvm_va_range_create_mmap vma w (create_outcome env) v;
                               pool = (if status = NV_ERR_UVM_ADDRESS_IN_USE
                                       then (case uvm_va_range_find v1 (vm_start vma) of
                                               None \<Rightarrow> None
                                             | Some r \<Rightarrow>
                                                 if node_start r = vm_start vma \<and>
                                                    node_end r + 1 = vm_end vma \<and>
                                                    range_type r = UVM_VA_RANGE_TYPE_SEMAPHORE_POOL
                                                 then Some r else None)
                                       else None);
                               (status1, v2, s5, allocated) =
                                 (case pool of
                                    None \<Rightarrow> (status, v1, s4, True)
                                  | Some r \<Rightarrow>
                                      (let s4a = (uvm_vma_wrapper_destroy w s4)
                                                   \<lparr>vmas := (vmas s4)(vma_id \<mapsto>
                                                      vma\<lparr>vm_ops := uvm_vm_ops_semaphore_pool,
                                                          vm_private_data := PrivVma vma_id\<rparr>)\<rparr>;
                                           (st, v1a) = uvm_mem_map_cpu_user r
                                                         (map_cpu_user_outcome env) v1
                                       in (st, v1a, s4a, False)));
                               ret = (if status1 \<noteq> NV_OK then - nv_status_to_errno env status1
                                      else 0);
                               s6 = uvm_va_space_up_write vs
                                      (s5\<lparr>va_spaces := (va_spaces s5)(vs \<mapsto> v2)\<rparr>);
                               s7 = (if ret \<noteq> 0 \<and> allocated then uvm_vma_wrapper_destroy w s6
                                     else s6)
                           in Some (ret, pm_up_read s7)))))"

text \<open>
  \<^verbatim>\<open>uvm_mmap\<close>. The calls that only record lock order are left out.
\<close>

definition uvm_mmap ::
  "uvm_config \<Rightarrow> mmap_env \<Rightarrow> nat \<Rightarrow> nat \<Rightarrow> uvm_sys \<Rightarrow> (int \<times> uvm_sys) option" where
  "uvm_mmap uc env filp vma_id s =
     (let status = global_status s
      in if status \<noteq> NV_OK then Some (- nv_status_to_errno env status, s)
         else
           (case uvm_va_space_get filp s of
              None \<Rightarrow> None
            | Some vs \<Rightarrow>
                (case va_spaces s vs of
                   None \<Rightarrow> None
                 | Some v \<Rightarrow>
                     if vs_initialized v \<noteq> NV_OK then Some (- EBADFD, s)
                     else if (case va_space_mm v of
                                None \<Rightarrow> False
                              | Some mm \<Rightarrow> mm \<noteq> current_mm env)
                     then Some (- EOPNOTSUPP, s)
                     else
                       (case vmas s vma_id of
                          None \<Rightarrow> None
                        | Some vma \<Rightarrow>
                            if vm_start vma \<noteq> push_bit (PAGE_SHIFT uc) (vm_pgoff vma)
                            then Some (- EINVAL, s)
                            else if vm_flags vma AND (VM_SHARED OR (VM_READ OR VM_WRITE)) \<noteq>
                                    (VM_SHARED OR (VM_READ OR VM_WRITE))
                            then Some (- EINVAL, s)
                            else
                              (let (locked, s1) = pm_down_read_trylock s
                               in if \<not> locked
                                  then map_option (Pair 0) (uvm_disable_vma uc vma_id s1)
                                  else mmap_establish uc env vs vma_id vma s1)))))"

text \<open>
  A request whose file offset is one page off its start address, on the sample VA
  space and on one that has not been initialised.
\<close>

definition sample_mmap_env :: mmap_env where
  "sample_mmap_env =
     \<lparr>nv_status_to_errno = (\<lambda>st. if st = NV_OK then 0
                                  else if st = NV_ERR_NO_MEMORY then ENOMEM else EINVAL),
      current_mm = 1, mmap_wrapper_outcome = Some 7, create_outcome = NV_OK,
      map_cpu_user_outcome = NV_OK\<rparr>"

definition mmap_sys :: "NV_STATUS \<Rightarrow> 64 word \<Rightarrow> 64 word \<Rightarrow> uvm_sys" where
  "mmap_sys initialized pgoff flags =
     (sample_sys NV_OK False 0)
       \<lparr>va_spaces := [0 \<mapsto> sample_va_space\<lparr>vs_initialized := initialized\<rparr>],
        vmas := [1 \<mapsto> sample_vma\<lparr>vm_pgoff := pgoff, vm_flags := flags, vm_ops := no_vm_ops,
                                   vm_private_data := PrivNull\<rparr>]\<rparr>"

text \<open>
  The sample state once the handler holds the address-space lock, as it does when an
  attempt has reported "more processing required" and the loop comes round again.
\<close>

definition sample_held_va_space :: uvm_va_space_t where
  "sample_held_va_space = sample_va_space\<lparr>vs_lock := \<lparr>writer = False, readers = 1\<rparr>\<rparr>"

definition sample_retry_sys :: uvm_sys where
  "sample_retry_sys = (sample_sys NV_OK False 0)\<lparr>va_spaces := [0 \<mapsto> sample_held_va_space]\<rparr>"

text \<open>
  The sample state with no pooled context, the slab allocator about to serve the
  allocation of a new one at \<open>slab_addr\<close>.
\<close>

definition fresh_pool_sys :: uvm_sys where
  "fresh_pool_sys =
     (sample_sys NV_OK False 0)
       \<lparr>heap := initial_state [AllocAt slab_addr 4096 []],
        g_cpu_service_block_context_list := []\<rparr>"

text \<open>
  Requests on the sample VA space while the global status is an error, and on a VA
  space tied to the \<^verbatim>\<open>mm\<close> of another process than the calling one.
\<close>

definition mmap_sys_global_error :: uvm_sys where
  "mmap_sys_global_error =
     (mmap_sys NV_OK 0x7f0000001 0xfb)\<lparr>global_status := NV_ERR_NO_MEMORY\<rparr>"

definition mmap_sys_other_mm :: uvm_sys where
  "mmap_sys_other_mm =
     (mmap_sys NV_OK 0x7f0000001 0xfb)
       \<lparr>va_spaces := [0 \<mapsto> sample_va_space\<lparr>va_space_mm := Some 2\<rparr>]\<rparr>"

section \<open>Properties of the tracking allocator\<close>

subsection \<open>Pointers and sizes\<close>

lemma ZERO_SIZE_PTR_not_NULL: "ZERO_SIZE_PTR \<noteq> NULL"
  by (simp add: ZERO_SIZE_PTR_def NULL_def)

lemma not_ZERO_OR_NULL_PTR_D: "\<not> ZERO_OR_NULL_PTR p \<Longrightarrow> p \<noteq> NULL"
  by (auto simp: ZERO_OR_NULL_PTR_def NULL_def)

lemma uvm_kvsize_val:
  "fst (uvm_kvsize c p s) =
     (if is_vmalloc_addr c p then hdr_alloc_size (p - sizeof_hdr) s else ksize p s)"
  by (simp add: uvm_kvsize_def get_hdr_def UVM_ASSERT_def hdr_alloc_size_def ksize_def Let_def
      split: option.splits)

lemma uvm_kvsize_frame:
  "kslab (snd (uvm_kvsize c p s)) = kslab s \<and> vareas (snd (uvm_kvsize c p s)) = vareas s \<and>
   bytes_allocated (snd (uvm_kvsize c p s)) = bytes_allocated s \<and>
   untracked_allocations (snd (uvm_kvsize c p s)) = untracked_allocations s \<and>
   allocation_info (snd (uvm_kvsize c p s)) = allocation_info s \<and>
   outcomes (snd (uvm_kvsize c p s)) = outcomes s \<and>
   g_malloc_initialized (snd (uvm_kvsize c p s)) = g_malloc_initialized s"
  by (simp add: uvm_kvsize_def get_hdr_def UVM_ASSERT_def Let_def split_def)


subsection \<open>What the kernel allocators return\<close>

lemma kmalloc_common_ok:
  "kmalloc_common c sz zero s = (p, s') \<Longrightarrow> p \<noteq> NULL \<Longrightarrow> sz \<noteq> 0 \<Longrightarrow>
     \<not> is_vmalloc_addr c p \<and> \<not> ZERO_OR_NULL_PTR p \<and> kslab s p = None \<and>
     (\<exists>ob. kslab s' p = Some ob \<and> sz \<le> kusable ob) \<and> vareas s' = vareas s"
  by (auto simp: kmalloc_common_def valid_kaddr_def
      split: list.splits alloc_outcome.splits if_splits)

lemma vmalloc_common_ok:
  "vmalloc_common c sz zero s = (a, s') \<Longrightarrow> a \<noteq> NULL \<Longrightarrow>
     is_vmalloc_addr c a \<and> is_vmalloc_addr c (a + sizeof_hdr) \<and> vareas s a = None \<and>
     (\<exists>ar. vareas s' a = Some ar \<and> vlen ar = sz) \<and> kslab s' = kslab s"
  by (auto simp: vmalloc_common_def valid_vaddr_def
      split: list.splits alloc_outcome.splits if_splits)

lemma kmalloc_common_fail:
  "kmalloc_common c sz z s = (NULL, s') \<Longrightarrow> s' = s\<lparr>outcomes := outcomes s'\<rparr>"
  by (auto simp: kmalloc_common_def valid_kaddr_def ZERO_SIZE_PTR_not_NULL ZERO_OR_NULL_PTR_def
      NULL_def split: if_splits list.splits alloc_outcome.splits)

lemma vmalloc_common_fail:
  "vmalloc_common c sz z s = (NULL, s') \<Longrightarrow> s' = s\<lparr>outcomes := outcomes s'\<rparr>"
  by (auto simp: vmalloc_common_def valid_vaddr_def
      split: if_splits list.splits alloc_outcome.splits)

lemma valid_vaddr_payload: "valid_vaddr c s a \<Longrightarrow> a + sizeof_hdr \<noteq> NULL"
  by (auto simp: valid_vaddr_def NULL_def)

lemma vmalloc_common_payload:
  "vmalloc_common c sz z s = (a, s') \<Longrightarrow> a \<noteq> NULL \<Longrightarrow> a + sizeof_hdr \<noteq> NULL"
  by (auto simp: vmalloc_common_def valid_vaddr_payload
      split: if_splits list.splits alloc_outcome.splits)

lemma alloc_internal_fail:
  "alloc_internal c sz z s = (NULL, s') \<Longrightarrow> s' = s\<lparr>outcomes := outcomes s'\<rparr>"
  by (auto simp: alloc_internal_def kmalloc_def kzalloc_def vmalloc_def vzalloc_def Let_def
      dest: kmalloc_common_fail vmalloc_common_fail vmalloc_common_payload
      split: if_splits prod.splits)


subsection \<open>Dispatch on the threshold\<close>

lemmas sample_eval =
  sample_config_def initial_state_def slab_addr_def area_addr_def
  alloc_internal_def kmalloc_def kzalloc_def vmalloc_def vzalloc_def
  kmalloc_common_def vmalloc_common_def valid_kaddr_def valid_vaddr_def set_alloc_size_def
  ZERO_OR_NULL_PTR_def ZERO_SIZE_PTR_def NULL_def sizeof_hdr_def is_vmalloc_addr_def
  uvm_kvsize_def get_hdr_def hdr_alloc_size_def UVM_ASSERT_def ksize_def
  nv_kmem_cache_zalloc_def UVM_KVMALLOC_LEAK_CHECK_ORIGIN_def
  insert_info_def remove_info_def uvm_rb_tree_insert_def uvm_rb_tree_find_def
  uvm_rb_tree_remove_def alloc_tracking_add_def alloc_tracking_remove_def
  uvm_kvmalloc_def uvm_kvfree_def uvm_kvrealloc_def realloc_from_kmalloc_def
  realloc_from_vmalloc_def krealloc_def kfree_def vfree_def Let_def

text \<open>
  C4, as the spec states it, puts a request of exactly the threshold on the
  large-object allocator. \<^verbatim>\<open>alloc_internal\<close> compares with \<^verbatim>\<open><=\<close>: a request of
  exactly \<^verbatim>\<open>UVM_KMALLOC_THRESHOLD\<close> bytes is a slab object, outside the vmalloc range,
  and no area with a header is created for it.
\<close>

theorem alloc_internal_at_threshold_counterexample:
  "UVM_KMALLOC_THRESHOLD (sample_config 1) \<le> 16384 \<and>
   fst threshold_alloc = slab_addr \<and>
   fst threshold_alloc \<noteq> NULL \<and>
   \<not> is_vmalloc_addr (sample_config 1) (fst threshold_alloc) \<and>
   kslab (snd threshold_alloc) (fst threshold_alloc) \<noteq> None \<and>
   vareas (snd threshold_alloc) (fst threshold_alloc - sizeof_hdr) = None"
  by (simp add: threshold_alloc_def sample_eval)

text \<open>
  C4 (amended): \<^verbatim>\<open>alloc_internal\<close> dispatches on a fixed threshold. A request of at
  most the threshold (and not zero) that succeeds is an object of the small-object
  allocator, at least as large as the request, with no header, and its \<^verbatim>\<open>uvm_kvsize\<close>
  is the allocator's \<^verbatim>\<open>ksize\<close>. A request strictly above the threshold that succeeds
  is an area of the large-object allocator of the request plus the header, whose
  header stores the requested size, and \<^verbatim>\<open>uvm_kvsize\<close> returns that size. On any
  pointer \<^verbatim>\<open>uvm_kvsize\<close> dispatches on whether the address is a vmalloc address: the
  header's stored size if so, \<^verbatim>\<open>ksize\<close> otherwise.
\<close>

theorem alloc_internal_dispatch:
  "(sz \<le> UVM_KMALLOC_THRESHOLD c \<and> sz \<noteq> 0 \<and>
    alloc_internal c sz zero s = (p, s') \<and> p \<noteq> NULL \<longrightarrow>
      \<not> is_vmalloc_addr c p \<and> (\<exists>ob. kslab s' p = Some ob \<and> sz \<le> kusable ob) \<and>
      vareas s' = vareas s \<and> fst (uvm_kvsize c p s') = ksize p s')
   \<and> (UVM_KMALLOC_THRESHOLD c < sz \<and> alloc_internal c sz zero s = (p, s') \<and> p \<noteq> NULL \<longrightarrow>
      is_vmalloc_addr c p \<and>
      (\<exists>ar. vareas s' (p - sizeof_hdr) = Some ar \<and> alloc_size ar = sz \<and>
            vlen ar = sizeof_hdr + sz) \<and>
      kslab s' = kslab s \<and> fst (uvm_kvsize c p s') = sz)
   \<and> fst (uvm_kvsize c q t) =
      (if is_vmalloc_addr c q then hdr_alloc_size (q - sizeof_hdr) t else ksize q t)"
proof (intro conjI impI)
  assume a: "sz \<le> UVM_KMALLOC_THRESHOLD c \<and> sz \<noteq> 0 \<and>
    alloc_internal c sz zero s = (p, s') \<and> p \<noteq> NULL"
  then have "kmalloc_common c sz zero s = (p, s')"
    by (auto simp: alloc_internal_def kmalloc_def kzalloc_def split: if_splits)
  from kmalloc_common_ok[OF this] a
  have k: "\<not> is_vmalloc_addr c p" "\<exists>ob. kslab s' p = Some ob \<and> sz \<le> kusable ob"
    "vareas s' = vareas s"
    by auto
  then show "\<not> is_vmalloc_addr c p" "\<exists>ob. kslab s' p = Some ob \<and> sz \<le> kusable ob"
    "vareas s' = vareas s"
    by auto
  show "fst (uvm_kvsize c p s') = ksize p s'"
    using k(1) by (simp add: uvm_kvsize_val)
next
  assume a: "UVM_KMALLOC_THRESHOLD c < sz \<and> alloc_internal c sz zero s = (p, s') \<and> p \<noteq> NULL"
  obtain hdr s1 where v: "vmalloc_common c (sizeof_hdr + sz) zero s = (hdr, s1)"
    by (cases "vmalloc_common c (sizeof_hdr + sz) zero s")
  with a have h: "hdr \<noteq> NULL" "p = hdr + sizeof_hdr" "s' = set_alloc_size hdr sz s1"
    by (auto simp: alloc_internal_def vmalloc_def vzalloc_def not_le[symmetric]
        split: if_splits)
  from vmalloc_common_ok[OF v h(1)] obtain ar where
    ar: "is_vmalloc_addr c (hdr + sizeof_hdr)" "vareas s1 hdr = Some ar"
      "vlen ar = sizeof_hdr + sz" "kslab s1 = kslab s"
    by auto
  show vm: "is_vmalloc_addr c p"
    using ar h by simp
  show e: "\<exists>ar. vareas s' (p - sizeof_hdr) = Some ar \<and> alloc_size ar = sz \<and>
      vlen ar = sizeof_hdr + sz"
    using ar h by (simp add: set_alloc_size_def)
  show "kslab s' = kslab s"
    using ar h by (simp add: set_alloc_size_def)
  show "fst (uvm_kvsize c p s') = sz"
    using e vm by (auto simp add: uvm_kvsize_val hdr_alloc_size_def)
next
  show "fst (uvm_kvsize c q t) =
      (if is_vmalloc_addr c q then hdr_alloc_size (q - sizeof_hdr) t else ksize q t)"
    by (rule uvm_kvsize_val)
qed

theorem alloc_internal_dispatch_witness:
  "(20 \<le> UVM_KMALLOC_THRESHOLD (sample_config 1) \<and> (20 :: size_t) \<noteq> 0 \<and>
    fst small_alloc \<noteq> NULL \<and>
    \<not> is_vmalloc_addr (sample_config 1) (fst small_alloc) \<and>
    fst (uvm_kvsize (sample_config 1) (fst small_alloc) (snd small_alloc)) = 32) \<and>
   (UVM_KMALLOC_THRESHOLD (sample_config 1) < 20000 \<and>
    fst large_alloc \<noteq> NULL \<and>
    is_vmalloc_addr (sample_config 1) (fst large_alloc) \<and>
    fst (uvm_kvsize (sample_config 1) (fst large_alloc) (snd large_alloc)) = 20000)"
proof -
  have small: "alloc_internal (sample_config 1) 20 False (initial_state [AllocAt slab_addr 32 []])
      = (fst small_alloc, snd small_alloc)"
    by (simp add: small_alloc_def)
  have large: "alloc_internal (sample_config 1) 20000 True (initial_state [AllocAt area_addr 0 []])
      = (fst large_alloc, snd large_alloc)"
    by (simp add: large_alloc_def)
  have p1: "20 \<le> UVM_KMALLOC_THRESHOLD (sample_config 1)" "(20 :: size_t) \<noteq> 0"
    "UVM_KMALLOC_THRESHOLD (sample_config 1) < 20000"
    by (simp_all add: sample_config_def)
  have p2: "fst small_alloc \<noteq> NULL" "ksize (fst small_alloc) (snd small_alloc) = 32"
    by (simp_all add: small_alloc_def sample_eval)
  have p3: "fst large_alloc \<noteq> NULL"
    by (simp add: large_alloc_def sample_eval)
  from alloc_internal_dispatch
         [of 20 "sample_config 1" False "initial_state [AllocAt slab_addr 32 []]"
            "fst small_alloc" "snd small_alloc", THEN conjunct1]
       small p1 p2
  have a: "\<not> is_vmalloc_addr (sample_config 1) (fst small_alloc)"
    "fst (uvm_kvsize (sample_config 1) (fst small_alloc) (snd small_alloc)) = 32"
    by simp_all
  from alloc_internal_dispatch
         [of 20000 "sample_config 1" True "initial_state [AllocAt area_addr 0 []]"
            "fst large_alloc" "snd large_alloc", THEN conjunct2, THEN conjunct1]
       large p1 p3
  have b: "is_vmalloc_addr (sample_config 1) (fst large_alloc)"
    "fst (uvm_kvsize (sample_config 1) (fst large_alloc) (snd large_alloc)) = 20000"
    by simp_all
  show ?thesis using p1 p2 p3 a b by simp
qed

subsection \<open>The aggregate byte counter\<close>







subsection \<open>Reallocation to size zero and from a null pointer\<close>

text \<open>
  C5: for a pointer \<open>p\<close> that is neither null nor \<^verbatim>\<open>ZERO_SIZE_PTR\<close>, between
  \<^verbatim>\<open>uvm_kvmalloc_init\<close> and \<^verbatim>\<open>uvm_kvmalloc_exit\<close>, reallocating to size zero leaves
  exactly the state that \<^verbatim>\<open>uvm_kvfree\<close> of \<open>p\<close> leaves and returns \<^verbatim>\<open>ZERO_SIZE_PTR\<close>,
  which is not the null pointer that a failed reallocation returns; reallocating the
  null pointer is \<^verbatim>\<open>uvm_kvmalloc\<close> of the new size.
\<close>

theorem uvm_kvrealloc_zero_and_null:
  "(\<not> ZERO_OR_NULL_PTR p \<and> g_malloc_initialized s \<longrightarrow>
      uvm_kvrealloc c p 0 f l fn s = (ZERO_SIZE_PTR, uvm_kvfree c p s)) \<and>
   ZERO_SIZE_PTR \<noteq> NULL \<and>
   uvm_kvrealloc c NULL n f l fn s = uvm_kvmalloc c n f l fn s"
proof (intro conjI impI)
  assume a: "\<not> ZERO_OR_NULL_PTR p \<and> g_malloc_initialized s"
  then have "p \<noteq> NULL"
    by (simp add: not_ZERO_OR_NULL_PTR_D)
  with a show "uvm_kvrealloc c p 0 f l fn s = (ZERO_SIZE_PTR, uvm_kvfree c p s)"
    by (simp add: uvm_kvrealloc_def uvm_kvfree_def Let_def split_def realloc_from_vmalloc_def
        realloc_from_kmalloc_def krealloc_def alloc_tracking_remove_def uvm_kvsize_def
        get_hdr_def UVM_ASSERT_def remove_info_def uvm_rb_tree_find_def uvm_rb_tree_remove_def
        kfree_def vfree_def ZERO_SIZE_PTR_not_NULL hdr_alloc_size_def ksize_def
        split: option.splits)
next
  show "ZERO_SIZE_PTR \<noteq> NULL"
    by (rule ZERO_SIZE_PTR_not_NULL)
next
  show "uvm_kvrealloc c NULL n f l fn s = uvm_kvmalloc c n f l fn s"
    by (simp add: uvm_kvrealloc_def ZERO_OR_NULL_PTR_def NULL_def)
qed

theorem uvm_kvrealloc_zero_and_null_witness:
  "\<not> ZERO_OR_NULL_PTR slab_addr \<and> g_malloc_initialized live_slab_state \<and>
   kslab live_slab_state slab_addr \<noteq> None \<and>
   fst (uvm_kvrealloc (sample_config 2) slab_addr 0 ''uvm.c'' 91 ''caller'' live_slab_state)
     = ZERO_SIZE_PTR \<and>
   snd (uvm_kvrealloc (sample_config 2) slab_addr 0 ''uvm.c'' 91 ''caller'' live_slab_state)
     = uvm_kvfree (sample_config 2) slab_addr live_slab_state \<and>
   kslab (uvm_kvfree (sample_config 2) slab_addr live_slab_state) slab_addr = None \<and>
   bytes_allocated (uvm_kvfree (sample_config 2) slab_addr live_slab_state) = 0"
proof -
  have h: "\<not> ZERO_OR_NULL_PTR slab_addr" "g_malloc_initialized live_slab_state"
    "kslab live_slab_state slab_addr \<noteq> None"
    by (simp_all add: live_slab_state_def sample_eval)
  have e: "kslab (uvm_kvfree (sample_config 2) slab_addr live_slab_state) slab_addr = None"
    "bytes_allocated (uvm_kvfree (sample_config 2) slab_addr live_slab_state) = 0"
    by (simp_all add: live_slab_state_def sample_eval)
  from uvm_kvrealloc_zero_and_null
         [of slab_addr live_slab_state "sample_config 2" "''uvm.c''" 91 "''caller''",
          THEN conjunct1] h
  have "uvm_kvrealloc (sample_config 2) slab_addr 0 ''uvm.c'' 91 ''caller'' live_slab_state
          = (ZERO_SIZE_PTR, uvm_kvfree (sample_config 2) slab_addr live_slab_state)"
    by simp
  with h e show ?thesis by simp
qed

subsection \<open>A reallocation that fails\<close>

lemma realloc_from_kmalloc_fail:
  "realloc_from_kmalloc c p n s = (NULL, s') \<Longrightarrow> \<not> ZERO_OR_NULL_PTR p \<Longrightarrow>
     s' = s\<lparr>outcomes := outcomes s'\<rparr>"
  by (auto simp: realloc_from_kmalloc_def krealloc_def ZERO_SIZE_PTR_not_NULL Let_def kmalloc_def
      dest: kmalloc_common_fail alloc_internal_fail not_ZERO_OR_NULL_PTR_D
      split: if_splits prod.splits)

lemma realloc_from_vmalloc_fail:
  "realloc_from_vmalloc c p n s = (NULL, s') \<Longrightarrow> \<not> ZERO_OR_NULL_PTR p \<Longrightarrow>
     s' = s\<lparr>outcomes := outcomes s', assert_failed := assert_failed s'\<rparr>"
  apply (frule not_ZERO_OR_NULL_PTR_D)
  apply (clarsimp simp: realloc_from_vmalloc_def ZERO_SIZE_PTR_not_NULL Let_def get_hdr_def
      UVM_ASSERT_def split: if_splits prod.splits)
  apply (drule alloc_internal_fail)
  apply (cases s, cases s')
  apply simp
  done

lemma remove_info_effect:
  "remove_info p s = (info, s') \<Longrightarrow>
     info = allocation_info s p \<and>
     allocation_info s' = (allocation_info s)(p := None) \<and>
     untracked_allocations s' =
       (if allocation_info s p = None then untracked_allocations s - 1
        else untracked_allocations s) \<and>
     kslab s' = kslab s \<and> vareas s' = vareas s \<and> outcomes s' = outcomes s \<and>
     bytes_allocated s' = bytes_allocated s \<and>
     g_malloc_initialized s' = g_malloc_initialized s"
  by (auto simp: remove_info_def uvm_rb_tree_find_def uvm_rb_tree_remove_def UVM_ASSERT_def
      Let_def split: option.splits)

lemma insert_info_effect:
  "allocation_info s p = None \<Longrightarrow>
     allocation_info (insert_info p i s) = (allocation_info s)(p \<mapsto> i) \<and>
     untracked_allocations (insert_info p i s) = untracked_allocations s \<and>
     kslab (insert_info p i s) = kslab s \<and> vareas (insert_info p i s) = vareas s \<and>
     bytes_allocated (insert_info p i s) = bytes_allocated s \<and>
     assert_failed (insert_info p i s) = assert_failed s"
  by (simp add: insert_info_def uvm_rb_tree_insert_def UVM_ASSERT_def)

lemma realloc_dispatch_fail:
  assumes "(if is_vmalloc_addr c p then realloc_from_vmalloc c p n s
            else realloc_from_kmalloc c p n s) = (NULL, s')"
    and "\<not> ZERO_OR_NULL_PTR p"
  shows "kslab s' = kslab s \<and> vareas s' = vareas s \<and>
         bytes_allocated s' = bytes_allocated s \<and>
         untracked_allocations s' = untracked_allocations s \<and>
         allocation_info s' = allocation_info s"
proof (cases "is_vmalloc_addr c p")
  case True
  with assms have "s' = s\<lparr>outcomes := outcomes s', assert_failed := assert_failed s'\<rparr>"
    by (auto dest: realloc_from_vmalloc_fail)
  then show ?thesis by (cases s, cases s') simp
next
  case False
  with assms have "s' = s\<lparr>outcomes := outcomes s'\<rparr>"
    by (auto dest: realloc_from_kmalloc_fail)
  then show ?thesis by (cases s, cases s') simp
qed

lemma realloc_zero_size_result:
  "fst (if is_vmalloc_addr c p then realloc_from_vmalloc c p 0 s
        else realloc_from_kmalloc c p 0 s) = ZERO_SIZE_PTR"
  by (auto simp: realloc_from_vmalloc_def realloc_from_kmalloc_def krealloc_def Let_def split_def)

text \<open>
  What a failed reallocation of a live pointer leaves: both kernel heaps, the byte
  counter and the table of origin records are as before the call. The counter of
  allocations without a record is as before only when the pointer had a record or
  origin tracking is off; \<^verbatim>\<open>remove_info\<close> has decremented it otherwise and the
  failure path puts back a record only.
\<close>

lemma uvm_kvrealloc_fail:
  assumes nz: "\<not> ZERO_OR_NULL_PTR p"
    and r: "uvm_kvrealloc c p n f l fn s = (NULL, s')"
  shows "kslab s' = kslab s \<and> vareas s' = vareas s \<and>
         bytes_allocated s' = bytes_allocated s \<and>
         allocation_info s' = allocation_info s \<and>
         untracked_allocations s' =
           (if UVM_KVMALLOC_LEAK_CHECK_ORIGIN \<le> uvm_leak_checker c \<and> allocation_info s p = None
            then untracked_allocations s - 1 else untracked_allocations s)"
proof -
  obtain old_size s1 where k: "uvm_kvsize c p s = (old_size, s1)"
    by (cases "uvm_kvsize c p s")
  have f1: "kslab s1 = kslab s" "vareas s1 = vareas s" "bytes_allocated s1 = bytes_allocated s"
    "untracked_allocations s1 = untracked_allocations s"
    "allocation_info s1 = allocation_info s"
    using uvm_kvsize_frame[of c p s] k by simp_all
  have n0: "n \<noteq> 0"
  proof
    assume "n = 0"
    with r nz k show False
      using realloc_zero_size_result[of c p s1]
        realloc_zero_size_result[of c p "alloc_tracking_remove c p s1"]
      by (auto simp: uvm_kvrealloc_def Let_def split_def ZERO_SIZE_PTR_not_NULL
          ZERO_SIZE_PTR_not_NULL[symmetric] split: if_splits)
  qed
  show ?thesis
  proof (cases "uvm_leak_checker c = 0")
    case True
    then have o: "\<not> UVM_KVMALLOC_LEAK_CHECK_ORIGIN \<le> uvm_leak_checker c"
      by (simp add: UVM_KVMALLOC_LEAK_CHECK_ORIGIN_def)
    from True r nz k have
      "(if is_vmalloc_addr c p then realloc_from_vmalloc c p n s1
        else realloc_from_kmalloc c p n s1) = (NULL, s')"
      by (auto simp: uvm_kvrealloc_def Let_def split_def prod_eq_iff split: if_splits)
    from realloc_dispatch_fail[OF this nz] f1 o show ?thesis by simp
  next
    case lk: False
    define s1a where "s1a = s1\<lparr>bytes_allocated := bytes_allocated s1 - old_size\<rparr>"
    show ?thesis
    proof (cases "UVM_KVMALLOC_LEAK_CHECK_ORIGIN \<le> uvm_leak_checker c")
      case False
      obtain s3 where
        d: "(if is_vmalloc_addr c p then realloc_from_vmalloc c p n s1a
             else realloc_from_kmalloc c p n s1a) = (NULL, s3)"
        and e: "s' = s3\<lparr>bytes_allocated := bytes_allocated s3 + old_size\<rparr>"
        using r nz k lk n0 False
        by (auto simp: uvm_kvrealloc_def Let_def split_def s1a_def prod_eq_iff
            split: if_splits)
      from realloc_dispatch_fail[OF d nz] e f1 False show ?thesis
        by (simp add: s1a_def)
    next
      case True
      obtain info s2 where ri: "remove_info p s1a = (info, s2)"
        by (cases "remove_info p s1a")
      note re = remove_info_effect[OF ri]
      obtain s3 where
        d: "(if is_vmalloc_addr c p then realloc_from_vmalloc c p n s2
             else realloc_from_kmalloc c p n s2) = (NULL, s3)"
        and e: "s' = (let s4 = s3\<lparr>bytes_allocated := bytes_allocated s3 + old_size\<rparr> in
                      case info of Some i \<Rightarrow> insert_info p i s4 | None \<Rightarrow> s4)"
        using r nz k lk n0 True ri
        by (auto simp: uvm_kvrealloc_def Let_def split_def s1a_def prod_eq_iff
            split: if_splits option.splits)
      note df = realloc_dispatch_fail[OF d nz]
      show ?thesis
      proof (cases info)
        case None
        with e df re f1 True show ?thesis
          by (auto simp: s1a_def Let_def)
      next
        case (Some i)
        have "allocation_info (s3\<lparr>bytes_allocated := bytes_allocated s3 + old_size\<rparr>) p = None"
          using df re by simp
        from insert_info_effect[OF this, of i] Some e df re f1 True show ?thesis
          by (auto simp: s1a_def Let_def)
      qed
    qed
  qed
qed

text \<open>
  C1 at a failing input. Origin tracking is on; the allocation at \<open>slab_addr\<close> has no
  origin record because the allocation of the record failed, so it is counted in
  \<^verbatim>\<open>untracked_allocations\<close>. A reallocation to 64 bytes fails and returns null. The
  slab object, the byte counter and \<^verbatim>\<open>uvm_kvsize\<close> are as before the call, but
  \<^verbatim>\<open>untracked_allocations\<close> has gone from 1 to 0 while the allocation is still live
  and still has no record. Freeing the pointer afterwards violates the assertion of
  \<^verbatim>\<open>remove_info\<close> that the counter is positive and leaves the counter at -1; freeing
  it without the failed reallocation violates nothing and leaves 0.
\<close>

theorem uvm_kvrealloc_failure_untracked:
  "fst (uvm_kvrealloc (sample_config 2) slab_addr 64 ''uvm.c'' 80 ''caller''
          untracked_alloc_state) = NULL \<and>
   kslab failed_realloc_state = kslab untracked_alloc_state \<and>
   bytes_allocated failed_realloc_state = bytes_allocated untracked_alloc_state \<and>
   fst (uvm_kvsize (sample_config 2) slab_addr failed_realloc_state) = 32 \<and>
   allocation_info untracked_alloc_state slab_addr = None \<and>
   allocation_info failed_realloc_state slab_addr = None \<and>
   untracked_allocations untracked_alloc_state = 1 \<and>
   untracked_allocations failed_realloc_state = 0 \<and>
   \<not> assert_failed failed_realloc_state \<and>
   assert_failed (uvm_kvfree (sample_config 2) slab_addr failed_realloc_state) \<and>
   untracked_allocations (uvm_kvfree (sample_config 2) slab_addr failed_realloc_state) = - 1 \<and>
   \<not> assert_failed (uvm_kvfree (sample_config 2) slab_addr untracked_alloc_state) \<and>
   untracked_allocations (uvm_kvfree (sample_config 2) slab_addr untracked_alloc_state) = 0"
  by (simp add: failed_realloc_state_def untracked_alloc_state_def sample_eval)

section \<open>Properties of the CPU fault handler\<close>

lemmas fault_eval = uvm_vm_fault_def Let_def pm_down_read_trylock_def down_read_trylock_def
  uvm_service_block_context_cpu_alloc_def uvm_va_space_get_def log_event_def
  sample_sys_def sample_env_def sample_vma_def sample_attempt_def sample_context_def
  sample_va_space_def sample_uvm_config_def
  loop_prologue_def throttle_before_retry_def
  uvm_tools_record_throttling_start_def uvm_tools_record_throttling_end_def
  uvm_va_space_up_read_def uvm_va_space_down_read_def usleep_range_def
  down_read_def up_read_def uvm_va_block_find_create_managed_def uvm_va_block_cpu_fault_def
  NV_GETTIME_def uvm_tools_record_cpu_fatal_fault_def uvm_service_block_context_cpu_free_def
  pm_up_read_def convert_error_def

subsection \<open>A fault while the driver is not operational or suspended\<close>

text \<open>
  C3, as the spec states it, gives a retry-later outcome whenever the global status
  is not operational. With a global status that is an error other than
  \<^verbatim>\<open>NV_ERR_BUSY_RETRY\<close> and \<^verbatim>\<open>NV_ERR_NO_MEMORY\<close> the handler jumps to
  \<^verbatim>\<open>convert_error\<close> with that status and the \<^verbatim>\<open>switch\<close> returns \<^verbatim>\<open>VM_FAULT_SIGBUS\<close>,
  not \<^verbatim>\<open>VM_FAULT_NOPAGE\<close>.
\<close>

theorem uvm_vm_fault_global_error_counterexample:
  "global_status (sample_sys (NV_ERR_OTHER 1) False 0) \<noteq> NV_OK \<and>
   uvm_vm_fault sample_uvm_config (sample_env []) sample_vma 0x7f0000001000 True
       (sample_sys (NV_ERR_OTHER 1) False 0)
     = Some (VM_FAULT_SIGBUS, sample_sys (NV_ERR_OTHER 1) False 0) \<and>
   VM_FAULT_SIGBUS \<noteq> VM_FAULT_NOPAGE"
  by (simp add: uvm_vm_fault_def Let_def convert_error_def sample_sys_def VM_FAULT_SIGBUS_def
      VM_FAULT_NOPAGE_def)

text \<open>
  C3 (amended): when the global status is not \<^verbatim>\<open>NV_OK\<close>, or the power-management
  lock cannot be taken without blocking, the handler returns at once and the state is
  the one it was called in: no context is taken from the pool or allocated, no attempt
  is made, no event is recorded and no lock is taken. With the lock unavailable the
  result is the retry-later code \<^verbatim>\<open>VM_FAULT_NOPAGE\<close>. With a global status that is not
  \<^verbatim>\<open>NV_OK\<close> the result is that status converted: \<^verbatim>\<open>VM_FAULT_NOPAGE\<close> for
  \<^verbatim>\<open>NV_ERR_BUSY_RETRY\<close>, \<^verbatim>\<open>VM_FAULT_OOM\<close> for \<^verbatim>\<open>NV_ERR_NO_MEMORY\<close> and
  \<^verbatim>\<open>VM_FAULT_SIGBUS\<close> for any other status.
\<close>

theorem uvm_vm_fault_skipped:
  "(global_status s \<noteq> NV_OK \<longrightarrow>
      uvm_vm_fault uc env vma fault_addr is_write s =
        Some (convert_error (global_status s) False, s)) \<and>
   (global_status s = NV_OK \<and> writer (pm_lock s) \<longrightarrow>
      uvm_vm_fault uc env vma fault_addr is_write s = Some (VM_FAULT_NOPAGE, s)) \<and>
   convert_error NV_ERR_BUSY_RETRY False = VM_FAULT_NOPAGE \<and>
   convert_error NV_ERR_NO_MEMORY False = VM_FAULT_OOM \<and>
   convert_error (NV_ERR_OTHER n) False = VM_FAULT_SIGBUS \<and>
   convert_error NV_ERR_UVM_ADDRESS_IN_USE False = VM_FAULT_SIGBUS \<and>
   convert_error NV_WARN_MORE_PROCESSING_REQUIRED False = VM_FAULT_SIGBUS"
  by (simp add: uvm_vm_fault_def Let_def pm_down_read_trylock_def down_read_trylock_def
      convert_error_def)

theorem uvm_vm_fault_skipped_witness:
  "global_status (sample_sys NV_ERR_NO_MEMORY False 0) \<noteq> NV_OK \<and>
   uvm_vm_fault sample_uvm_config (sample_env []) sample_vma 0x7f0000001000 True
       (sample_sys NV_ERR_NO_MEMORY False 0)
     = Some (VM_FAULT_OOM, sample_sys NV_ERR_NO_MEMORY False 0) \<and>
   global_status (sample_sys NV_OK True 0) = NV_OK \<and>
   writer (pm_lock (sample_sys NV_OK True 0)) \<and>
   uvm_vm_fault sample_uvm_config (sample_env []) sample_vma 0x7f0000001000 True
       (sample_sys NV_OK True 0)
     = Some (VM_FAULT_NOPAGE, sample_sys NV_OK True 0)"
proof -
  have a: "global_status (sample_sys NV_ERR_NO_MEMORY False 0) = NV_ERR_NO_MEMORY"
    "global_status (sample_sys NV_OK True 0) = NV_OK"
    "writer (pm_lock (sample_sys NV_OK True 0))"
    by (simp_all add: sample_sys_def)
  note th = uvm_vm_fault_skipped
    [of _ sample_uvm_config "sample_env []" sample_vma "0x7f0000001000" True 1]
  from th[of "sample_sys NV_ERR_NO_MEMORY False 0", THEN conjunct1]
    th[of "sample_sys NV_ERR_NO_MEMORY False 0", THEN conjunct2, THEN conjunct2,
       THEN conjunct2, THEN conjunct1] a
  have b: "uvm_vm_fault sample_uvm_config (sample_env []) sample_vma 0x7f0000001000 True
       (sample_sys NV_ERR_NO_MEMORY False 0)
     = Some (VM_FAULT_OOM, sample_sys NV_ERR_NO_MEMORY False 0)"
    by simp
  from th[of "sample_sys NV_OK True 0", THEN conjunct2, THEN conjunct1] a
  have c: "uvm_vm_fault sample_uvm_config (sample_env []) sample_vma 0x7f0000001000 True
       (sample_sys NV_OK True 0)
     = Some (VM_FAULT_NOPAGE, sample_sys NV_OK True 0)"
    by simp
  show ?thesis using a b c by simp
qed

subsection \<open>The wake-up timestamp of an acquired context\<close>

lemma cpu_alloc_pooled:
  "uvm_service_block_context_cpu_alloc uc fresh
     (s\<lparr>g_cpu_service_block_context_list := x # rest\<rparr>)
     = (Some x, s\<lparr>g_cpu_service_block_context_list := rest\<rparr>)"
  by (simp add: uvm_service_block_context_cpu_alloc_def)

lemma cpu_alloc_fresh:
  "uvm_service_block_context_cpu_alloc uc fresh (s\<lparr>g_cpu_service_block_context_list := []\<rparr>)
     = (let (p, h) = uvm_kvmalloc (alloc_config uc) (sizeof_service_context uc)
                          ''uvm.c'' 113 ''uvm_service_block_context_cpu_alloc'' (heap s)
        in if p = NULL then (None, s\<lparr>g_cpu_service_block_context_list := [], heap := h\<rparr>)
           else (Some (fresh\<lparr>ctx_addr := p\<rparr>),
                 s\<lparr>g_cpu_service_block_context_list := [], heap := h\<rparr>))"
  by (simp add: uvm_service_block_context_cpu_alloc_def split_def Let_def)

lemma pm_down_read_trylock_pool:
  "pm_down_read_trylock (s\<lparr>g_cpu_service_block_context_list := xs\<rparr>) =
     (fst (pm_down_read_trylock s),
      (snd (pm_down_read_trylock s))\<lparr>g_cpu_service_block_context_list := xs\<rparr>)"
  by (simp add: pm_down_read_trylock_def down_read_trylock_def log_event_def)

text \<open>
  What the loop leaves of a context whose wake-up timestamp is zero when no attempt
  records a timestamp: the timestamp stays zero, so no iteration sleeps.
\<close>

lemma is_sleep_simps:
  "\<not> is_sleep (VaSpaceUpRead vs)" "\<not> is_sleep (VaSpaceDownRead vs)"
  "\<not> is_sleep (BlockFindCreate vs fa st)" "\<not> is_sleep (BlockCpuFault vs fa w st)"
  "\<not> is_sleep (ThrottlingStart vs fa)" "\<not> is_sleep (ThrottlingEnd vs fa)"
  "\<not> is_sleep PmTrylockRead" "\<not> is_sleep PmUpRead" "\<not> is_sleep FlushEvents"
  "\<not> is_sleep (EccCheck g st)" "\<not> is_sleep (CpuFatalFault vs fa w st)"
  "is_sleep (UsleepRange lo hi)"
  by (simp_all add: is_sleep_def)

lemma loop_prologue_no_stamp:
  assumes "wakeup_time_stamp ctx = 0"
    and "loop_prologue vs fa a status ctx s = Some s3"
  shows "filter is_sleep (trace s3) = filter is_sleep (trace s) \<and>
         g_cpu_service_block_context_list s3 = g_cpu_service_block_context_list s"
  using assms
  by (auto simp: loop_prologue_def throttle_before_retry_def Let_def
      uvm_tools_record_throttling_start_def uvm_tools_record_throttling_end_def
      uvm_va_space_up_read_def uvm_va_space_down_read_def usleep_range_def log_event_def
      down_read_def up_read_def is_sleep_simps split: if_splits option.splits)

lemma fault_loop_no_stamp:
  "list_all (\<lambda>a. new_wakeup_time_stamp a = None) as \<Longrightarrow> wakeup_time_stamp ctx = 0 \<Longrightarrow>
   fault_loop vs fa w as status ctx s = Some (st, ctx', s') \<Longrightarrow>
     wakeup_time_stamp ctx' = 0 \<and> ctx_addr ctx' = ctx_addr ctx \<and>
     filter is_sleep (trace s') = filter is_sleep (trace s) \<and>
     g_cpu_service_block_context_list s' = g_cpu_service_block_context_list s"
proof (induction as arbitrary: status ctx s)
  case Nil
  then show ?case by simp
next
  case (Cons a as)
  from Cons.prems(3) obtain s3 where p: "loop_prologue vs fa a status ctx s = Some s3"
    by (cases "loop_prologue vs fa a status ctx s") auto
  note q = loop_prologue_no_stamp[OF Cons.prems(2) p]
  from Cons.prems(1) have n: "new_wakeup_time_stamp a = None"
    and r: "list_all (\<lambda>a. new_wakeup_time_stamp a = None) as"
    by simp_all
  show ?case
  proof (cases "find_create_status a = NV_OK")
    case False
    with Cons.prems(3) p q Cons.prems(2) show ?thesis
      by (auto simp add: uvm_va_block_find_create_managed_def log_event_def is_sleep_simps)
  next
    case True
    let ?c = "ctx\<lparr>wakeup_time_stamp := 0, did_migrate := new_did_migrate a,
                  gpus_to_check_for_ecc := new_gpus_to_check_for_ecc a\<rparr>"
    let ?s5 = "s3\<lparr>clock := clock s3 + attempt_ns a,
                   trace := trace s3 @ [BlockFindCreate vs fa (find_create_status a),
                     BlockCpuFault vs fa w (cpu_fault_status a)]\<rparr>"
    have c: "wakeup_time_stamp ?c = 0" "ctx_addr ?c = ctx_addr ctx" by simp_all
    have s5: "filter is_sleep (trace ?s5) = filter is_sleep (trace s)"
      "g_cpu_service_block_context_list ?s5 = g_cpu_service_block_context_list s"
      using q by (simp_all add: is_sleep_simps)
    from True Cons.prems(3) p n Cons.prems(2) have
      "(ctx' = ?c \<and> s' = ?s5) \<or>
       fault_loop vs fa w as NV_WARN_MORE_PROCESSING_REQUIRED ?c ?s5 = Some (st, ctx', s')"
      by (auto simp add: uvm_va_block_find_create_managed_def uvm_va_block_cpu_fault_def
          log_event_def split: if_splits)
    then show ?thesis
    proof
      assume "ctx' = ?c \<and> s' = ?s5"
      with c s5 show ?thesis by simp
    next
      assume "fault_loop vs fa w as NV_WARN_MORE_PROCESSING_REQUIRED ?c ?s5 = Some (st, ctx', s')"
      from Cons.IH[OF r c(1) this] c s5 show ?thesis by simp
    qed
  qed
qed

text \<open>
  A fault that acquires a context runs the loop on that context with the timestamp
  set to zero, and puts the context the loop returns at the head of the pool.
\<close>

lemma uvm_vm_fault_acquired:
  assumes g: "global_status s = NV_OK" and l: "\<not> writer (pm_lock s)"
    and al: "uvm_service_block_context_cpu_alloc uc (fresh_context env)
               (snd (pm_down_read_trylock s)) = (Some c0, s2)"
    and f: "uvm_vm_fault uc env vma fa w s = Some (code, s')"
  shows "\<exists>vs st sc s3.
           fault_loop vs fa w (attempts env) NV_OK (c0\<lparr>wakeup_time_stamp := 0\<rparr>) s2 =
             Some (st, sc, s3) \<and>
           g_cpu_service_block_context_list s' = sc # g_cpu_service_block_context_list s3 \<and>
           filter is_sleep (trace s') = filter is_sleep (trace s3)"
proof -
  from l have lk: "fst (pm_down_read_trylock s)"
    by (simp add: pm_down_read_trylock_def down_read_trylock_def)
  from f g lk al obtain vs where vs: "uvm_va_space_get (vm_file vma) s = Some vs"
    by (cases "uvm_va_space_get (vm_file vma) s")
       (auto simp: uvm_vm_fault_def Let_def split_def)
  from f g lk al vs obtain r where
    r: "fault_loop vs fa w (attempts env) NV_OK (c0\<lparr>wakeup_time_stamp := 0\<rparr>) s2 = Some r"
    by (cases "fault_loop vs fa w (attempts env) NV_OK (c0\<lparr>wakeup_time_stamp := 0\<rparr>) s2")
       (auto simp: uvm_vm_fault_def Let_def split_def)
  obtain st sc s3 where rr: "r = (st, sc, s3)" by (cases r) auto
  from f g lk al vs r rr have
    "g_cpu_service_block_context_list s' = sc # g_cpu_service_block_context_list s3 \<and>
     filter is_sleep (trace s') = filter is_sleep (trace s3)"
    by (auto simp: uvm_vm_fault_def Let_def split_def pm_up_read_def log_event_def
        uvm_service_block_context_cpu_free_def uvm_va_space_up_read_def
        uvm_tools_record_cpu_fatal_fault_def is_sleep_simps
        split: option.splits if_splits)
  with r rr show ?thesis by blast
qed

lemma trylock_trace:
  "\<not> writer (pm_lock s) \<Longrightarrow>
     filter is_sleep (trace (snd (pm_down_read_trylock s))) = filter is_sleep (trace s) \<and>
     g_cpu_service_block_context_list (snd (pm_down_read_trylock s)) =
       g_cpu_service_block_context_list s \<and>
     heap (snd (pm_down_read_trylock s)) = heap s"
  by (simp add: pm_down_read_trylock_def down_read_trylock_def log_event_def is_sleep_simps)

lemma uvm_vm_fault_zero:
  assumes g: "global_status s = NV_OK" and l: "\<not> writer (pm_lock s)"
    and n: "list_all (\<lambda>a. new_wakeup_time_stamp a = None) (attempts env)"
    and f: "uvm_vm_fault uc env vma fa w s = Some (code, s')"
  shows "g_cpu_service_block_context_list s = x # rest \<Longrightarrow>
           (\<exists>c. g_cpu_service_block_context_list s' = c # rest \<and> ctx_addr c = ctx_addr x \<and>
                wakeup_time_stamp c = 0) \<and>
           filter is_sleep (trace s') = filter is_sleep (trace s)"
    and "g_cpu_service_block_context_list s = [] \<Longrightarrow>
         fst (uvm_kvmalloc (alloc_config uc) (sizeof_service_context uc)
                ''uvm.c'' 113 ''uvm_service_block_context_cpu_alloc'' (heap s)) \<noteq> NULL \<Longrightarrow>
           (\<exists>c. g_cpu_service_block_context_list s' = [c] \<and>
                ctx_addr c = fst (uvm_kvmalloc (alloc_config uc) (sizeof_service_context uc)
                  ''uvm.c'' 113 ''uvm_service_block_context_cpu_alloc'' (heap s)) \<and>
                wakeup_time_stamp c = 0) \<and>
           filter is_sleep (trace s') = filter is_sleep (trace s)"
proof -
  note t = trylock_trace[OF l]
  {
    assume p: "g_cpu_service_block_context_list s = x # rest"
    have al: "uvm_service_block_context_cpu_alloc uc (fresh_context env)
               (snd (pm_down_read_trylock s)) =
              (Some x, (snd (pm_down_read_trylock s))\<lparr>g_cpu_service_block_context_list := rest\<rparr>)"
      using p t by (simp add: uvm_service_block_context_cpu_alloc_def)
    from uvm_vm_fault_acquired[OF g l al f] obtain vs st sc s3 where
      fl: "fault_loop vs fa w (attempts env) NV_OK (x\<lparr>wakeup_time_stamp := 0\<rparr>)
             ((snd (pm_down_read_trylock s))\<lparr>g_cpu_service_block_context_list := rest\<rparr>) =
             Some (st, sc, s3)"
      and e: "g_cpu_service_block_context_list s' = sc # g_cpu_service_block_context_list s3"
        "filter is_sleep (trace s') = filter is_sleep (trace s3)"
      by blast
    from fault_loop_no_stamp[OF n _ fl] e t
    show "(\<exists>c. g_cpu_service_block_context_list s' = c # rest \<and> ctx_addr c = ctx_addr x \<and>
                wakeup_time_stamp c = 0) \<and>
           filter is_sleep (trace s') = filter is_sleep (trace s)"
      by simp
  next
    let ?k = "uvm_kvmalloc (alloc_config uc) (sizeof_service_context uc)
                ''uvm.c'' 113 ''uvm_service_block_context_cpu_alloc'' (heap s)"
    assume p: "g_cpu_service_block_context_list s = []" and k: "fst ?k \<noteq> NULL"
    have al: "uvm_service_block_context_cpu_alloc uc (fresh_context env)
               (snd (pm_down_read_trylock s)) =
              (Some ((fresh_context env)\<lparr>ctx_addr := fst ?k\<rparr>),
               (snd (pm_down_read_trylock s))\<lparr>heap := snd ?k\<rparr>)"
      using p t k by (simp add: uvm_service_block_context_cpu_alloc_def split_def Let_def)
    from uvm_vm_fault_acquired[OF g l al f] obtain vs st sc s3 where
      fl: "fault_loop vs fa w (attempts env) NV_OK
             ((fresh_context env)\<lparr>ctx_addr := fst ?k, wakeup_time_stamp := 0\<rparr>)
             ((snd (pm_down_read_trylock s))\<lparr>heap := snd ?k\<rparr>) =
             Some (st, sc, s3)"
      and e: "g_cpu_service_block_context_list s' = sc # g_cpu_service_block_context_list s3"
        "filter is_sleep (trace s') = filter is_sleep (trace s3)"
      by auto
    from fault_loop_no_stamp[OF n _ fl] e t p
    show "(\<exists>c. g_cpu_service_block_context_list s' = [c] \<and> ctx_addr c = fst ?k \<and>
                wakeup_time_stamp c = 0) \<and>
           filter is_sleep (trace s') = filter is_sleep (trace s)"
      by simp
  }
qed

text \<open>
  C9: a fault that gets past the status check and the power-management lock acquires
  a context and sets its wake-up timestamp to zero before the loop can read it.
  Whatever timestamp the pooled context at the head of the list carries from an
  earlier fault, and whatever a newly allocated context happens to hold, the handler
  returns the same code and leaves the same state as if that timestamp had been zero.

  The value it is set to is zero: when no attempt of the fault records a timestamp,
  the context that the handler puts back at the head of the pool, the pooled one it
  took or the one it allocated at the address the allocator returned, carries the
  timestamp zero, and the handler has not slept.
\<close>

theorem wakeup_time_stamp_reset:
  "(global_status s = NV_OK \<and> \<not> writer (pm_lock s) \<longrightarrow>
      uvm_vm_fault uc env vma fault_addr is_write
        (s\<lparr>g_cpu_service_block_context_list := x\<lparr>wakeup_time_stamp := t\<rparr> # rest\<rparr>) =
      uvm_vm_fault uc env vma fault_addr is_write
        (s\<lparr>g_cpu_service_block_context_list := x\<lparr>wakeup_time_stamp := 0\<rparr> # rest\<rparr>)) \<and>
   uvm_vm_fault uc (env\<lparr>fresh_context := y\<lparr>wakeup_time_stamp := t\<rparr>\<rparr>) vma fault_addr is_write
        (s\<lparr>g_cpu_service_block_context_list := []\<rparr>) =
   uvm_vm_fault uc (env\<lparr>fresh_context := y\<lparr>wakeup_time_stamp := 0\<rparr>\<rparr>) vma fault_addr is_write
        (s\<lparr>g_cpu_service_block_context_list := []\<rparr>) \<and>
   (global_status s = NV_OK \<and> \<not> writer (pm_lock s) \<and>
    list_all (\<lambda>a. new_wakeup_time_stamp a = None) (attempts env) \<and>
    g_cpu_service_block_context_list s = x # rest \<and>
    uvm_vm_fault uc env vma fault_addr is_write s = Some (code, s') \<longrightarrow>
      (\<exists>c. g_cpu_service_block_context_list s' = c # rest \<and> ctx_addr c = ctx_addr x \<and>
           wakeup_time_stamp c = 0) \<and>
      filter is_sleep (trace s') = filter is_sleep (trace s)) \<and>
   (global_status s = NV_OK \<and> \<not> writer (pm_lock s) \<and>
    list_all (\<lambda>a. new_wakeup_time_stamp a = None) (attempts env) \<and>
    g_cpu_service_block_context_list s = [] \<and>
    fst (uvm_kvmalloc (alloc_config uc) (sizeof_service_context uc)
           ''uvm.c'' 113 ''uvm_service_block_context_cpu_alloc'' (heap s)) \<noteq> NULL \<and>
    uvm_vm_fault uc env vma fault_addr is_write s = Some (code, s') \<longrightarrow>
      (\<exists>c. g_cpu_service_block_context_list s' = [c] \<and>
           ctx_addr c = fst (uvm_kvmalloc (alloc_config uc) (sizeof_service_context uc)
             ''uvm.c'' 113 ''uvm_service_block_context_cpu_alloc'' (heap s)) \<and>
           wakeup_time_stamp c = 0) \<and>
      filter is_sleep (trace s') = filter is_sleep (trace s))"
proof (intro conjI impI)
  assume a: "global_status s = NV_OK \<and> \<not> writer (pm_lock s)"
  then have l: "fst (pm_down_read_trylock s)"
    by (simp add: pm_down_read_trylock_def down_read_trylock_def)
  show "uvm_vm_fault uc env vma fault_addr is_write
        (s\<lparr>g_cpu_service_block_context_list := x\<lparr>wakeup_time_stamp := t\<rparr> # rest\<rparr>) =
      uvm_vm_fault uc env vma fault_addr is_write
        (s\<lparr>g_cpu_service_block_context_list := x\<lparr>wakeup_time_stamp := 0\<rparr> # rest\<rparr>)"
    using a l
    by (simp add: uvm_vm_fault_def pm_down_read_trylock_pool cpu_alloc_pooled
        uvm_va_space_get_def cong: option.case_cong)
next
  obtain p h where k: "uvm_kvmalloc (alloc_config uc) (sizeof_service_context uc)
                          ''uvm.c'' 113 ''uvm_service_block_context_cpu_alloc''
                          (heap (snd (pm_down_read_trylock s))) = (p, h)"
    by (cases "uvm_kvmalloc (alloc_config uc) (sizeof_service_context uc)
                          ''uvm.c'' 113 ''uvm_service_block_context_cpu_alloc''
                          (heap (snd (pm_down_read_trylock s)))")
  show "uvm_vm_fault uc (env\<lparr>fresh_context := y\<lparr>wakeup_time_stamp := t\<rparr>\<rparr>) vma fault_addr
          is_write (s\<lparr>g_cpu_service_block_context_list := []\<rparr>) =
        uvm_vm_fault uc (env\<lparr>fresh_context := y\<lparr>wakeup_time_stamp := 0\<rparr>\<rparr>) vma fault_addr
          is_write (s\<lparr>g_cpu_service_block_context_list := []\<rparr>)"
  proof (cases "global_status s = NV_OK \<and> fst (pm_down_read_trylock s)")
    case False
    then show ?thesis
      by (auto simp add: uvm_vm_fault_def pm_down_read_trylock_pool Let_def)
  next
    case True
    then show ?thesis
      using k
      by (cases "p = NULL")
         (simp_all add: uvm_vm_fault_def pm_down_read_trylock_pool cpu_alloc_fresh
            uvm_va_space_get_def Let_def split_def cong: option.case_cong if_cong)
  qed
next
  assume h: "global_status s = NV_OK \<and> \<not> writer (pm_lock s) \<and>
    list_all (\<lambda>a. new_wakeup_time_stamp a = None) (attempts env) \<and>
    g_cpu_service_block_context_list s = x # rest \<and>
    uvm_vm_fault uc env vma fault_addr is_write s = Some (code, s')"
  then have z: "(\<exists>c. g_cpu_service_block_context_list s' = c # rest \<and>
      ctx_addr c = ctx_addr x \<and> wakeup_time_stamp c = 0) \<and>
      filter is_sleep (trace s') = filter is_sleep (trace s)"
    by (intro uvm_vm_fault_zero(1)[where uc = uc and env = env and vma = vma
          and fa = fault_addr and w = is_write and code = code]) simp_all
  from z show "\<exists>c. g_cpu_service_block_context_list s' = c # rest \<and>
      ctx_addr c = ctx_addr x \<and> wakeup_time_stamp c = 0"
    by (rule conjunct1)
  from z show "filter is_sleep (trace s') = filter is_sleep (trace s)"
    by (rule conjunct2)
next
  assume h: "global_status s = NV_OK \<and> \<not> writer (pm_lock s) \<and>
    list_all (\<lambda>a. new_wakeup_time_stamp a = None) (attempts env) \<and>
    g_cpu_service_block_context_list s = [] \<and>
    fst (uvm_kvmalloc (alloc_config uc) (sizeof_service_context uc)
           ''uvm.c'' 113 ''uvm_service_block_context_cpu_alloc'' (heap s)) \<noteq> NULL \<and>
    uvm_vm_fault uc env vma fault_addr is_write s = Some (code, s')"
  then have z: "(\<exists>c. g_cpu_service_block_context_list s' = [c] \<and>
           ctx_addr c = fst (uvm_kvmalloc (alloc_config uc) (sizeof_service_context uc)
             ''uvm.c'' 113 ''uvm_service_block_context_cpu_alloc'' (heap s)) \<and>
           wakeup_time_stamp c = 0) \<and>
      filter is_sleep (trace s') = filter is_sleep (trace s)"
    by (intro uvm_vm_fault_zero(2)[where uc = uc and env = env and vma = vma
          and fa = fault_addr and w = is_write and code = code]) simp_all
  from z show "\<exists>c. g_cpu_service_block_context_list s' = [c] \<and>
           ctx_addr c = fst (uvm_kvmalloc (alloc_config uc) (sizeof_service_context uc)
             ''uvm.c'' 113 ''uvm_service_block_context_cpu_alloc'' (heap s)) \<and>
           wakeup_time_stamp c = 0"
    by (rule conjunct1)
  from z show "filter is_sleep (trace s') = filter is_sleep (trace s)"
    by (rule conjunct2)
qed

theorem wakeup_time_stamp_reset_witness:
  "global_status (sample_sys NV_OK False 0) = NV_OK \<and>
   \<not> writer (pm_lock (sample_sys NV_OK False 0)) \<and>
   uvm_vm_fault sample_uvm_config
       (sample_env [sample_attempt NV_WARN_MORE_PROCESSING_REQUIRED None,
                    sample_attempt NV_OK None])
       sample_vma sample_fault_addr True (sample_sys NV_OK False 0xffffffffffffffff) =
   uvm_vm_fault sample_uvm_config
       (sample_env [sample_attempt NV_WARN_MORE_PROCESSING_REQUIRED None,
                    sample_attempt NV_OK None])
       sample_vma sample_fault_addr True (sample_sys NV_OK False 0) \<and>
   map_option (\<lambda>r. (fst r, filter is_sleep (trace (snd r)), clock (snd r)))
     (uvm_vm_fault sample_uvm_config
       (sample_env [sample_attempt NV_WARN_MORE_PROCESSING_REQUIRED None,
                    sample_attempt NV_OK None])
       sample_vma sample_fault_addr True (sample_sys NV_OK False 0xffffffffffffffff))
     = Some (VM_FAULT_NOPAGE, [], 1001000) \<and>
   map wakeup_time_stamp
     (g_cpu_service_block_context_list (sample_sys NV_OK False 0xffffffffffffffff)) =
     [0xffffffffffffffff] \<and>
   map_option (\<lambda>r. map (\<lambda>c. (ctx_addr c, wakeup_time_stamp c))
                      (g_cpu_service_block_context_list (snd r)))
     (uvm_vm_fault sample_uvm_config
       (sample_env [sample_attempt NV_WARN_MORE_PROCESSING_REQUIRED None,
                    sample_attempt NV_OK None])
       sample_vma sample_fault_addr True (sample_sys NV_OK False 0xffffffffffffffff))
     = Some [(0xffff888000003000, 0)] \<and>
   wakeup_time_stamp
     (fresh_context (sample_env [sample_attempt NV_WARN_MORE_PROCESSING_REQUIRED None,
                                 sample_attempt NV_OK None])) = 0xdeadbeef \<and>
   g_cpu_service_block_context_list fresh_pool_sys = [] \<and>
   map_option (\<lambda>r. (fst r,
                   map (\<lambda>c. (ctx_addr c, wakeup_time_stamp c))
                     (g_cpu_service_block_context_list (snd r)),
                   filter is_sleep (trace (snd r))))
     (uvm_vm_fault sample_uvm_config
       (sample_env [sample_attempt NV_WARN_MORE_PROCESSING_REQUIRED None,
                    sample_attempt NV_OK None])
       sample_vma sample_fault_addr True fresh_pool_sys)
     = Some (VM_FAULT_NOPAGE, [(slab_addr, 0)], [])"
proof -
  let ?env = "sample_env [sample_attempt NV_WARN_MORE_PROCESSING_REQUIRED None,
                          sample_attempt NV_OK None]"
  let ?stale = "sample_sys NV_OK False 0xffffffffffffffff"
  have a: "global_status (sample_sys NV_OK False 0) = NV_OK"
    "\<not> writer (pm_lock (sample_sys NV_OK False 0))"
    by (simp_all add: sample_sys_def)
  have stale: "sample_sys NV_OK False 0
        \<lparr>g_cpu_service_block_context_list :=
           [(sample_context 0xffff888000003000 0)\<lparr>wakeup_time_stamp := 0xffffffffffffffff\<rparr>]\<rparr>
      = sample_sys NV_OK False 0xffffffffffffffff"
    and zero: "sample_sys NV_OK False 0
        \<lparr>g_cpu_service_block_context_list :=
           [(sample_context 0xffff888000003000 0)\<lparr>wakeup_time_stamp := 0\<rparr>]\<rparr>
      = sample_sys NV_OK False 0"
    by (simp_all add: sample_sys_def sample_context_def)
  from wakeup_time_stamp_reset
         [where s = "sample_sys NV_OK False 0" and uc = sample_uvm_config
            and env = ?env
            and vma = sample_vma and fault_addr = sample_fault_addr and is_write = True
            and x = "sample_context 0xffff888000003000 0"
            and t = "0xffffffffffffffff" and rest = "[]", THEN conjunct1] a
  have e: "uvm_vm_fault sample_uvm_config ?env sample_vma sample_fault_addr True ?stale =
     uvm_vm_fault sample_uvm_config ?env sample_vma sample_fault_addr True
       (sample_sys NV_OK False 0)"
    by (simp add: stale zero)
  have v: "map_option (\<lambda>r. (fst r, filter is_sleep (trace (snd r)), clock (snd r)))
     (uvm_vm_fault sample_uvm_config ?env sample_vma sample_fault_addr True
        (sample_sys NV_OK False 0))
     = Some (VM_FAULT_NOPAGE, [], 1001000)"
    by (simp add: fault_eval sample_fault_addr_def is_sleep_def)
  have n: "list_all (\<lambda>a. new_wakeup_time_stamp a = None) (attempts ?env)"
    by (simp add: sample_env_def sample_attempt_def)
  have fc: "wakeup_time_stamp (fresh_context ?env) = 0xdeadbeef"
    by (simp add: sample_env_def sample_context_def)
  have b: "global_status ?stale = NV_OK" "\<not> writer (pm_lock ?stale)"
    "g_cpu_service_block_context_list ?stale =
       [sample_context 0xffff888000003000 0xffffffffffffffff]"
    "trace ?stale = []"
    by (simp_all add: sample_sys_def)
  have st: "map wakeup_time_stamp (g_cpu_service_block_context_list ?stale) =
      [0xffffffffffffffff]"
    by (simp add: b(3) sample_context_def)
  from v e obtain r where
    r: "uvm_vm_fault sample_uvm_config ?env sample_vma sample_fault_addr True ?stale = Some r"
    by auto
  then have r': "uvm_vm_fault sample_uvm_config ?env sample_vma sample_fault_addr True ?stale =
      Some (fst r, snd r)"
    by simp
  have hp: "global_status ?stale = NV_OK \<and> \<not> writer (pm_lock ?stale) \<and>
      list_all (\<lambda>a. new_wakeup_time_stamp a = None) (attempts ?env) \<and>
      g_cpu_service_block_context_list ?stale =
        [sample_context 0xffff888000003000 0xffffffffffffffff] \<and>
      uvm_vm_fault sample_uvm_config ?env sample_vma sample_fault_addr True ?stale =
        Some (fst r, snd r)"
    using b n r' by simp
  from wakeup_time_stamp_reset
         [where s = ?stale and uc = sample_uvm_config and env = ?env
            and vma = sample_vma and fault_addr = sample_fault_addr and is_write = True
            and x = "sample_context 0xffff888000003000 0xffffffffffffffff"
            and rest = "[]" and code = "fst r" and s' = "snd r",
          THEN conjunct2, THEN conjunct2, THEN conjunct1, THEN mp, OF hp]
  have "map (\<lambda>c. (ctx_addr c, wakeup_time_stamp c))
          (g_cpu_service_block_context_list (snd r)) = [(0xffff888000003000, 0)]"
    by (auto simp: sample_context_def)
  then have pz: "map_option (\<lambda>r. map (\<lambda>c. (ctx_addr c, wakeup_time_stamp c))
                      (g_cpu_service_block_context_list (snd r)))
     (uvm_vm_fault sample_uvm_config ?env sample_vma sample_fault_addr True ?stale)
     = Some [(0xffff888000003000, 0)]"
    unfolding r by simp
  have f: "global_status fresh_pool_sys = NV_OK" "\<not> writer (pm_lock fresh_pool_sys)"
    "g_cpu_service_block_context_list fresh_pool_sys = []"
    "trace fresh_pool_sys = []"
    by (simp_all add: fresh_pool_sys_def sample_sys_def)
  have k: "fst (uvm_kvmalloc (alloc_config sample_uvm_config)
                  (sizeof_service_context sample_uvm_config)
                  ''uvm.c'' 113 ''uvm_service_block_context_cpu_alloc''
                  (heap fresh_pool_sys)) = slab_addr"
    "slab_addr \<noteq> NULL"
    by (simp_all add: fresh_pool_sys_def sample_sys_def sample_uvm_config_def sample_eval)
  have fv: "map_option fst
     (uvm_vm_fault sample_uvm_config ?env sample_vma sample_fault_addr True fresh_pool_sys)
     = Some VM_FAULT_NOPAGE"
    by (simp add: fresh_pool_sys_def fault_eval sample_fault_addr_def sample_eval)
  then obtain q where
    q: "uvm_vm_fault sample_uvm_config ?env sample_vma sample_fault_addr True fresh_pool_sys =
          Some q"
    by auto
  with fv have q1: "fst q = VM_FAULT_NOPAGE"
    by simp
  have hf: "global_status fresh_pool_sys = NV_OK \<and> \<not> writer (pm_lock fresh_pool_sys) \<and>
      list_all (\<lambda>a. new_wakeup_time_stamp a = None) (attempts ?env) \<and>
      g_cpu_service_block_context_list fresh_pool_sys = [] \<and>
      fst (uvm_kvmalloc (alloc_config sample_uvm_config)
             (sizeof_service_context sample_uvm_config)
             ''uvm.c'' 113 ''uvm_service_block_context_cpu_alloc''
             (heap fresh_pool_sys)) \<noteq> NULL \<and>
      uvm_vm_fault sample_uvm_config ?env sample_vma sample_fault_addr True fresh_pool_sys =
        Some (fst q, snd q)"
    using f n k q by simp
  from wakeup_time_stamp_reset
         [where s = fresh_pool_sys and uc = sample_uvm_config and env = ?env
            and vma = sample_vma and fault_addr = sample_fault_addr and is_write = True
            and code = "fst q" and s' = "snd q",
          THEN conjunct2, THEN conjunct2, THEN conjunct2, THEN mp, OF hf]
  have "map (\<lambda>c. (ctx_addr c, wakeup_time_stamp c))
          (g_cpu_service_block_context_list (snd q)) = [(slab_addr, 0)] \<and>
        filter is_sleep (trace (snd q)) = []"
    using k(1) f(4) by auto
  with q1 have fz: "map_option (\<lambda>r. (fst r,
                   map (\<lambda>c. (ctx_addr c, wakeup_time_stamp c))
                     (g_cpu_service_block_context_list (snd r)),
                   filter is_sleep (trace (snd r))))
     (uvm_vm_fault sample_uvm_config ?env sample_vma sample_fault_addr True fresh_pool_sys)
     = Some (VM_FAULT_NOPAGE, [(slab_addr, 0)], [])"
    unfolding q by simp
  show ?thesis
    using a e v st pz fc f(3) fz by simp
qed

subsection \<open>Throttled retries\<close>

lemma nap_bound:
  fixes w n :: "64 word"
  shows "unat (w - n) \<le> 1000 * unat ((w - n) div 1000) + 999"
proof -
  have "unat ((w - n) div 1000) = unat (w - n) div 1000"
    by (simp add: unat_div)
  then show ?thesis by simp
qed

lemmas prologue_defs = loop_prologue_def throttle_before_retry_def Let_def
  uvm_tools_record_throttling_start_def uvm_tools_record_throttling_end_def
  uvm_va_space_up_read_def uvm_va_space_down_read_def usleep_range_def log_event_def
  down_read_def up_read_def

lemma loop_prologue_sleep:
  assumes "status = NV_WARN_MORE_PROCESSING_REQUIRED"
    and "NV_GETTIME s < wakeup_time_stamp ctx"
    and "va_spaces s vs = Some v" and "\<not> writer (vs_lock v)"
  shows "map_option trace (loop_prologue vs fa a status ctx s) =
           Some (trace s @
                 throttled_retry_events vs fa ((wakeup_time_stamp ctx - NV_GETTIME s) div 1000))"
    and "map_option clock (loop_prologue vs fa a status ctx s) =
           Some (clock s + 1000 * unat ((wakeup_time_stamp ctx - NV_GETTIME s) div 1000) +
                 oversleep_ns a)"
  using assms
  by (simp_all add: prologue_defs throttled_retry_events_def)

lemma loop_prologue_no_sleep:
  assumes "status = NV_WARN_MORE_PROCESSING_REQUIRED"
    and "\<not> NV_GETTIME s < wakeup_time_stamp ctx"
    and "va_spaces s vs = Some v" and "\<not> writer (vs_lock v)"
  shows "map_option trace (loop_prologue vs fa a status ctx s) =
           Some (trace s @ [VaSpaceUpRead vs, VaSpaceDownRead vs])"
    and "map_option clock (loop_prologue vs fa a status ctx s) = Some (clock s)"
  using assms
  by (simp_all add: prologue_defs)

lemma loop_prologue_first:
  assumes "status \<noteq> NV_WARN_MORE_PROCESSING_REQUIRED"
    and "va_spaces s vs = Some v" and "\<not> writer (vs_lock v)"
  shows "map_option trace (loop_prologue vs fa a status ctx s) =
           Some (trace s @ [VaSpaceDownRead vs])"
    and "map_option clock (loop_prologue vs fa a status ctx s) = Some (clock s)"
  using assms
  by (simp_all add: prologue_defs)

lemma throttle_balanced_simps:
  "throttle_balanced []"
  "throttle_balanced (throttled_retry_events vs fa n)"
  "throttle_balanced [VaSpaceUpRead vs, VaSpaceDownRead vs]"
  "throttle_balanced [VaSpaceDownRead vs]"
  "throttle_balanced [BlockFindCreate vs fa st]"
  "throttle_balanced [BlockFindCreate vs fa st, BlockCpuFault vs fa w st']"
  by (simp_all add: throttle_balanced_def throttled_retry_events_def is_throttling_start_def
      is_throttling_end_def is_sleep_def)

lemma throttle_balanced_append:
  "throttle_balanced xs \<Longrightarrow> throttle_balanced ys \<Longrightarrow> throttle_balanced (xs @ ys)"
  by (simp add: throttle_balanced_def)

lemma loop_prologue_Some_D:
  assumes "loop_prologue vs fa a status ctx s = Some s'"
  shows "\<exists>v. va_spaces s vs = Some v \<and> \<not> writer (vs_lock v)"
proof -
  from assms obtain v where v: "va_spaces s vs = Some v"
    by (cases "va_spaces s vs")
       (auto simp: prologue_defs split: if_splits option.splits)
  from assms v have "\<not> writer (vs_lock v)"
    by (auto simp: prologue_defs split: if_splits option.splits)
  with v show ?thesis by blast
qed

lemma loop_prologue_balanced:
  assumes "loop_prologue vs fa a status ctx s = Some s'"
  shows "\<exists>evs. trace s' = trace s @ evs \<and> throttle_balanced evs \<and> clock s \<le> clock s'"
proof -
  from loop_prologue_Some_D[OF assms] obtain v where
    v: "va_spaces s vs = Some v" and w: "\<not> writer (vs_lock v)"
    by blast
  consider
    (sl) "status = NV_WARN_MORE_PROCESSING_REQUIRED" "NV_GETTIME s < wakeup_time_stamp ctx"
    | (ns) "status = NV_WARN_MORE_PROCESSING_REQUIRED"
        "\<not> NV_GETTIME s < wakeup_time_stamp ctx"
    | (fi) "status \<noteq> NV_WARN_MORE_PROCESSING_REQUIRED"
    by blast
  then show ?thesis
  proof cases
    case sl
    from loop_prologue_sleep[OF sl v w, of fa a] assms show ?thesis
      by (auto simp: throttle_balanced_simps)
  next
    case ns
    from loop_prologue_no_sleep[OF ns v w, of fa a] assms show ?thesis
      by (auto simp: throttle_balanced_simps)
  next
    case fi
    from loop_prologue_first[OF fi v w, where fa=fa and a=a and ctx=ctx] assms show ?thesis
      by (auto simp: throttle_balanced_simps)
  qed
qed

text \<open>What one iteration does after its prologue, and where the loop goes from there.\<close>

lemma fault_loop_Cons_D:
  assumes "fault_loop vs fa w (a # as) status ctx s = Some (st, ctx', s')"
  shows "\<exists>s3 evs. loop_prologue vs fa a status ctx s = Some s3 \<and>
           (let s5 = s3\<lparr>clock := clock s3 + attempt_ns a, trace := trace s3 @ evs\<rparr>;
                s4 = s3\<lparr>trace := trace s3 @ evs\<rparr>
            in throttle_balanced evs \<and>
               (s' = s4 \<or> s' = s5 \<or>
                (\<exists>c5. fault_loop vs fa w as NV_WARN_MORE_PROCESSING_REQUIRED c5 s5 =
                         Some (st, ctx', s'))))"
proof -
  from assms obtain s3 where p: "loop_prologue vs fa a status ctx s = Some s3"
    by (cases "loop_prologue vs fa a status ctx s") auto
  show ?thesis
  proof (cases "find_create_status a = NV_OK")
    case False
    with assms p have "s' = s3\<lparr>trace := trace s3 @ [BlockFindCreate vs fa (find_create_status a)]\<rparr>"
      by (auto simp add: uvm_va_block_find_create_managed_def log_event_def)
    with p show ?thesis
      by (auto simp: Let_def intro!: exI[of _ "[BlockFindCreate vs fa (find_create_status a)]"]
          throttle_balanced_simps)
  next
    case True
    let ?evs = "[BlockFindCreate vs fa (find_create_status a),
                 BlockCpuFault vs fa w (cpu_fault_status a)]"
    let ?s5 = "s3\<lparr>clock := clock s3 + attempt_ns a, trace := trace s3 @ ?evs\<rparr>"
    from True assms p have
      "s' = ?s5 \<or> (\<exists>c5. fault_loop vs fa w as NV_WARN_MORE_PROCESSING_REQUIRED c5 ?s5 =
                         Some (st, ctx', s'))"
      by (auto simp add: uvm_va_block_find_create_managed_def uvm_va_block_cpu_fault_def
          log_event_def split: if_splits)
    with p show ?thesis
      by (auto simp: Let_def intro!: exI[of _ ?evs] throttle_balanced_simps)
  qed
qed

lemma fault_loop_balanced:
  "fault_loop vs fa w as status ctx s = Some (st, ctx', s') \<Longrightarrow>
     \<exists>evs. trace s' = trace s @ evs \<and> throttle_balanced evs \<and> clock s \<le> clock s'"
proof (induction as arbitrary: status ctx s)
  case Nil
  then show ?case by simp
next
  case (Cons a as)
  from fault_loop_Cons_D[OF Cons.prems] obtain s3 evs where
    p: "loop_prologue vs fa a status ctx s = Some s3" and b: "throttle_balanced evs" and
    d: "s' = s3\<lparr>trace := trace s3 @ evs\<rparr> \<or>
        s' = s3\<lparr>clock := clock s3 + attempt_ns a, trace := trace s3 @ evs\<rparr> \<or>
        (\<exists>c5. fault_loop vs fa w as NV_WARN_MORE_PROCESSING_REQUIRED c5
                 (s3\<lparr>clock := clock s3 + attempt_ns a, trace := trace s3 @ evs\<rparr>) =
               Some (st, ctx', s'))"
    by (auto simp: Let_def)
  from loop_prologue_balanced[OF p] obtain e1 where
    e1: "trace s3 = trace s @ e1" "throttle_balanced e1" "clock s \<le> clock s3"
    by blast
  have b1: "throttle_balanced (e1 @ evs)"
    using e1(2) b by (rule throttle_balanced_append)
  from d show ?case
  proof (elim disjE exE)
    assume "s' = s3\<lparr>trace := trace s3 @ evs\<rparr>"
    then have "trace s' = trace s @ (e1 @ evs)" "clock s \<le> clock s'"
      using e1 by simp_all
    with b1 show ?thesis by blast
  next
    assume "s' = s3\<lparr>clock := clock s3 + attempt_ns a, trace := trace s3 @ evs\<rparr>"
    then have "trace s' = trace s @ (e1 @ evs)" "clock s \<le> clock s'"
      using e1 by simp_all
    with b1 show ?thesis by blast
  next
    fix c5
    assume "fault_loop vs fa w as NV_WARN_MORE_PROCESSING_REQUIRED c5
              (s3\<lparr>clock := clock s3 + attempt_ns a, trace := trace s3 @ evs\<rparr>) =
            Some (st, ctx', s')"
    from Cons.IH[OF this] obtain e2 where
      e2: "trace s' = (trace s3 @ evs) @ e2" "throttle_balanced e2"
        "clock s3 + attempt_ns a \<le> clock s'"
      by auto
    have "trace s' = trace s @ ((e1 @ evs) @ e2)"
      using e2(1) e1(1) by simp
    moreover have "throttle_balanced ((e1 @ evs) @ e2)"
      using b1 e2(2) by (rule throttle_balanced_append)
    moreover have "clock s \<le> clock s'"
      using e1(3) e2(3) by simp
    ultimately show ?thesis by blast
  qed
qed

lemma fault_loop_after_prologue:
  assumes "fault_loop vs fa w (a # as) status ctx s = Some (st, ctx', s')"
  shows "\<exists>s3. loop_prologue vs fa a status ctx s = Some s3 \<and> clock s3 \<le> clock s'"
proof -
  from fault_loop_Cons_D[OF assms] obtain s3 evs where
    p: "loop_prologue vs fa a status ctx s = Some s3" and
    d: "s' = s3\<lparr>trace := trace s3 @ evs\<rparr> \<or>
        s' = s3\<lparr>clock := clock s3 + attempt_ns a, trace := trace s3 @ evs\<rparr> \<or>
        (\<exists>c5. fault_loop vs fa w as NV_WARN_MORE_PROCESSING_REQUIRED c5
                 (s3\<lparr>clock := clock s3 + attempt_ns a, trace := trace s3 @ evs\<rparr>) =
               Some (st, ctx', s'))"
    by (auto simp: Let_def)
  from d have "clock s3 \<le> clock s'"
  proof (elim disjE exE)
    fix c5
    assume "fault_loop vs fa w as NV_WARN_MORE_PROCESSING_REQUIRED c5
              (s3\<lparr>clock := clock s3 + attempt_ns a, trace := trace s3 @ evs\<rparr>) =
            Some (st, ctx', s')"
    from fault_loop_balanced[OF this] show ?thesis by auto
  qed simp_all
  with p show ?thesis by blast
qed

text \<open>The address-space lock around the sleep.\<close>

lemma throttle_before_retry_sleep:
  assumes "status = NV_WARN_MORE_PROCESSING_REQUIRED"
    and "NV_GETTIME s < wakeup_time_stamp ctx"
  shows "throttle_before_retry vs fa a status ctx s =
           (True,
            usleep_range ((wakeup_time_stamp ctx - NV_GETTIME s) div 1000)
              ((wakeup_time_stamp ctx - NV_GETTIME s) div 1000 +
               (wakeup_time_stamp ctx - NV_GETTIME s) div 1000 div 2)
              (oversleep_ns a)
              (uvm_va_space_up_read vs (uvm_tools_record_throttling_start vs fa s)))"
  using assms by (simp add: throttle_before_retry_def Let_def)

lemma up_read_released:
  assumes "va_spaces s vs = Some v"
  shows "va_spaces (uvm_va_space_up_read vs (uvm_tools_record_throttling_start vs fa s)) vs =
           Some (v\<lparr>vs_lock := (vs_lock v)\<lparr>readers := readers (vs_lock v) - 1\<rparr>\<rparr>)"
    and "va_spaces (usleep_range lo hi over
            (uvm_va_space_up_read vs (uvm_tools_record_throttling_start vs fa s))) vs =
           Some (v\<lparr>vs_lock := (vs_lock v)\<lparr>readers := readers (vs_lock v) - 1\<rparr>\<rparr>)"
    and "trace (usleep_range lo hi over
            (uvm_va_space_up_read vs (uvm_tools_record_throttling_start vs fa s))) =
           trace s @ [ThrottlingStart vs fa, VaSpaceUpRead vs, UsleepRange lo hi]"
  using assms
  by (simp_all add: uvm_va_space_up_read_def uvm_tools_record_throttling_start_def
      usleep_range_def log_event_def up_read_def)

lemma loop_prologue_lock:
  assumes "status = NV_WARN_MORE_PROCESSING_REQUIRED"
    and "va_spaces s vs = Some v" and "\<not> writer (vs_lock v)"
  shows "map_option (\<lambda>s'. va_spaces s' vs) (loop_prologue vs fa a status ctx s) =
           Some (Some (v\<lparr>vs_lock := (vs_lock v)\<lparr>readers := Suc (readers (vs_lock v) - 1)\<rparr>\<rparr>))"
  using assms
  by (simp add: prologue_defs)

text \<open>
  C7: in an iteration of the retry loop that follows an attempt reporting "more
  processing required", with the time before the context's wake-up timestamp and the
  address-space lock not held by a writer, the handler records one throttle-start
  event, releases the address-space lock, sleeps for at least the remaining wait in
  whole microseconds (and asks for at most one and a half times that), takes the lock
  again and records one throttle-end event, in this order and nothing else; after the
  sleep less than a microsecond of the wait remains. With the time at or past the
  timestamp it releases and retakes the lock and records no throttle event and no
  sleep. Over a whole run of the loop that returns, the throttle-start events, the
  sleeps and the throttle-end events are equal in number, and a run whose first
  iteration sleeps does not return earlier than 999 nanoseconds before the wait is
  over.

  The lock itself: the sleep starts in the state that the release of the
  address-space lock leaves, in which the lock has one reader less than when the
  iteration began, and the lock is still so when the sleep is over, the sleep being
  the last event recorded by then. Once the iteration has taken the lock again it has
  one reader more than during the sleep, and nothing else of the VA space has changed.
\<close>

theorem throttled_retry:
  "(status = NV_WARN_MORE_PROCESSING_REQUIRED \<and> NV_GETTIME s < wakeup_time_stamp ctx \<and>
    va_spaces s vs = Some v \<and> \<not> writer (vs_lock v) \<longrightarrow>
      map_option trace (loop_prologue vs fa a status ctx s) =
        Some (trace s @
              throttled_retry_events vs fa ((wakeup_time_stamp ctx - NV_GETTIME s) div 1000)) \<and>
      map_option clock (loop_prologue vs fa a status ctx s) =
        Some (clock s + 1000 * unat ((wakeup_time_stamp ctx - NV_GETTIME s) div 1000) +
              oversleep_ns a) \<and>
      clock s + unat (wakeup_time_stamp ctx - NV_GETTIME s) \<le>
        clock s + 1000 * unat ((wakeup_time_stamp ctx - NV_GETTIME s) div 1000) +
        oversleep_ns a + 999) \<and>
   (status = NV_WARN_MORE_PROCESSING_REQUIRED \<and> \<not> NV_GETTIME s < wakeup_time_stamp ctx \<and>
    va_spaces s vs = Some v \<and> \<not> writer (vs_lock v) \<longrightarrow>
      map_option trace (loop_prologue vs fa a status ctx s) =
        Some (trace s @ [VaSpaceUpRead vs, VaSpaceDownRead vs]) \<and>
      map_option clock (loop_prologue vs fa a status ctx s) = Some (clock s)) \<and>
   (fault_loop vs fa w as status ctx s = Some (st, ctx', s') \<longrightarrow>
      (\<exists>evs. trace s' = trace s @ evs \<and> throttle_balanced evs)) \<and>
   (status = NV_WARN_MORE_PROCESSING_REQUIRED \<and> NV_GETTIME s < wakeup_time_stamp ctx \<and>
    fault_loop vs fa w (a # as) status ctx s = Some (st, ctx', s') \<longrightarrow>
      clock s + unat (wakeup_time_stamp ctx - NV_GETTIME s) \<le> clock s' + 999) \<and>
   (status = NV_WARN_MORE_PROCESSING_REQUIRED \<and> NV_GETTIME s < wakeup_time_stamp ctx \<and>
    va_spaces s vs = Some v \<longrightarrow>
      throttle_before_retry vs fa a status ctx s =
        (True,
         usleep_range ((wakeup_time_stamp ctx - NV_GETTIME s) div 1000)
           ((wakeup_time_stamp ctx - NV_GETTIME s) div 1000 +
            (wakeup_time_stamp ctx - NV_GETTIME s) div 1000 div 2)
           (oversleep_ns a)
           (uvm_va_space_up_read vs (uvm_tools_record_throttling_start vs fa s))) \<and>
      va_spaces (uvm_va_space_up_read vs (uvm_tools_record_throttling_start vs fa s)) vs =
        Some (v\<lparr>vs_lock := (vs_lock v)\<lparr>readers := readers (vs_lock v) - 1\<rparr>\<rparr>) \<and>
      va_spaces (snd (throttle_before_retry vs fa a status ctx s)) vs =
        Some (v\<lparr>vs_lock := (vs_lock v)\<lparr>readers := readers (vs_lock v) - 1\<rparr>\<rparr>) \<and>
      trace (snd (throttle_before_retry vs fa a status ctx s)) =
        trace s @
        [ThrottlingStart vs fa, VaSpaceUpRead vs,
         UsleepRange ((wakeup_time_stamp ctx - NV_GETTIME s) div 1000)
           ((wakeup_time_stamp ctx - NV_GETTIME s) div 1000 +
            (wakeup_time_stamp ctx - NV_GETTIME s) div 1000 div 2)]) \<and>
   (status = NV_WARN_MORE_PROCESSING_REQUIRED \<and> va_spaces s vs = Some v \<and>
    \<not> writer (vs_lock v) \<longrightarrow>
      map_option (\<lambda>s'. va_spaces s' vs) (loop_prologue vs fa a status ctx s) =
        Some (Some (v\<lparr>vs_lock :=
                        (vs_lock v)\<lparr>readers := Suc (readers (vs_lock v) - 1)\<rparr>\<rparr>)))"
proof (intro conjI impI)
  assume h: "status = NV_WARN_MORE_PROCESSING_REQUIRED \<and>
    NV_GETTIME s < wakeup_time_stamp ctx \<and> va_spaces s vs = Some v \<and> \<not> writer (vs_lock v)"
  then show "map_option trace (loop_prologue vs fa a status ctx s) =
        Some (trace s @
              throttled_retry_events vs fa ((wakeup_time_stamp ctx - NV_GETTIME s) div 1000))"
    by (simp add: loop_prologue_sleep)
  from h show "map_option clock (loop_prologue vs fa a status ctx s) =
        Some (clock s + 1000 * unat ((wakeup_time_stamp ctx - NV_GETTIME s) div 1000) +
              oversleep_ns a)"
    by (simp add: loop_prologue_sleep)
  show "clock s + unat (wakeup_time_stamp ctx - NV_GETTIME s) \<le>
        clock s + 1000 * unat ((wakeup_time_stamp ctx - NV_GETTIME s) div 1000) +
        oversleep_ns a + 999"
    using nap_bound[of "wakeup_time_stamp ctx" "NV_GETTIME s"] by simp
next
  assume h: "status = NV_WARN_MORE_PROCESSING_REQUIRED \<and>
    \<not> NV_GETTIME s < wakeup_time_stamp ctx \<and> va_spaces s vs = Some v \<and>
    \<not> writer (vs_lock v)"
  then show "map_option trace (loop_prologue vs fa a status ctx s) =
        Some (trace s @ [VaSpaceUpRead vs, VaSpaceDownRead vs])"
    by (simp add: loop_prologue_no_sleep)
  from h show "map_option clock (loop_prologue vs fa a status ctx s) = Some (clock s)"
    by (simp add: loop_prologue_no_sleep)
next
  assume "fault_loop vs fa w as status ctx s = Some (st, ctx', s')"
  from fault_loop_balanced[OF this]
  show "\<exists>evs. trace s' = trace s @ evs \<and> throttle_balanced evs"
    by blast
next
  assume h: "status = NV_WARN_MORE_PROCESSING_REQUIRED \<and>
    NV_GETTIME s < wakeup_time_stamp ctx \<and>
    fault_loop vs fa w (a # as) status ctx s = Some (st, ctx', s')"
  then obtain s3 where p: "loop_prologue vs fa a status ctx s = Some s3"
    and c: "clock s3 \<le> clock s'"
    using fault_loop_after_prologue by blast
  from loop_prologue_Some_D[OF p] obtain v' where
    v: "va_spaces s vs = Some v'" "\<not> writer (vs_lock v')"
    by blast
  from h v loop_prologue_sleep(2)[of status s ctx vs v' fa a] p
  have "clock s3 = clock s + 1000 * unat ((wakeup_time_stamp ctx - NV_GETTIME s) div 1000) +
      oversleep_ns a"
    by simp
  with c nap_bound[of "wakeup_time_stamp ctx" "NV_GETTIME s"]
  show "clock s + unat (wakeup_time_stamp ctx - NV_GETTIME s) \<le> clock s' + 999"
    by simp
next
  assume h: "status = NV_WARN_MORE_PROCESSING_REQUIRED \<and>
    NV_GETTIME s < wakeup_time_stamp ctx \<and> va_spaces s vs = Some v"
  then have t: "throttle_before_retry vs fa a status ctx s =
        (True,
         usleep_range ((wakeup_time_stamp ctx - NV_GETTIME s) div 1000)
           ((wakeup_time_stamp ctx - NV_GETTIME s) div 1000 +
            (wakeup_time_stamp ctx - NV_GETTIME s) div 1000 div 2)
           (oversleep_ns a)
           (uvm_va_space_up_read vs (uvm_tools_record_throttling_start vs fa s)))"
    by (simp add: throttle_before_retry_sleep)
  from h have v: "va_spaces s vs = Some v" by simp
  show "throttle_before_retry vs fa a status ctx s =
        (True,
         usleep_range ((wakeup_time_stamp ctx - NV_GETTIME s) div 1000)
           ((wakeup_time_stamp ctx - NV_GETTIME s) div 1000 +
            (wakeup_time_stamp ctx - NV_GETTIME s) div 1000 div 2)
           (oversleep_ns a)
           (uvm_va_space_up_read vs (uvm_tools_record_throttling_start vs fa s)))"
    by (rule t)
  show "va_spaces (uvm_va_space_up_read vs (uvm_tools_record_throttling_start vs fa s)) vs =
        Some (v\<lparr>vs_lock := (vs_lock v)\<lparr>readers := readers (vs_lock v) - 1\<rparr>\<rparr>)"
    by (rule up_read_released(1)[OF v])
  show "va_spaces (snd (throttle_before_retry vs fa a status ctx s)) vs =
        Some (v\<lparr>vs_lock := (vs_lock v)\<lparr>readers := readers (vs_lock v) - 1\<rparr>\<rparr>)"
    unfolding t snd_conv by (rule up_read_released(2)[OF v])
  show "trace (snd (throttle_before_retry vs fa a status ctx s)) =
        trace s @
        [ThrottlingStart vs fa, VaSpaceUpRead vs,
         UsleepRange ((wakeup_time_stamp ctx - NV_GETTIME s) div 1000)
           ((wakeup_time_stamp ctx - NV_GETTIME s) div 1000 +
            (wakeup_time_stamp ctx - NV_GETTIME s) div 1000 div 2)]"
    unfolding t snd_conv by (rule up_read_released(3)[OF v])
next
  assume "status = NV_WARN_MORE_PROCESSING_REQUIRED \<and> va_spaces s vs = Some v \<and>
    \<not> writer (vs_lock v)"
  then show "map_option (\<lambda>s'. va_spaces s' vs) (loop_prologue vs fa a status ctx s) =
        Some (Some (v\<lparr>vs_lock :=
                        (vs_lock v)\<lparr>readers := Suc (readers (vs_lock v) - 1)\<rparr>\<rparr>))"
    by (simp add: loop_prologue_lock)
qed

lemma sample_throttled_loop_eval:
  "map_option (\<lambda>r. (fst r, trace (snd (snd r)), clock (snd (snd r)))) sample_throttled_loop =
     Some (NV_OK,
           [VaSpaceDownRead 0,
            BlockFindCreate 0 sample_fault_addr NV_OK,
            BlockCpuFault 0 sample_fault_addr True NV_WARN_MORE_PROCESSING_REQUIRED,
            ThrottlingStart 0 sample_fault_addr, VaSpaceUpRead 0,
            UsleepRange 10000 15000, VaSpaceDownRead 0,
            ThrottlingEnd 0 sample_fault_addr,
            BlockFindCreate 0 sample_fault_addr NV_OK,
            BlockCpuFault 0 sample_fault_addr True NV_OK],
           11001000)"
  by (simp add: sample_throttled_loop_def fault_eval sample_fault_addr_def)

theorem throttled_retry_witness:
  "NV_GETTIME (sample_sys NV_OK False 0) < 11000000 \<and>
   va_spaces (sample_sys NV_OK False 0) 0 = Some sample_va_space \<and>
   \<not> writer (vs_lock sample_va_space) \<and>
   map_option trace
     (loop_prologue 0 sample_fault_addr (sample_attempt NV_OK None)
        NV_WARN_MORE_PROCESSING_REQUIRED (sample_context 0xffff888000003000 11000000)
        (sample_sys NV_OK False 0)) =
     Some [ThrottlingStart 0 sample_fault_addr, VaSpaceUpRead 0, UsleepRange 10000 15000,
           VaSpaceDownRead 0, ThrottlingEnd 0 sample_fault_addr] \<and>
   map_option clock
     (loop_prologue 0 sample_fault_addr (sample_attempt NV_OK None)
        NV_WARN_MORE_PROCESSING_REQUIRED (sample_context 0xffff888000003000 11000000)
        (sample_sys NV_OK False 0)) = Some 11000000 \<and>
   \<not> NV_GETTIME (sample_sys NV_OK False 0) < 1000000 \<and>
   map_option trace
     (loop_prologue 0 sample_fault_addr (sample_attempt NV_OK None)
        NV_WARN_MORE_PROCESSING_REQUIRED (sample_context 0xffff888000003000 1000000)
        (sample_sys NV_OK False 0)) =
     Some [VaSpaceUpRead 0, VaSpaceDownRead 0] \<and>
   sample_throttled_loop \<noteq> None \<and>
   throttle_balanced (trace (snd (snd (the sample_throttled_loop)))) \<and>
   length (filter is_sleep (trace (snd (snd (the sample_throttled_loop))))) = 1 \<and>
   NV_GETTIME sample_retry_sys < 11000000 \<and>
   va_spaces sample_retry_sys 0 = Some sample_held_va_space \<and>
   readers (vs_lock sample_held_va_space) = 1 \<and>
   va_spaces
     (snd (throttle_before_retry 0 sample_fault_addr (sample_attempt NV_OK None)
        NV_WARN_MORE_PROCESSING_REQUIRED (sample_context 0xffff888000003000 11000000)
        sample_retry_sys)) 0 = Some sample_va_space \<and>
   readers (vs_lock sample_va_space) = 0 \<and>
   trace
     (snd (throttle_before_retry 0 sample_fault_addr (sample_attempt NV_OK None)
        NV_WARN_MORE_PROCESSING_REQUIRED (sample_context 0xffff888000003000 11000000)
        sample_retry_sys)) =
     [ThrottlingStart 0 sample_fault_addr, VaSpaceUpRead 0, UsleepRange 10000 15000] \<and>
   map_option (\<lambda>s'. va_spaces s' 0)
     (loop_prologue 0 sample_fault_addr (sample_attempt NV_OK None)
        NV_WARN_MORE_PROCESSING_REQUIRED (sample_context 0xffff888000003000 11000000)
        sample_retry_sys) = Some (Some sample_held_va_space)"
proof -
  have g: "NV_GETTIME (sample_sys NV_OK False 0) = 1000000"
    "va_spaces (sample_sys NV_OK False 0) 0 = Some sample_va_space"
    "\<not> writer (vs_lock sample_va_space)"
    "clock (sample_sys NV_OK False 0) = 1000000"
    "trace (sample_sys NV_OK False 0) = []"
    by (simp_all add: NV_GETTIME_def sample_sys_def sample_va_space_def)
  have c: "wakeup_time_stamp (sample_context 0xffff888000003000 t) = t" for t
    by (simp add: sample_context_def)
  have o: "oversleep_ns (sample_attempt NV_OK None) = 0"
    by (simp add: sample_attempt_def)
  note th = throttled_retry
    [where s = "sample_sys NV_OK False 0" and vs = 0 and v = sample_va_space
       and fa = sample_fault_addr and a = "sample_attempt NV_OK None"
       and status = NV_WARN_MORE_PROCESSING_REQUIRED]
  from th[where ctx = "sample_context 0xffff888000003000 11000000", THEN conjunct1] g c o
  have a1: "map_option trace
     (loop_prologue 0 sample_fault_addr (sample_attempt NV_OK None)
        NV_WARN_MORE_PROCESSING_REQUIRED (sample_context 0xffff888000003000 11000000)
        (sample_sys NV_OK False 0)) =
     Some [ThrottlingStart 0 sample_fault_addr, VaSpaceUpRead 0, UsleepRange 10000 15000,
           VaSpaceDownRead 0, ThrottlingEnd 0 sample_fault_addr]"
    and a2: "map_option clock
     (loop_prologue 0 sample_fault_addr (sample_attempt NV_OK None)
        NV_WARN_MORE_PROCESSING_REQUIRED (sample_context 0xffff888000003000 11000000)
        (sample_sys NV_OK False 0)) = Some 11000000"
    by (simp_all add: throttled_retry_events_def)
  from th[where ctx = "sample_context 0xffff888000003000 1000000",
          THEN conjunct2, THEN conjunct1] g c
  have a3: "map_option trace
     (loop_prologue 0 sample_fault_addr (sample_attempt NV_OK None)
        NV_WARN_MORE_PROCESSING_REQUIRED (sample_context 0xffff888000003000 1000000)
        (sample_sys NV_OK False 0)) =
     Some [VaSpaceUpRead 0, VaSpaceDownRead 0]"
    by simp
  from sample_throttled_loop_eval obtain r where
    r: "sample_throttled_loop = Some r" by auto
  then have r': "fault_loop 0 sample_fault_addr True
       [sample_attempt NV_WARN_MORE_PROCESSING_REQUIRED (Some 11000500),
        sample_attempt NV_OK None]
       NV_OK (sample_context 0xffff888000003000 0) (sample_sys NV_OK False 0)
       = Some (fst r, fst (snd r), snd (snd r))"
    by (simp add: sample_throttled_loop_def)
  have "\<exists>evs. trace (snd (snd r)) = trace (sample_sys NV_OK False 0) @ evs \<and>
          throttle_balanced evs"
    by (rule throttled_retry
         [where s = "sample_sys NV_OK False 0" and vs = 0 and fa = sample_fault_addr
            and w = True and status = NV_OK
            and ctx = "sample_context 0xffff888000003000 0"
            and as = "[sample_attempt NV_WARN_MORE_PROCESSING_REQUIRED (Some 11000500),
                       sample_attempt NV_OK None]"
            and st = "fst r" and ctx' = "fst (snd r)" and s' = "snd (snd r)",
          THEN conjunct2, THEN conjunct2, THEN conjunct1, THEN mp, OF r'])
  then have "throttle_balanced (trace (snd (snd r)))"
    using g(5) by auto
  then have a4: "throttle_balanced (trace (snd (snd (the sample_throttled_loop))))"
    by (simp only: r option.sel)
  have "length (filter is_sleep (trace (snd (snd r)))) = 1"
    using sample_throttled_loop_eval unfolding r by (simp add: is_sleep_def)
  then have a5: "length (filter is_sleep (trace (snd (snd (the sample_throttled_loop))))) = 1"
    by (simp only: r option.sel)
  have a6: "sample_throttled_loop \<noteq> None"
    by (simp only: r) simp
  have k: "NV_GETTIME sample_retry_sys = 1000000"
    "va_spaces sample_retry_sys 0 = Some sample_held_va_space"
    "\<not> writer (vs_lock sample_held_va_space)"
    "readers (vs_lock sample_held_va_space) = 1"
    "readers (vs_lock sample_va_space) = 0"
    "trace sample_retry_sys = []"
    by (simp_all add: NV_GETTIME_def sample_retry_sys_def sample_held_va_space_def
        sample_sys_def sample_va_space_def)
  have rel: "sample_held_va_space
      \<lparr>vs_lock := (vs_lock sample_held_va_space)
         \<lparr>readers := readers (vs_lock sample_held_va_space) - 1\<rparr>\<rparr> = sample_va_space"
    and acq: "sample_held_va_space
      \<lparr>vs_lock := (vs_lock sample_held_va_space)
         \<lparr>readers := Suc (readers (vs_lock sample_held_va_space) - 1)\<rparr>\<rparr> =
      sample_held_va_space"
    by (simp_all add: sample_held_va_space_def sample_va_space_def)
  note th2 = throttled_retry
    [where s = sample_retry_sys and vs = 0 and v = sample_held_va_space
       and fa = sample_fault_addr and a = "sample_attempt NV_OK None"
       and status = NV_WARN_MORE_PROCESSING_REQUIRED
       and ctx = "sample_context 0xffff888000003000 11000000"]
  have p: "NV_WARN_MORE_PROCESSING_REQUIRED = NV_WARN_MORE_PROCESSING_REQUIRED \<and>
      NV_GETTIME sample_retry_sys <
        wakeup_time_stamp (sample_context 0xffff888000003000 11000000) \<and>
      va_spaces sample_retry_sys 0 = Some sample_held_va_space"
    using k c by simp
  have p2: "NV_WARN_MORE_PROCESSING_REQUIRED = NV_WARN_MORE_PROCESSING_REQUIRED \<and>
      va_spaces sample_retry_sys 0 = Some sample_held_va_space \<and>
      \<not> writer (vs_lock sample_held_va_space)"
    using k by simp
  note l = th2[THEN conjunct2, THEN conjunct2, THEN conjunct2, THEN conjunct2,
               THEN conjunct1, THEN mp, OF p]
  have a7: "va_spaces
     (snd (throttle_before_retry 0 sample_fault_addr (sample_attempt NV_OK None)
        NV_WARN_MORE_PROCESSING_REQUIRED (sample_context 0xffff888000003000 11000000)
        sample_retry_sys)) 0 = Some sample_va_space"
    using l[THEN conjunct2, THEN conjunct2, THEN conjunct1] by (simp only: rel)
  have a8: "trace
     (snd (throttle_before_retry 0 sample_fault_addr (sample_attempt NV_OK None)
        NV_WARN_MORE_PROCESSING_REQUIRED (sample_context 0xffff888000003000 11000000)
        sample_retry_sys)) =
     [ThrottlingStart 0 sample_fault_addr, VaSpaceUpRead 0, UsleepRange 10000 15000]"
    using l[THEN conjunct2, THEN conjunct2, THEN conjunct2] k c by simp
  have a9: "map_option (\<lambda>s'. va_spaces s' 0)
     (loop_prologue 0 sample_fault_addr (sample_attempt NV_OK None)
        NV_WARN_MORE_PROCESSING_REQUIRED (sample_context 0xffff888000003000 11000000)
        sample_retry_sys) = Some (Some sample_held_va_space)"
    using th2[THEN conjunct2, THEN conjunct2, THEN conjunct2, THEN conjunct2,
              THEN conjunct2, THEN mp, OF p2]
    by (simp only: acq)
  show ?thesis
    using g(1-3) a1 a2 a3 a4 a5 a6 k(1,2,4,5) a7 a8 a9 by simp
qed

section \<open>Properties of release\<close>

text \<open>
  C8: when the power-management lock is held by a suspend, so that the non-blocking
  acquisition fails, \<^verbatim>\<open>uvm_release\<close> returns 0 without tearing the VA space down and
  without touching the lock: it clears the file's references and leaves the VA space
  queued for \<^verbatim>\<open>uvm_release_deferred\<close>. The deferred task does not get past its
  blocking acquisition while the lock is still held; once the lock is free it takes
  it, destroys the VA space and releases the lock, in this order.
\<close>

theorem uvm_release_deferral:
  "(uvm_va_space_get filp s = Some vs \<and> writer (pm_lock s) \<longrightarrow>
      (\<exists>s'. uvm_release filp s = Some (0, s') \<and>
            va_spaces s' = va_spaces s \<and> pm_lock s' = pm_lock s \<and>
            files s' filp = Some \<lparr>f_private_data = None, f_mapping = None\<rparr> \<and>
            vs \<in> set (deferred_release_q s') \<and>
            deferred_release_q s' =
              (if vs \<in> set (deferred_release_q s) then deferred_release_q s
               else deferred_release_q s @ [vs]) \<and>
            trace s' = trace s @ [AddressSpaceInitOnce vs])) \<and>
   (writer (pm_lock t) \<longrightarrow> uvm_release_deferred vs t = None) \<and>
   (\<not> writer (pm_lock t) \<longrightarrow>
      (\<exists>t'. uvm_release_deferred vs t = Some t' \<and>
            va_spaces t' = (va_spaces t)(vs := None) \<and>
            pm_lock t' = pm_lock t \<and>
            trace t' = trace t @ [PmDownRead, VaSpaceDestroy vs, PmUpRead]))"
  by (simp add: uvm_release_def uvm_release_deferred_def Let_def split_def
      pm_down_read_trylock_def down_read_trylock_def pm_down_read_def down_read_def
      pm_up_read_def up_read_def uvm_va_space_destroy_def nv_kthread_q_schedule_q_item_def
      log_event_def)

theorem uvm_release_deferral_witness:
  "uvm_va_space_get 0 (sample_sys NV_OK True 0) = Some 0 \<and>
   writer (pm_lock (sample_sys NV_OK True 0)) \<and>
   map_option fst sample_released = Some 0 \<and>
   map_option (\<lambda>r. deferred_release_q (snd r)) sample_released = Some [0] \<and>
   map_option (\<lambda>r. va_spaces (snd r) 0) sample_released = Some (Some sample_va_space) \<and>
   uvm_release_deferred 0 (sample_sys NV_OK True 0) = None \<and>
   \<not> writer (pm_lock sample_resumed) \<and>
   deferred_release_q sample_resumed = [0] \<and>
   map_option (\<lambda>t. (va_spaces t 0, trace t)) (uvm_release_deferred 0 sample_resumed) =
     Some (None, [AddressSpaceInitOnce 0, PmDownRead, VaSpaceDestroy 0, PmUpRead])"
proof -
  have h: "uvm_va_space_get 0 (sample_sys NV_OK True 0) = Some 0"
    "writer (pm_lock (sample_sys NV_OK True 0))"
    "deferred_release_q (sample_sys NV_OK True 0) = []"
    "trace (sample_sys NV_OK True 0) = []"
    "va_spaces (sample_sys NV_OK True 0) 0 = Some sample_va_space"
    by (simp_all add: uvm_va_space_get_def sample_sys_def)
  from uvm_release_deferral
         [where filp = 0 and s = "sample_sys NV_OK True 0" and vs = 0, THEN conjunct1] h
  obtain s' where r: "uvm_release 0 (sample_sys NV_OK True 0) = Some (0, s')"
    and s': "va_spaces s' = va_spaces (sample_sys NV_OK True 0)"
      "deferred_release_q s' = [0]" "trace s' = [AddressSpaceInitOnce 0]"
    by auto
  have rel: "sample_released = Some (0, s')"
    using r by (simp add: sample_released_def)
  have res: "sample_resumed = s'\<lparr>pm_lock := \<lparr>writer = False, readers = 0\<rparr>\<rparr>"
    by (simp add: sample_resumed_def rel)
  have b: "uvm_release_deferred 0 (sample_sys NV_OK True 0) = None"
    using uvm_release_deferral
            [where t = "sample_sys NV_OK True 0" and vs = 0, THEN conjunct2, THEN conjunct1] h
    by simp
  have nw: "\<not> writer (pm_lock sample_resumed)"
    by (simp add: res)
  from uvm_release_deferral
         [where t = sample_resumed and vs = 0, THEN conjunct2, THEN conjunct2] nw
  obtain t' where d: "uvm_release_deferred 0 sample_resumed = Some t'"
    and t': "va_spaces t' = (va_spaces sample_resumed)(0 := None)"
      "trace t' = trace sample_resumed @ [PmDownRead, VaSpaceDestroy 0, PmUpRead]"
    by auto
  have c: "map_option (\<lambda>t. (va_spaces t 0, trace t)) (uvm_release_deferred 0 sample_resumed) =
     Some (None, [AddressSpaceInitOnce 0, PmDownRead, VaSpaceDestroy 0, PmUpRead])"
    using d t' s' by (simp add: res)
  have k: "map_option fst sample_released = Some 0"
    "map_option (\<lambda>r. deferred_release_q (snd r)) sample_released = Some [0]"
    "map_option (\<lambda>r. va_spaces (snd r) 0) sample_released = Some (Some sample_va_space)"
    unfolding rel using s' h by simp_all
  have q: "deferred_release_q sample_resumed = [0]"
    using s' by (simp add: res)
  show ?thesis
    using h(1,2) k b nw q c by simp
qed

section \<open>Properties of the open callback of a managed mapping\<close>

lemma disable_effect:
  assumes "vmas s vid = Some vma"
  shows "\<exists>s'. uvm_disable_vma uc vid s = Some s' \<and>
     vmas s' = (vmas s)(vid \<mapsto> vma\<lparr>vm_ops := uvm_vm_ops_disabled, vm_private_data := PrivNull\<rparr>) \<and>
     wrappers s' = (case vm_private_data vma of PrivWrapper w \<Rightarrow> (wrappers s)(w := None) | _ \<Rightarrow> wrappers s) \<and>
     va_spaces s' = va_spaces s \<and> files s' = files s \<and>
     ptes s' = {pte \<in> ptes s. \<not> (Some (fst pte) = vma_file_mapping vma s \<and>
           push_bit (PAGE_SHIFT uc) (vm_pgoff vma) \<le> snd pte \<and>
           snd pte - push_bit (PAGE_SHIFT uc) (vm_pgoff vma) < vm_end vma - vm_start vma)}"
  using assms
  by (cases "vm_private_data vma")
     (auto simp: uvm_disable_vma_def Let_def unmap_mapping_range_def log_event_def
      uvm_vma_wrapper_destroy_def)


lemma destroy_all_eq:
  "destroy_or_zombify False rs v = v\<lparr>va_ranges := filter (\<lambda>x. x \<notin> set rs) (va_ranges v)\<rparr>"
proof (induction rs arbitrary: v)
  case Nil
  then show ?case by (simp add: destroy_or_zombify_def)
next
  case (Cons r rs)
  have "destroy_or_zombify False (r # rs) v = destroy_or_zombify False rs (uvm_va_range_destroy r v)"
    by (simp add: destroy_or_zombify_def)
  moreover have "filter (\<lambda>x. x \<notin> set rs) (filter (\<lambda>x. x \<noteq> r) (va_ranges v)) =
      filter (\<lambda>x. x \<notin> set (r # rs)) (va_ranges v)"
    by (auto intro: filter_cong)
  ultimately show ?case using Cons.IH[of "uvm_va_range_destroy r v"]
    by (simp add: uvm_va_range_destroy_def)
qed

lemma destroy_in_vma_eq:
  "destroy_or_zombify False (ranges_in_vma v vma) v =
     v\<lparr>va_ranges := filter (\<lambda>r. \<not> range_overlaps r (vm_start vma) (vm_end vma - 1)) (va_ranges v)\<rparr>"
proof -
  have "filter (\<lambda>x. x \<notin> set (ranges_in_vma v vma)) (va_ranges v) =
     filter (\<lambda>r. \<not> range_overlaps r (vm_start vma) (vm_end vma - 1)) (va_ranges v)"
    by (auto simp: ranges_in_vma_def intro: filter_cong)
  then show ?thesis by (simp add: destroy_all_eq)
qed

lemma destroy_managed_effect:
  assumes "vmas s oid = Some orig" "vm_private_data orig = PrivWrapper w0"
    "files s (vm_file orig) = Some f" "f_private_data f = Some vs" "va_spaces s vs = Some v"
  shows "uvm_destroy_vma_managed oid False s =
     Some (s\<lparr>va_spaces := (va_spaces s)(vs \<mapsto>
                 v\<lparr>va_ranges := filter (\<lambda>r. \<not> range_overlaps r (vm_start orig) (vm_end orig - 1))
                                  (va_ranges v)\<rparr>),
              vmas := (vmas s)(oid \<mapsto> orig\<lparr>vm_private_data := PrivNull\<rparr>),
              wrappers := (wrappers s)(w0 := None)\<rparr>)"
  using assms
  by (simp add: uvm_destroy_vma_managed_def uvm_va_space_get_def Let_def destroy_in_vma_eq
      uvm_vma_wrapper_destroy_def)


lemma open_failure_effect:
  assumes o: "vmas s oid = Some orig" and n: "vmas s nid = Some nv" and ne: "oid \<noteq> nid"
    and pw: "vm_private_data orig = PrivWrapper w0"
    and f: "files s (vm_file orig) = Some f" "f_private_data f = Some vs"
    and v: "va_spaces s vs = Some v"
  shows "\<exists>s'. uvm_vm_open_failure uc oid nid s = Some s' \<and>
     vmas s' = (vmas s)(oid \<mapsto> orig\<lparr>vm_ops := uvm_vm_ops_disabled, vm_private_data := PrivNull\<rparr>,
                        nid \<mapsto> nv\<lparr>vm_ops := uvm_vm_ops_disabled, vm_private_data := PrivNull\<rparr>) \<and>
     wrappers s' = (case vm_private_data nv of
                      PrivWrapper w \<Rightarrow> (wrappers s)(w0 := None, w := None)
                    | _ \<Rightarrow> (wrappers s)(w0 := None)) \<and>
     va_spaces s' = (va_spaces s)(vs \<mapsto>
                 v\<lparr>va_ranges := filter (\<lambda>r. \<not> range_overlaps r (vm_start orig) (vm_end orig - 1))
                                  (va_ranges v)\<rparr>) \<and>
     files s' = files s \<and>
     ptes s' = {pte \<in> ptes s. \<not> in_hole uc s orig pte \<and> \<not> in_hole uc s nv pte}"
proof -
  let ?s1 = "s\<lparr>va_spaces := (va_spaces s)(vs \<mapsto>
                 v\<lparr>va_ranges := filter (\<lambda>r. \<not> range_overlaps r (vm_start orig) (vm_end orig - 1))
                                  (va_ranges v)\<rparr>),
              vmas := (vmas s)(oid \<mapsto> orig\<lparr>vm_private_data := PrivNull\<rparr>),
              wrappers := (wrappers s)(w0 := None)\<rparr>"
  have d: "uvm_destroy_vma_managed oid False s = Some ?s1"
    by (rule destroy_managed_effect[OF o pw f v])
  have o1: "vmas ?s1 oid = Some (orig\<lparr>vm_private_data := PrivNull\<rparr>)" by simp
  from disable_effect[OF o1, of uc] obtain s2 where
    s2: "uvm_disable_vma uc oid ?s1 = Some s2"
      "vmas s2 = (vmas ?s1)(oid \<mapsto> orig\<lparr>vm_ops := uvm_vm_ops_disabled, vm_private_data := PrivNull\<rparr>)"
      "wrappers s2 = wrappers ?s1" "va_spaces s2 = va_spaces ?s1" "files s2 = files ?s1"
      "ptes s2 = {pte \<in> ptes ?s1. \<not> in_hole uc ?s1 (orig\<lparr>vm_private_data := PrivNull\<rparr>) pte}"
    by (auto simp: in_hole_def)
  have n2: "vmas s2 nid = Some nv" using s2(2) n ne by simp
  from disable_effect[OF n2, of uc] obtain s3 where
    s3: "uvm_disable_vma uc nid s2 = Some s3"
      "vmas s3 = (vmas s2)(nid \<mapsto> nv\<lparr>vm_ops := uvm_vm_ops_disabled, vm_private_data := PrivNull\<rparr>)"
      "wrappers s3 = (case vm_private_data nv of PrivWrapper w \<Rightarrow> (wrappers s2)(w := None) | _ \<Rightarrow> wrappers s2)"
      "va_spaces s3 = va_spaces s2" "files s3 = files s2"
      "ptes s3 = {pte \<in> ptes s2. \<not> in_hole uc s2 nv pte}"
    by (auto simp: in_hole_def)
  have r: "uvm_vm_open_failure uc oid nid s = Some s3"
    by (simp add: uvm_vm_open_failure_def d s2(1) s3(1))
  have h1: "in_hole uc ?s1 (orig\<lparr>vm_private_data := PrivNull\<rparr>) = in_hole uc s orig"
    by (rule ext) (simp add: in_hole_def vma_file_mapping_def)
  have h2: "in_hole uc s2 nv = in_hole uc s nv"
    by (rule ext) (simp add: in_hole_def vma_file_mapping_def s2(5))
  have "vmas s3 = (vmas s)(oid \<mapsto> orig\<lparr>vm_ops := uvm_vm_ops_disabled, vm_private_data := PrivNull\<rparr>,
                        nid \<mapsto> nv\<lparr>vm_ops := uvm_vm_ops_disabled, vm_private_data := PrivNull\<rparr>)"
    using s3(2) s2(2) by simp
  moreover have "wrappers s3 = (case vm_private_data nv of
                      PrivWrapper w \<Rightarrow> (wrappers s)(w0 := None, w := None)
                    | _ \<Rightarrow> (wrappers s)(w0 := None))"
    using s3(3) s2(3) by (simp split: private_data.splits)
  moreover have "va_spaces s3 = (va_spaces s)(vs \<mapsto>
                 v\<lparr>va_ranges := filter (\<lambda>r. \<not> range_overlaps r (vm_start orig) (vm_end orig - 1))
                                  (va_ranges v)\<rparr>)"
    using s3(4) s2(4) by simp
  moreover have "files s3 = files s" using s3(5) s2(5) by simp
  moreover have "ptes s3 = {pte \<in> ptes s. \<not> in_hole uc s orig pte \<and> \<not> in_hole uc s nv pte}"
    using s3(6) s2(6) by (auto simp: h1 h2)
  ultimately show ?thesis using r by blast
qed


lemma rwsem_write_cycle:
  "\<not> writer l \<Longrightarrow> up_write (l\<lparr>writer := True\<rparr>) = l"
  by (cases l) (simp add: up_write_def)

lemma find_lock_irrelevant:
  "uvm_va_range_find (v\<lparr>vs_lock := l\<rparr>) a = uvm_va_range_find v a"
  by (simp add: uvm_va_range_find_def)

text \<open>
  C2: a new mapping carved from a managed mapping of the same address space, aligned
  with one edge of the original, whose open callback fails to allocate the wrapper
  or fails to split the range record that spans the boundary. The callback returns;
  the original and the new mapping are both disabled (no page-table entry in their
  intervals, the vm operations that fail every fault installed, no wrapper), the
  original's wrapper and the new one are gone, and the VA space holds no range record
  that refers to the original mapping or to its wrapper: the records under the
  original are removed and the others are untouched. The range records that refer to
  the original are taken to lie under it, as the spec's invariant of the table says.
\<close>

theorem split_failure_disables_both:
  assumes n: "vmas s nid = Some vma0"
    and npw: "vm_private_data vma0 = PrivWrapper w0"
    and w0: "wrappers s w0 = Some oid"
    and o: "vmas s oid = Some orig"
    and ne: "oid \<noteq> nid"
    and opw: "vm_private_data orig = PrivWrapper w0"
    and split: "vm_mm vma0 = vm_mm orig"
      "vm_start vma0 = vm_start orig \<or> vm_end vma0 = vm_end orig"
    and fl: "vm_file vma0 = vm_file orig" "files s (vm_file orig) = Some f"
      "f_private_data f = Some vs"
    and v: "va_spaces s vs = Some v" "\<not> writer (vs_lock v)" "readers (vs_lock v) = 0"
    and fail: "wrapper_outcome env = None \<or>
        (\<exists>w r. wrapper_outcome env = Some w \<and> wrappers s w = None \<and>
           uvm_va_range_find v (if vm_start vma0 = vm_start orig then vm_end vma0 - 1
                                else vm_start vma0 - 1) = Some r \<and>
           node_end r \<noteq> (if vm_start vma0 = vm_start orig then vm_end vma0 - 1
                          else vm_start vma0 - 1) \<and>
           split_outcome env \<noteq> NV_OK)"
    and inv: "list_all (\<lambda>r. uvm_va_range_vma s r = Some oid \<longrightarrow>
                 range_overlaps r (vm_start orig) (vm_end orig - 1)) (va_ranges v)"
  shows "\<exists>s'. uvm_vm_open_managed uc env nid s = Some s' \<and>
           vma_disabled uc s' oid \<and> vma_disabled uc s' nid \<and>
           no_range_references s' vs oid w0 \<and>
           wrappers s' = (wrappers s)(w0 := None) \<and>
           va_spaces s' = (va_spaces s)(vs \<mapsto>
              v\<lparr>va_ranges := filter (\<lambda>r. \<not> range_overlaps r (vm_start orig) (vm_end orig - 1))
                               (va_ranges v)\<rparr>)"
proof -
  define vma where "vma = vma0\<lparr>vm_private_data := PrivNull\<rparr>"
  define s0 where "s0 = s\<lparr>vmas := (vmas s)(nid \<mapsto> vma)\<rparr>"
  define new_end where "new_end = (if vm_start vma0 = vm_start orig then vm_end vma0 - 1
                                else vm_start vma0 - 1)"
  define vl where "vl = v\<lparr>vs_lock := (vs_lock v)\<lparr>writer := True\<rparr>\<rparr>"
  define s1 where "s1 = s0\<lparr>va_spaces := (va_spaces s0)(vs \<mapsto> vl)\<rparr>"
  have dw: "uvm_va_space_down_write vs s0 = Some s1"
    using v by (simp add: uvm_va_space_down_write_def s0_def s1_def vl_def down_write_def)
  have top: "uvm_vm_open_managed uc env nid s =
      map_option (uvm_va_space_up_write vs)
        (open_managed_locked uc env oid nid vma vs new_end s1)"
    using n npw w0 o split fl dw
    by (auto simp add: uvm_vm_open_managed_def Let_def uvm_va_space_get_def new_end_def
        vma_def s0_def)
  have "\<exists>sF nv. open_managed_locked uc env oid nid vma vs new_end s1 =
            uvm_vm_open_failure uc oid nid sF \<and>
          vmas sF = (vmas s)(nid \<mapsto> nv) \<and> vm_file nv = vm_file orig \<and>
          vm_pgoff nv = vm_pgoff vma0 \<and> vm_start nv = vm_start vma0 \<and> vm_end nv = vm_end vma0 \<and>
          files sF = files s \<and> va_spaces sF = (va_spaces s)(vs \<mapsto> vl) \<and> ptes sF = ptes s \<and>
          (case vm_private_data nv of
             PrivWrapper w \<Rightarrow> (wrappers sF)(w0 := None, w := None)
           | _ \<Rightarrow> (wrappers sF)(w0 := None)) = (wrappers s)(w0 := None)"
    using fail
  proof (elim disjE exE conjE)
    assume "wrapper_outcome env = None"
    then have "open_managed_locked uc env oid nid vma vs new_end s1 =
            uvm_vm_open_failure uc oid nid s1"
      by (simp add: open_managed_locked_def uvm_vma_wrapper_alloc_def)
    moreover have "vmas s1 = (vmas s)(nid \<mapsto> vma)" "files s1 = files s"
      "va_spaces s1 = (va_spaces s)(vs \<mapsto> vl)" "ptes s1 = ptes s" "wrappers s1 = wrappers s"
      by (simp_all add: s1_def s0_def)
    moreover have "vm_file vma = vm_file orig" "vm_private_data vma = PrivNull"
      "vm_pgoff vma = vm_pgoff vma0" "vm_start vma = vm_start vma0" "vm_end vma = vm_end vma0"
      using fl by (simp_all add: vma_def)
    ultimately show ?thesis
      by (intro exI[of _ s1] exI[of _ vma]) simp
  next
    fix w r
    assume a: "wrapper_outcome env = Some w" "wrappers s w = None"
      "uvm_va_range_find v (if vm_start vma0 = vm_start orig then vm_end vma0 - 1
                                else vm_start vma0 - 1) = Some r"
      "node_end r \<noteq> (if vm_start vma0 = vm_start orig then vm_end vma0 - 1
                          else vm_start vma0 - 1)"
      "split_outcome env \<noteq> NV_OK"
    define s3 where "s3 = s1\<lparr>vmas := (vmas s1)(nid \<mapsto> vma\<lparr>vm_private_data := PrivWrapper w\<rparr>),
                           wrappers := (wrappers s1)(w \<mapsto> nid)\<rparr>"
    have ws1: "wrappers s1 w = None" using a(2) by (simp add: s1_def s0_def)
    have vs3: "va_spaces s3 vs = Some vl" by (simp add: s3_def s1_def)
    have fnd: "uvm_va_range_find vl new_end = Some r"
      using a(3) by (simp add: vl_def find_lock_irrelevant new_end_def)
    have al: "uvm_vma_wrapper_alloc nid (wrapper_outcome env) s1 =
        (Some w, s1\<lparr>wrappers := (wrappers s1)(w \<mapsto> nid)\<rparr>)"
      using a(1) ws1 by (simp add: uvm_vma_wrapper_alloc_def)
    have sp: "uvm_va_range_split r new_end (split_outcome env) vl = (split_outcome env, vl)"
      using a(5) by (simp add: uvm_va_range_split_def)
    have s3': "(s1\<lparr>wrappers := (wrappers s1)(w \<mapsto> nid)\<rparr>)
        \<lparr>vmas := (vmas (s1\<lparr>wrappers := (wrappers s1)(w \<mapsto> nid)\<rparr>))
                   (nid \<mapsto> vma\<lparr>vm_private_data := PrivWrapper w\<rparr>)\<rparr> = s3"
      by (simp add: s3_def)
    have ne': "node_end r \<noteq> new_end"
      using a(4) by (simp add: new_end_def)
    have "open_managed_locked uc env oid nid vma vs new_end s1 =
            uvm_vm_open_failure uc oid nid s3"
      unfolding open_managed_locked_def al Let_def prod.case option.case s3'
      using vs3 fnd sp ne' a(5) by simp
    moreover have "vmas s3 = (vmas s)(nid \<mapsto> vma\<lparr>vm_private_data := PrivWrapper w\<rparr>)"
      "files s3 = files s" "va_spaces s3 = (va_spaces s)(vs \<mapsto> vl)" "ptes s3 = ptes s"
      "wrappers s3 = (wrappers s)(w \<mapsto> nid)"
      by (simp_all add: s3_def s1_def s0_def)
    moreover have "(wrappers s)(w \<mapsto> nid, w0 := None, w := None) = (wrappers s)(w0 := None)"
      using a(2) by (auto simp: fun_eq_iff)
    moreover have "vm_file (vma\<lparr>vm_private_data := PrivWrapper w\<rparr>) = vm_file orig"
      "vm_pgoff (vma\<lparr>vm_private_data := PrivWrapper w\<rparr>) = vm_pgoff vma0"
      "vm_start (vma\<lparr>vm_private_data := PrivWrapper w\<rparr>) = vm_start vma0"
      "vm_end (vma\<lparr>vm_private_data := PrivWrapper w\<rparr>) = vm_end vma0"
      using fl by (simp_all add: vma_def)
    ultimately show ?thesis
      by (intro exI[of _ s3] exI[of _ "vma\<lparr>vm_private_data := PrivWrapper w\<rparr>"]) simp
  qed
  then obtain sF nv where
    L: "open_managed_locked uc env oid nid vma vs new_end s1 = uvm_vm_open_failure uc oid nid sF"
    and F: "vmas sF = (vmas s)(nid \<mapsto> nv)" "vm_file nv = vm_file orig"
      "files sF = files s" "va_spaces sF = (va_spaces s)(vs \<mapsto> vl)" "ptes sF = ptes s"
    and W: "(case vm_private_data nv of
             PrivWrapper w \<Rightarrow> (wrappers sF)(w0 := None, w := None)
           | _ \<Rightarrow> (wrappers sF)(w0 := None)) = (wrappers s)(w0 := None)"
    by blast
  have oF: "vmas sF oid = Some orig" "vmas sF nid = Some nv"
    using F(1) o ne by simp_all
  have fF: "files sF (vm_file orig) = Some f" using F(3) fl by simp
  have vF: "va_spaces sF vs = Some vl" using F(4) by simp
  from open_failure_effect[OF oF(1) oF(2) ne opw fF fl(3) vF, of uc] obtain s4 where
    s4: "uvm_vm_open_failure uc oid nid sF = Some s4"
      "vmas s4 = (vmas sF)(oid \<mapsto> orig\<lparr>vm_ops := uvm_vm_ops_disabled, vm_private_data := PrivNull\<rparr>,
                        nid \<mapsto> nv\<lparr>vm_ops := uvm_vm_ops_disabled, vm_private_data := PrivNull\<rparr>)"
      "wrappers s4 = (wrappers s)(w0 := None)"
      "va_spaces s4 = (va_spaces sF)(vs \<mapsto>
                 vl\<lparr>va_ranges := filter (\<lambda>r. \<not> range_overlaps r (vm_start orig) (vm_end orig - 1))
                                  (va_ranges vl)\<rparr>)"
      "files s4 = files sF"
      "ptes s4 = {pte \<in> ptes sF. \<not> in_hole uc sF orig pte \<and> \<not> in_hole uc sF nv pte}"
    using W by auto
  define s5 where "s5 = uvm_va_space_up_write vs s4"
  have res: "uvm_vm_open_managed uc env nid s = Some s5"
    by (simp add: top L s4(1) s5_def)
  let ?keep = "filter (\<lambda>r. \<not> range_overlaps r (vm_start orig) (vm_end orig - 1)) (va_ranges v)"
  have vs5: "va_spaces s5 = (va_spaces s)(vs \<mapsto> v\<lparr>va_ranges := ?keep\<rparr>)"
    using s4(4) F(4) v(2) rwsem_write_cycle[OF v(2)]
    by (simp add: s5_def uvm_va_space_up_write_def vl_def)
  have m5: "vmas s5 = vmas s4" "wrappers s5 = wrappers s4" "files s5 = files s4" "ptes s5 = ptes s4"
    by (simp_all add: s5_def uvm_va_space_up_write_def split: option.splits)
  have hole: "in_hole uc s5 x = in_hole uc sF x" for x
    by (rule ext) (simp add: in_hole_def vma_file_mapping_def m5 s4(5))
  have d1: "vma_disabled uc s5 oid"
    using s4(2) ne s4(6)
    by (auto simp: vma_disabled_def m5 vma_unmapped_def hole in_hole_def vma_file_mapping_def)
  have d2: "vma_disabled uc s5 nid"
    using s4(2) ne s4(6)
    by (auto simp: vma_disabled_def m5 vma_unmapped_def hole in_hole_def vma_file_mapping_def)
  have nr: "no_range_references s5 vs oid w0"
  proof -
    have "vma_wrapper r \<noteq> Some w0 \<and> uvm_va_range_vma s5 r \<noteq> Some oid" if "r \<in> set ?keep" for r
    proof -
      from that have rv: "r \<in> set (va_ranges v)"
        and no: "\<not> range_overlaps r (vm_start orig) (vm_end orig - 1)" by simp_all
      from inv rv no have x: "uvm_va_range_vma s r \<noteq> Some oid"
        by (auto simp: list_all_iff)
      then have "vma_wrapper r \<noteq> Some w0"
        using w0 by (auto simp: uvm_va_range_vma_def)
      moreover have "uvm_va_range_vma s5 r \<noteq> Some oid"
        using x by (auto simp: uvm_va_range_vma_def m5 s4(3) split: option.splits)
      ultimately show ?thesis by blast
    qed
    then show ?thesis
      by (simp add: no_range_references_def vs5 list_all_iff)
  qed
  show ?thesis
    using res d1 d2 nr vs5 m5(2) s4(3) by auto
qed

theorem split_failure_disables_both_witness:
  "vmas split_sys 2 = Some (sample_vma\<lparr>vm_end := 0x7f0000100000\<rparr>) \<and>
   vmas split_sys 1 = Some sample_vma \<and>
   wrappers split_sys 0 = Some 1 \<and>
   wrapper_outcome failing_split_env = Some 3 \<and> wrappers split_sys 3 = None \<and>
   split_outcome failing_split_env \<noteq> NV_OK \<and>
   (\<exists>s'. uvm_vm_open_managed sample_uvm_config failing_split_env 2 split_sys = Some s' \<and>
         vma_disabled sample_uvm_config s' 1 \<and> vma_disabled sample_uvm_config s' 2 \<and>
         no_range_references s' 0 1 0 \<and>
         wrappers s' = [5 \<mapsto> 9] \<and>
         map_option va_ranges (va_spaces s' 0) =
           Some [sample_range 0x7f1000000000 0x7f1000000fff 5])"
proof -
  let ?v = "sample_va_space
                 \<lparr>va_ranges := [sample_range 0x7f0000000000 0x7f00001fffff 0,
                                sample_range 0x7f1000000000 0x7f1000000fff 5]\<rparr>"
  let ?new = "sample_vma\<lparr>vm_end := 0x7f0000100000\<rparr>"
  have n: "vmas split_sys 2 = Some ?new" and o: "vmas split_sys 1 = Some sample_vma"
    and w0: "wrappers split_sys 0 = Some 1" and w3: "wrappers split_sys 3 = None"
    and f: "files split_sys (vm_file sample_vma) = Some \<lparr>f_private_data = Some 0, f_mapping = Some 0\<rparr>"
    and v: "va_spaces split_sys 0 = Some ?v"
    by (simp_all add: split_sys_def sample_sys_def sample_vma_def)
  have pw: "vm_private_data ?new = PrivWrapper 0" "vm_private_data sample_vma = PrivWrapper 0"
    "vm_mm ?new = vm_mm sample_vma" "vm_start ?new = vm_start sample_vma"
    "vm_file ?new = vm_file sample_vma"
    by (simp_all add: sample_vma_def)
  have l: "\<not> writer (vs_lock ?v)" "readers (vs_lock ?v) = 0"
    by (simp_all add: sample_va_space_def)
  have e: "wrapper_outcome failing_split_env = Some 3" "split_outcome failing_split_env \<noteq> NV_OK"
    by (simp_all add: failing_split_env_def)
  have fnd: "uvm_va_range_find ?v (if vm_start ?new = vm_start sample_vma then vm_end ?new - 1
                                else vm_start ?new - 1) =
        Some (sample_range 0x7f0000000000 0x7f00001fffff 0)"
    "node_end (sample_range 0x7f0000000000 0x7f00001fffff 0) \<noteq>
       (if vm_start ?new = vm_start sample_vma then vm_end ?new - 1 else vm_start ?new - 1)"
    by (simp_all add: uvm_va_range_find_def range_contains_def sample_range_def sample_vma_def
        sample_va_space_def)
  have fail: "wrapper_outcome failing_split_env = None \<or>
        (\<exists>w r. wrapper_outcome failing_split_env = Some w \<and> wrappers split_sys w = None \<and>
           uvm_va_range_find ?v (if vm_start ?new = vm_start sample_vma then vm_end ?new - 1
                                else vm_start ?new - 1) = Some r \<and>
           node_end r \<noteq> (if vm_start ?new = vm_start sample_vma then vm_end ?new - 1
                          else vm_start ?new - 1) \<and>
           split_outcome failing_split_env \<noteq> NV_OK)"
    using e w3 fnd by blast
  have inv: "list_all (\<lambda>r. uvm_va_range_vma split_sys r = Some 1 \<longrightarrow>
                 range_overlaps r (vm_start sample_vma) (vm_end sample_vma - 1)) (va_ranges ?v)"
    by (simp add: uvm_va_range_vma_def range_overlaps_def sample_range_def sample_vma_def
        sample_va_space_def split_sys_def)
  have keep: "filter (\<lambda>r. \<not> range_overlaps r (vm_start sample_vma) (vm_end sample_vma - 1))
         (va_ranges ?v) = [sample_range 0x7f1000000000 0x7f1000000fff 5]"
    by (simp add: range_overlaps_def sample_range_def sample_vma_def sample_va_space_def)
  have wr: "(wrappers split_sys)(0 := None) = [5 \<mapsto> 9]"
    by (auto simp: split_sys_def fun_eq_iff)
  from split_failure_disables_both
         [of split_sys 2 ?new 0 1 sample_vma "\<lparr>f_private_data = Some 0, f_mapping = Some 0\<rparr>" 0 ?v
             failing_split_env sample_uvm_config,
          OF n pw(1) w0 o _ pw(2) pw(3) _ pw(5) f _ v l fail inv]
  obtain s' where
    r: "uvm_vm_open_managed sample_uvm_config failing_split_env 2 split_sys = Some s'"
      "vma_disabled sample_uvm_config s' 1" "vma_disabled sample_uvm_config s' 2"
      "no_range_references s' 0 1 0" "wrappers s' = (wrappers split_sys)(0 := None)"
      "va_spaces s' = (va_spaces split_sys)(0 \<mapsto>
          ?v\<lparr>va_ranges := filter (\<lambda>r. \<not> range_overlaps r (vm_start sample_vma)
                                        (vm_end sample_vma - 1)) (va_ranges ?v)\<rparr>)"
    using pw(4) by auto
  have "map_option va_ranges (va_spaces s' 0) =
           Some [sample_range 0x7f1000000000 0x7f1000000fff 5]"
    by (simp add: r(6)[unfolded keep])
  with r wr have "\<exists>s'. uvm_vm_open_managed sample_uvm_config failing_split_env 2 split_sys = Some s' \<and>
         vma_disabled sample_uvm_config s' 1 \<and> vma_disabled sample_uvm_config s' 2 \<and>
         no_range_references s' 0 1 0 \<and>
         wrappers s' = [5 \<mapsto> 9] \<and>
         map_option va_ranges (va_spaces s' 0) =
           Some [sample_range 0x7f1000000000 0x7f1000000fff 5]"
    by auto
  then show ?thesis
    using n o w0 w3 e by blast
qed

section \<open>Properties of mapping establishment\<close>

text \<open>
  C6, as the spec states it, returns the invalid-argument error for every request
  whose offset differs from its start address. On a VA space that has not been
  initialised the check of the VA space comes first and such a request gets
  \<^verbatim>\<open>-EBADFD\<close>.
\<close>

theorem uvm_mmap_bad_offset_counterexample:
  "vmas (mmap_sys (NV_ERR_OTHER 1) 0x7f0000001 0xfb) 1 \<noteq> None \<and>
   vm_start (the (vmas (mmap_sys (NV_ERR_OTHER 1) 0x7f0000001 0xfb) 1)) \<noteq>
     push_bit (PAGE_SHIFT sample_uvm_config)
       (vm_pgoff (the (vmas (mmap_sys (NV_ERR_OTHER 1) 0x7f0000001 0xfb) 1))) \<and>
   uvm_mmap sample_uvm_config sample_mmap_env 0 1 (mmap_sys (NV_ERR_OTHER 1) 0x7f0000001 0xfb) =
     Some (- EBADFD, mmap_sys (NV_ERR_OTHER 1) 0x7f0000001 0xfb) \<and>
   - EBADFD \<noteq> - EINVAL"
  by (simp add: uvm_mmap_def mmap_sys_def sample_sys_def sample_va_space_def sample_vma_def
      sample_uvm_config_def uvm_va_space_get_def EBADFD_def EINVAL_def)

text \<open>
  C6 (amended): a request whose file offset (the page offset shifted by the page
  shift) differs from its start address, or whose flags lack one of shared, readable
  and writable, never establishes a mapping: whenever \<^verbatim>\<open>uvm_mmap\<close> returns on it, the
  state is the one it was called in, so no range record is created and the mapping is
  as it was. Each of the earlier checks returns its own error when it fails: the
  negated errno of the global status when that is not \<^verbatim>\<open>NV_OK\<close>, else \<^verbatim>\<open>-EBADFD\<close> when
  the VA space is not initialised, else \<^verbatim>\<open>-EOPNOTSUPP\<close> when the VA space is tied to
  the \<^verbatim>\<open>mm\<close> of another process than the calling one. When all of them pass, the
  result is \<^verbatim>\<open>-EINVAL\<close>.
\<close>

theorem uvm_mmap_rejects:
  assumes "vmas s vma_id = Some vma"
    and "vm_start vma \<noteq> push_bit (PAGE_SHIFT uc) (vm_pgoff vma) \<or>
         vm_flags vma AND (VM_SHARED OR (VM_READ OR VM_WRITE)) \<noteq>
           (VM_SHARED OR (VM_READ OR VM_WRITE))"
  shows "(uvm_mmap uc env filp vma_id s = Some (ret, s') \<longrightarrow>
            s' = s \<and>
            ret \<in> {- nv_status_to_errno env (global_status s), - EBADFD, - EOPNOTSUPP, - EINVAL}) \<and>
         (global_status s \<noteq> NV_OK \<longrightarrow>
            uvm_mmap uc env filp vma_id s =
              Some (- nv_status_to_errno env (global_status s), s)) \<and>
         (global_status s = NV_OK \<and> uvm_va_space_get filp s = Some vs \<and>
          va_spaces s vs = Some v \<and> vs_initialized v \<noteq> NV_OK \<longrightarrow>
            uvm_mmap uc env filp vma_id s = Some (- EBADFD, s)) \<and>
         (global_status s = NV_OK \<and> uvm_va_space_get filp s = Some vs \<and>
          va_spaces s vs = Some v \<and> vs_initialized v = NV_OK \<and>
          va_space_mm v = Some mm \<and> mm \<noteq> current_mm env \<longrightarrow>
            uvm_mmap uc env filp vma_id s = Some (- EOPNOTSUPP, s)) \<and>
         (global_status s = NV_OK \<and> uvm_va_space_get filp s = Some vs \<and>
          va_spaces s vs = Some v \<and> vs_initialized v = NV_OK \<and>
          (va_space_mm v = None \<or> va_space_mm v = Some (current_mm env)) \<longrightarrow>
            uvm_mmap uc env filp vma_id s = Some (- EINVAL, s))"
  using assms
  by (auto simp: uvm_mmap_def Let_def split: option.splits if_splits)

theorem uvm_mmap_rejects_witness:
  "vmas (mmap_sys NV_OK 0x7f0000001 0xfb) 1 =
     Some (sample_vma\<lparr>vm_pgoff := 0x7f0000001, vm_flags := 0xfb, vm_ops := no_vm_ops,
                      vm_private_data := PrivNull\<rparr>) \<and>
   vm_start sample_vma \<noteq> push_bit (PAGE_SHIFT sample_uvm_config) (0x7f0000001 :: 64 word) \<and>
   uvm_mmap sample_uvm_config sample_mmap_env 0 1 (mmap_sys NV_OK 0x7f0000001 0xfb) =
     Some (- EINVAL, mmap_sys NV_OK 0x7f0000001 0xfb) \<and>
   vmas (mmap_sys NV_OK 0x7f0000000 0xf9) 1 =
     Some (sample_vma\<lparr>vm_pgoff := 0x7f0000000, vm_flags := 0xf9, vm_ops := no_vm_ops,
                      vm_private_data := PrivNull\<rparr>) \<and>
   (0xf9 :: 64 word) AND (VM_SHARED OR (VM_READ OR VM_WRITE)) \<noteq>
     VM_SHARED OR (VM_READ OR VM_WRITE) \<and>
   uvm_mmap sample_uvm_config sample_mmap_env 0 1 (mmap_sys NV_OK 0x7f0000000 0xf9) =
     Some (- EINVAL, mmap_sys NV_OK 0x7f0000000 0xf9) \<and>
   uvm_mmap sample_uvm_config sample_mmap_env 0 1 mmap_sys_global_error =
     Some (- ENOMEM, mmap_sys_global_error) \<and>
   uvm_mmap sample_uvm_config sample_mmap_env 0 1 (mmap_sys (NV_ERR_OTHER 1) 0x7f0000001 0xfb) =
     Some (- EBADFD, mmap_sys (NV_ERR_OTHER 1) 0x7f0000001 0xfb) \<and>
   uvm_mmap sample_uvm_config sample_mmap_env 0 1 mmap_sys_other_mm =
     Some (- EOPNOTSUPP, mmap_sys_other_mm) \<and>
   card {- ENOMEM, - EBADFD, - EOPNOTSUPP, - EINVAL} = 4"
proof -
  let ?bad_off = "sample_vma\<lparr>vm_pgoff := 0x7f0000001, vm_flags := 0xfb, vm_ops := no_vm_ops,
                      vm_private_data := PrivNull\<rparr>"
  let ?bad_flags = "sample_vma\<lparr>vm_pgoff := 0x7f0000000, vm_flags := 0xf9, vm_ops := no_vm_ops,
                      vm_private_data := PrivNull\<rparr>"
  have v: "vmas (mmap_sys NV_OK 0x7f0000001 0xfb) 1 = Some ?bad_off"
    "vmas (mmap_sys NV_OK 0x7f0000000 0xf9) 1 = Some ?bad_flags"
    "vmas mmap_sys_global_error 1 = Some ?bad_off"
    "vmas (mmap_sys (NV_ERR_OTHER 1) 0x7f0000001 0xfb) 1 = Some ?bad_off"
    "vmas mmap_sys_other_mm 1 = Some ?bad_off"
    by (simp_all add: mmap_sys_def mmap_sys_global_error_def mmap_sys_other_mm_def)
  have b1: "vm_start sample_vma \<noteq>
      push_bit (PAGE_SHIFT sample_uvm_config) (0x7f0000001 :: 64 word)"
    by (simp add: sample_vma_def sample_uvm_config_def)
  have b2: "(0xf9 :: 64 word) AND (VM_SHARED OR (VM_READ OR VM_WRITE)) \<noteq>
      VM_SHARED OR (VM_READ OR VM_WRITE)"
    by (simp add: VM_SHARED_def VM_READ_def VM_WRITE_def)
  have g: "global_status (mmap_sys i p fl) = NV_OK"
    "uvm_va_space_get 0 (mmap_sys i p fl) = Some 0"
    "va_spaces (mmap_sys i p fl) 0 = Some (sample_va_space\<lparr>vs_initialized := i\<rparr>)"
    "vs_initialized (sample_va_space\<lparr>vs_initialized := i\<rparr>) = i"
    "va_space_mm (sample_va_space\<lparr>vs_initialized := i\<rparr>) = None" for i p fl
    by (simp_all add: mmap_sys_def sample_sys_def uvm_va_space_get_def sample_va_space_def)
  have ge: "global_status mmap_sys_global_error = NV_ERR_NO_MEMORY"
    "nv_status_to_errno sample_mmap_env NV_ERR_NO_MEMORY = ENOMEM"
    by (simp_all add: mmap_sys_global_error_def sample_mmap_env_def)
  have gm: "global_status mmap_sys_other_mm = NV_OK"
    "uvm_va_space_get 0 mmap_sys_other_mm = Some 0"
    "va_spaces mmap_sys_other_mm 0 = Some (sample_va_space\<lparr>va_space_mm := Some 2\<rparr>)"
    "vs_initialized (sample_va_space\<lparr>va_space_mm := Some 2\<rparr>) = NV_OK"
    "va_space_mm (sample_va_space\<lparr>va_space_mm := Some 2\<rparr>) = Some 2"
    "2 \<noteq> current_mm sample_mmap_env"
    by (simp_all add: mmap_sys_other_mm_def mmap_sys_def sample_sys_def uvm_va_space_get_def
        sample_va_space_def sample_mmap_env_def)
  have h1: "vm_start ?bad_off \<noteq> push_bit (PAGE_SHIFT sample_uvm_config) (vm_pgoff ?bad_off) \<or>
      vm_flags ?bad_off AND (VM_SHARED OR (VM_READ OR VM_WRITE)) \<noteq>
        (VM_SHARED OR (VM_READ OR VM_WRITE))"
    using b1 by simp
  have h2: "vm_start ?bad_flags \<noteq> push_bit (PAGE_SHIFT sample_uvm_config) (vm_pgoff ?bad_flags) \<or>
      vm_flags ?bad_flags AND (VM_SHARED OR (VM_READ OR VM_WRITE)) \<noteq>
        (VM_SHARED OR (VM_READ OR VM_WRITE))"
    using b2 by simp
  have r1: "uvm_mmap sample_uvm_config sample_mmap_env 0 1 (mmap_sys NV_OK 0x7f0000001 0xfb) =
     Some (- EINVAL, mmap_sys NV_OK 0x7f0000001 0xfb)"
    using uvm_mmap_rejects[OF v(1) h1, where env = sample_mmap_env and filp = 0 and vs = 0
            and v = "sample_va_space\<lparr>vs_initialized := NV_OK\<rparr>",
            THEN conjunct2, THEN conjunct2, THEN conjunct2, THEN conjunct2] g
    by simp
  have r2: "uvm_mmap sample_uvm_config sample_mmap_env 0 1 (mmap_sys NV_OK 0x7f0000000 0xf9) =
     Some (- EINVAL, mmap_sys NV_OK 0x7f0000000 0xf9)"
    using uvm_mmap_rejects[OF v(2) h2, where env = sample_mmap_env and filp = 0 and vs = 0
            and v = "sample_va_space\<lparr>vs_initialized := NV_OK\<rparr>",
            THEN conjunct2, THEN conjunct2, THEN conjunct2, THEN conjunct2] g
    by simp
  have r3: "uvm_mmap sample_uvm_config sample_mmap_env 0 1 mmap_sys_global_error =
     Some (- ENOMEM, mmap_sys_global_error)"
    using uvm_mmap_rejects[OF v(3) h1, where env = sample_mmap_env and filp = 0,
            THEN conjunct2, THEN conjunct1] ge
    by simp
  have r4: "uvm_mmap sample_uvm_config sample_mmap_env 0 1
              (mmap_sys (NV_ERR_OTHER 1) 0x7f0000001 0xfb) =
     Some (- EBADFD, mmap_sys (NV_ERR_OTHER 1) 0x7f0000001 0xfb)"
    using uvm_mmap_rejects[OF v(4) h1, where env = sample_mmap_env and filp = 0 and vs = 0
            and v = "sample_va_space\<lparr>vs_initialized := NV_ERR_OTHER 1\<rparr>",
            THEN conjunct2, THEN conjunct2, THEN conjunct1] g
    by simp
  have r5: "uvm_mmap sample_uvm_config sample_mmap_env 0 1 mmap_sys_other_mm =
     Some (- EOPNOTSUPP, mmap_sys_other_mm)"
    using uvm_mmap_rejects[OF v(5) h1, where env = sample_mmap_env and filp = 0 and vs = 0
            and v = "sample_va_space\<lparr>va_space_mm := Some 2\<rparr>" and mm = 2,
            THEN conjunct2, THEN conjunct2, THEN conjunct2, THEN conjunct1] gm
    by simp
  have d: "card {- ENOMEM, - EBADFD, - EOPNOTSUPP, - EINVAL} = 4"
    by (simp add: ENOMEM_def EBADFD_def EOPNOTSUPP_def EINVAL_def)
  show ?thesis
    using v(1,2) b1 b2 r1 r2 r3 r4 r5 d by simp
qed

end
